theory Spec2Isabelle
  imports Complex_Main
begin

section \<open>JavaScript values and exceptions\<close>

text \<open>
  The backend is JavaScript: the oracle's reply is whatever \<^verbatim>\<open>JSON.parse\<close> returns, and
  the services test it with truthiness, \<^verbatim>\<open>typeof\<close> and \<^verbatim>\<open>Array.isArray\<close>. Values are
  modelled as a datatype; numbers are the real numbers the doubles denote (the
  comparison of two finite doubles is the comparison of these reals;
  \<^verbatim>\<open>JSON.parse\<close> yields no NaN, and a text it would read as an infinity is left
  out), and a numeric literal of the code is the double it denotes. An object is its
  list of properties, looked up by name.
\<close>

datatype jsval =
    JUndefined
  | JNull
  | JBool bool
  | JNum real
  | JStr string
  | JArr "jsval list"
  | JObj "(string \<times> jsval) list"

text \<open>
  A thrown exception is a value. \<open>Error\<close> carries the message of \<^verbatim>\<open>new Error(msg)\<close>;
  \<open>ErrorAt p i s\<close> is the message of a template \<^verbatim>\<open>`p${i}s`\<close> with an index in it;
  \<open>TypeError\<close> is the engine's failure of a property read on \<^verbatim>\<open>null\<close> or
  \<^verbatim>\<open>undefined\<close>, with the property read; \<open>CastError\<close> is the store's refusal of a
  malformed identifier in a query; \<open>StoreValidationError\<close> is what \<^verbatim>\<open>save()\<close> throws
  for a document that holds a value its schema refused; the last three are the classes
  of \<^verbatim>\<open>middleware/errorHandler.js\<close>.
\<close>

datatype exn =
    Error string
  | ErrorAt string nat string
  | TypeError string
  | CastError string
  | StoreValidationError
  | ValidationError string
  | NotFoundError string
  | DuplicateError nat

text \<open>\<^verbatim>\<open>s.includes(pat)\<close>: \<open>pat\<close> occurs in \<open>s\<close> as a contiguous run.\<close>

fun str_includes :: "string \<Rightarrow> string \<Rightarrow> bool" where
  "str_includes [] pat = (pat = [])"
| "str_includes (c # cs) pat = (take (length pat) (c # cs) = pat \<or> str_includes cs pat)"

text \<open>Truthiness, as \<^verbatim>\<open>!v\<close> and \<^verbatim>\<open>v || d\<close> test it.\<close>

fun truthy :: "jsval \<Rightarrow> bool" where
  "truthy JUndefined = False"
| "truthy JNull = False"
| "truthy (JBool b) = b"
| "truthy (JNum x) = (x \<noteq> 0)"
| "truthy (JStr s) = (s \<noteq> [])"
| "truthy (JArr xs) = True"
| "truthy (JObj kvs) = True"

fun isArray :: "jsval \<Rightarrow> bool" where
  "isArray (JArr xs) = True"
| "isArray v = False"

text \<open>\<^verbatim>\<open>typeof v === 'number'\<close>\<close>

fun is_number :: "jsval \<Rightarrow> bool" where
  "is_number (JNum x) = True"
| "is_number v = False"

fun nullish :: "jsval \<Rightarrow> bool" where
  "nullish JUndefined = True"
| "nullish JNull = True"
| "nullish v = False"

text \<open>
  The property read \<^verbatim>\<open>v.k\<close> for the property names the services use (none of them is
  a property of a string, a number, a boolean or an array): an object answers with the
  property's value or \<^verbatim>\<open>undefined\<close>, any other value but \<^verbatim>\<open>null\<close> and
  \<^verbatim>\<open>undefined\<close> with \<^verbatim>\<open>undefined\<close>. On \<^verbatim>\<open>null\<close> and \<^verbatim>\<open>undefined\<close> the read throws
  a \<^verbatim>\<open>TypeError\<close>: \<open>field\<close> is the read of a value that is not nullish, and every
  function below tests \<open>nullish\<close> before the first read of a value.
\<close>

fun field :: "jsval \<Rightarrow> string \<Rightarrow> jsval" where
  "field (JObj kvs) k = (case map_of kvs k of None \<Rightarrow> JUndefined | Some v \<Rightarrow> v)"
| "field v k = JUndefined"

text \<open>
  The assignment \<^verbatim>\<open>v.k = x\<close> mutates the object \<open>v\<close>: the model returns the object
  with the property replaced where it stands, or added last. The services assign only
  to values on which a named property has just been read truthy, which are objects.
\<close>

fun alist_set :: "(string \<times> jsval) list \<Rightarrow> string \<Rightarrow> jsval \<Rightarrow> (string \<times> jsval) list" where
  "alist_set [] k x = [(k, x)]"
| "alist_set ((k', y) # kvs) k x = (if k' = k then (k, x) # kvs else (k', y) # alist_set kvs k x)"

fun set_prop :: "jsval \<Rightarrow> string \<Rightarrow> jsval \<Rightarrow> jsval" where
  "set_prop (JObj kvs) k x = JObj (alist_set kvs k x)"
| "set_prop v k x = v"

section \<open>The documents of the store\<close>

text \<open>
  An \<^verbatim>\<open>ObjectId\<close> is written as its canonical text, 24 lower-case hexadecimal digits.
  Times are milliseconds as natural numbers.
\<close>

type_synonym oid = string

datatype rfp_status = Draft | Sent | ReceivingProposals | Closed

datatype proposal_status = Received | Parsed | Reviewed

text \<open>\<^verbatim>\<open>models/RFP.js\<close>: \<open>rfp_vendors\<close> is the list of \<open>(vendor_id, sent_at)\<close> entries.\<close>

record rfp =
  rfp_oid :: oid
  rfp_title :: string
  rfp_structured_data :: jsval
  rfp_status :: rfp_status
  rfp_vendors :: "(oid \<times> nat) list"

text \<open>\<^verbatim>\<open>models/Vendor.js\<close>; the schema stores \<open>email\<close> trimmed and in lower case.\<close>

record vendor =
  vendor_oid :: oid
  vendor_name :: string
  vendor_email :: string

record raw_email =
  raw_from :: "string option"
  raw_subject :: "string option"
  raw_body :: "string option"
  raw_attachments :: "string list"

text \<open>
  A path of a stored document is not set, holds \<^verbatim>\<open>null\<close>, or holds a value of the
  type its schema declares.
\<close>

datatype 'a stored = Unset | Null | Stored 'a

text \<open>
  \<^verbatim>\<open>models/Proposal.js\<close>. \<^verbatim>\<open>parsed_data\<close> holds the paths the schema declares and no
  other; an element of \<^verbatim>\<open>line_items\<close> is a subdocument with an \<^verbatim>\<open>_id\<close> of its own; an
  element of \<^verbatim>\<open>special_conditions\<close> is a string or \<^verbatim>\<open>null\<close> (\<open>None\<close>).
\<close>

record line_item =
  li_id :: oid
  li_item_name :: string
  li_unit_price :: real
  li_quantity :: real
  li_total_price :: real

record parsed_data =
  pd_line_items :: "line_item list"
  pd_total_price :: "real stored"
  pd_delivery_timeline :: "string stored"
  pd_payment_terms :: "string stored"
  pd_warranty_terms :: "string stored"
  pd_special_conditions :: "string option list"
  pd_notes :: "string stored"

text \<open>
  The \<^verbatim>\<open>parsed_data\<close> of a document to which none was assigned: the two arrays are
  empty by the schema's defaults.
\<close>

definition noParsedData :: parsed_data where
  "noParsedData =
     \<lparr>pd_line_items = [], pd_total_price = Unset, pd_delivery_timeline = Unset,
      pd_payment_terms = Unset, pd_warranty_terms = Unset, pd_special_conditions = [],
      pd_notes = Unset\<rparr>"

record proposal =
  p_id :: nat
  p_rfp_id :: oid
  p_vendor_id :: oid
  p_raw_email_content :: raw_email
  p_parsed_data :: parsed_data
  p_parsing_confidence :: "real option"
  p_requires_review :: bool
  p_received_at :: nat
  p_parsed_at :: "nat option"
  p_status :: proposal_status

text \<open>
  The normalized email both inbound paths work on (\<^verbatim>\<open>extractEmailData\<close>, or the body
  of the webhook request): \<open>None\<close> is an absent field, an attachment is its
  \<^verbatim>\<open>filename\<close>, which may be absent.
\<close>

record email_data =
  em_from :: "string option"
  em_subject :: "string option"
  em_body :: "string option"
  em_attachments :: "string option list"
  em_date :: "nat option"

section \<open>AIService: the oracle adapter\<close>

subsection \<open>Upstream errors, retry and error mapping\<close>

text \<open>
  What the adapter reads of an error thrown by the OpenAI client: \<^verbatim>\<open>error.status\<close>,
  \<^verbatim>\<open>error.code\<close> and \<^verbatim>\<open>error.message\<close>, each of which may be absent.
\<close>

record api_error =
  err_status :: "int option"
  err_code :: "string option"
  err_message :: "string option"

definition maxRetries :: nat where
  "maxRetries = 3"

definition baseDelay :: real where
  "baseDelay = 1000"

text \<open>\<^verbatim>\<open>error.message && error.message.includes('timeout')\<close>\<close>

definition message_has_timeout :: "api_error \<Rightarrow> bool" where
  "message_has_timeout e =
     (case err_message e of
        None \<Rightarrow> False
      | Some m \<Rightarrow> m \<noteq> [] \<and> str_includes m ''timeout'')"

definition isRetryableError :: "api_error \<Rightarrow> bool" where
  "isRetryableError e =
     (if err_status e = Some 429 then True
      else if (case err_status e of None \<Rightarrow> False | Some s \<Rightarrow> 500 \<le> s \<and> s < 600) then True
      else if err_code e = Some ''ECONNRESET'' \<or> err_code e = Some ''ETIMEDOUT'' then True
      else if message_has_timeout e then True
      else False)"

text \<open>\<^verbatim>\<open>error.message || 'Unknown error occurred'\<close>\<close>

definition message_or_unknown :: "api_error \<Rightarrow> string" where
  "message_or_unknown e =
     (case err_message e of
        None \<Rightarrow> ''Unknown error occurred''
      | Some m \<Rightarrow> if m \<noteq> [] then m else ''Unknown error occurred'')"

definition handleError :: "api_error \<Rightarrow> exn" where
  "handleError e =
     (if err_status e = Some 401 then
        Error ''Invalid OpenAI API key''
      else if err_status e = Some 429 then
        Error ''OpenAI API rate limit exceeded. Please try again later.''
      else if err_status e = Some 500 \<or> err_status e = Some 503 then
        Error ''OpenAI service is temporarily unavailable. Please try again later.''
      else if message_has_timeout e then
        Error ''Request to OpenAI timed out. Please try again.''
      else
        Error (''AI service error: '' @ message_or_unknown e))"

text \<open>
  \<^verbatim>\<open>this.baseDelay * Math.pow(2, this.maxRetries - retries)\<close>. The exponent is negative
  when \<open>retries\<close> exceeds \<open>maxRetries\<close>; powers of two are exact in doubles.
\<close>

definition backoffDelay :: "nat \<Rightarrow> real" where
  "backoffDelay retries =
     (if retries \<le> maxRetries then baseDelay * 2 ^ (maxRetries - retries)
      else baseDelay / 2 ^ (retries - maxRetries))"

text \<open>
  \<^verbatim>\<open>retryWithBackoff(fn, retries)\<close>. The callee \<open>fn\<close> is called once per attempt and may
  answer differently each time: \<open>fn n\<close> is the outcome of call number \<open>n\<close>, \<open>Inl\<close> an
  error it throws. The result is paired with the delays slept, in order. The recursive
  call is returned from inside the \<^verbatim>\<open>catch\<close> block, so its mapped error is not mapped
  again.
\<close>

fun retryWithBackoff :: "(nat \<Rightarrow> api_error + 'a) \<Rightarrow> nat \<Rightarrow> nat \<Rightarrow> (exn + 'a) \<times> real list" where
  "retryWithBackoff fn n 0 =
     (case fn n of
        Inr v \<Rightarrow> (Inr v, [])
      | Inl e \<Rightarrow> (Inl (handleError e), []))"
| "retryWithBackoff fn n (Suc r) =
     (case fn n of
        Inr v \<Rightarrow> (Inr v, [])
      | Inl e \<Rightarrow>
          if isRetryableError e then
            (case retryWithBackoff fn (Suc n) r of
               (res, delays) \<Rightarrow> (res, backoffDelay (Suc r) # delays))
          else (Inl (handleError e), []))"

text \<open>
  \<^verbatim>\<open>makeCompletionRequest\<close> calls \<^verbatim>\<open>retryWithBackoff\<close> with the default
  \<open>retries = maxRetries\<close>; the prompts only reach the oracle, whose outcomes are the
  parameter \<open>oracle\<close>.
\<close>

definition makeCompletionRequest :: "(nat \<Rightarrow> api_error + string) \<Rightarrow> (exn + string) \<times> real list" where
  "makeCompletionRequest oracle = retryWithBackoff oracle 0 maxRetries"

subsection \<open>Parsing a proposal\<close>

text \<open>
  \<^verbatim>\<open>JSON.parse\<close> is the engine's; it is the parameter \<open>jsonParse\<close>, \<open>None\<close> where it
  throws.
\<close>

definition parseJSONResponse :: "(string \<Rightarrow> jsval option) \<Rightarrow> string \<Rightarrow> exn + jsval" where
  "parseJSONResponse jsonParse jsonString =
     (case jsonParse jsonString of
        Some v \<Rightarrow> Inr v
      | None \<Rightarrow> Inl (Error ''Failed to parse AI response. The response was not valid JSON.''))"

text \<open>
  What a caller passes to \<^verbatim>\<open>parseProposal(emailData)\<close>: nothing, a string, or an email
  object. The guard is \<^verbatim>\<open>!emailData || !emailData.body\<close>; a string has no property
  \<^verbatim>\<open>body\<close>.
\<close>

datatype parse_arg = ArgUndefined | ArgString string | ArgEmail email_data

fun has_body :: "parse_arg \<Rightarrow> bool" where
  "has_body ArgUndefined = False"
| "has_body (ArgString s) = False"
| "has_body (ArgEmail e) = (case em_body e of None \<Rightarrow> False | Some b \<Rightarrow> b \<noteq> [])"

text \<open>
  \<^verbatim>\<open>const confidenceThreshold = 0.7\<close>: the literal denotes the double nearest to 7/10,
  which is 3152519739159347 / 4503599627370496 =
  0.6999999999999999555910790149937383830547332763671875, and \<^verbatim>\<open>JSON.parse\<close> gives
  the same double for the text \<^verbatim>\<open>0.7\<close>.
\<close>

definition confidenceThreshold :: real where
  "confidenceThreshold = 3152519739159347 / 4503599627370496"

fun elements :: "jsval \<Rightarrow> jsval list" where
  "elements (JArr xs) = xs"
| "elements v = []"

text \<open>The \<^verbatim>\<open>forEach\<close> over the line items, from index \<open>i\<close> on: the first bad item throws.\<close>

fun checkLineItems :: "jsval list \<Rightarrow> nat \<Rightarrow> exn + unit" where
  "checkLineItems [] i = Inr ()"
| "checkLineItems (item # items) i =
     (if nullish item then Inl (TypeError ''item_name'')
      else if \<not> truthy (field item ''item_name'')
              \<or> \<not> is_number (field item ''unit_price'')
              \<or> \<not> is_number (field item ''quantity'')
              \<or> \<not> is_number (field item ''total_price'')
      then Inl (ErrorAt ''Line item at index '' i '' is missing required fields'')
      else checkLineItems items (Suc i))"

text \<open>
  \<^verbatim>\<open>parseProposal\<close> returns the object it validated. The model returns it with its
  \<^verbatim>\<open>confidence\<close> read out, which the validation has shown to be a number: the
  callers compute with it.
\<close>

record parsed_proposal =
  pp_data :: jsval
  pp_confidence :: real

text \<open>The validation and repair of \<^verbatim>\<open>parseProposal\<close>, after \<^verbatim>\<open>JSON.parse\<close>.\<close>

definition validateParsedData :: "jsval \<Rightarrow> exn + parsed_proposal" where
  "validateParsedData parsedData =
     (if nullish parsedData then Inl (TypeError ''line_items'')
      else if \<not> truthy (field parsedData ''line_items'')
              \<or> \<not> isArray (field parsedData ''line_items'')
              \<or> length (elements (field parsedData ''line_items'')) = 0
      then Inl (Error ''AI response missing required field: line_items'')
      else if \<not> is_number (field parsedData ''total_price'')
      then Inl (Error ''AI response missing required field: total_price'')
      else
        (case field parsedData ''confidence'' of
           JNum c \<Rightarrow>
             if c < 0 \<or> c > 1 then Inl (Error ''AI response has invalid confidence score'')
             else
               (case checkLineItems (elements (field parsedData ''line_items'')) 0 of
                  Inl e \<Rightarrow> Inl e
                | Inr u \<Rightarrow>
                    let repaired =
                          (if \<not> isArray (field parsedData ''special_conditions'')
                           then set_prop parsedData ''special_conditions'' (JArr [])
                           else parsedData);
                        flagged = set_prop repaired ''requires_review'' (JBool (c < confidenceThreshold))
                    in Inr \<lparr>pp_data = flagged, pp_confidence = c\<rparr>)
         | other \<Rightarrow> Inl (Error ''AI response has invalid confidence score'')))"

definition parseProposal ::
  "(nat \<Rightarrow> api_error + string) \<Rightarrow> (string \<Rightarrow> jsval option) \<Rightarrow> parse_arg \<Rightarrow> exn + parsed_proposal" where
  "parseProposal oracle jsonParse emailData =
     (if \<not> has_body emailData then Inl (Error ''Email body is required for proposal parsing'')
      else
        (case fst (makeCompletionRequest oracle) of
           Inl e \<Rightarrow> Inl e
         | Inr responseContent \<Rightarrow>
             (case parseJSONResponse jsonParse responseContent of
                Inl e \<Rightarrow> Inl e
              | Inr parsedData \<Rightarrow> validateParsedData parsedData)))"

subsection \<open>Comparing proposals\<close>

text \<open>One pass of the \<^verbatim>\<open>forEach\<close> over the analysis entries: the three repairs.\<close>

definition repairAnalysis :: "jsval \<Rightarrow> jsval" where
  "repairAnalysis analysis =
     (let a1 = (if \<not> isArray (field analysis ''strengths'')
                then set_prop analysis ''strengths'' (JArr []) else analysis);
          a2 = (if \<not> isArray (field a1 ''weaknesses'')
                then set_prop a1 ''weaknesses'' (JArr []) else a1);
          a3 = (if \<not> isArray (field a2 ''red_flags'')
                then set_prop a2 ''red_flags'' (JArr []) else a2)
      in a3)"

fun validateAnalyses :: "jsval list \<Rightarrow> nat \<Rightarrow> exn + jsval list" where
  "validateAnalyses [] i = Inr []"
| "validateAnalyses (analysis # rest) i =
     (if nullish analysis then Inl (TypeError ''vendor_id'')
      else if \<not> truthy (field analysis ''vendor_id'')
              \<or> \<not> truthy (field analysis ''vendor_name'')
              \<or> \<not> truthy (field analysis ''scores'')
      then Inl (ErrorAt ''Proposal analysis at index '' i '' is missing required fields'')
      else
        (case validateAnalyses rest (Suc i) of
           Inl e \<Rightarrow> Inl e
         | Inr rest' \<Rightarrow> Inr (repairAnalysis analysis # rest')))"

text \<open>\<^verbatim>\<open>typeof c !== 'number' || c < 0 || c > 1\<close>\<close>

fun bad_confidence :: "jsval \<Rightarrow> bool" where
  "bad_confidence (JNum c) = (c < 0 \<or> c > 1)"
| "bad_confidence v = True"

text \<open>
  \<^verbatim>\<open>comparisonData.recommendation.confidence = 0.8\<close>: the double the literal denotes.
\<close>

definition defaultConfidence :: real where
  "defaultConfidence = 3602879701896397 / 4503599627370496"

text \<open>The validation and repair of \<^verbatim>\<open>compareProposals\<close>, after \<^verbatim>\<open>JSON.parse\<close>.\<close>

definition validateComparison :: "jsval \<Rightarrow> exn + jsval" where
  "validateComparison comparisonData =
     (if nullish comparisonData then Inl (TypeError ''proposal_analysis'')
      else if \<not> truthy (field comparisonData ''proposal_analysis'')
              \<or> \<not> isArray (field comparisonData ''proposal_analysis'')
      then Inl (Error ''AI response missing required field: proposal_analysis'')
      else if \<not> truthy (field comparisonData ''recommendation'')
              \<or> \<not> truthy (field (field comparisonData ''recommendation'') ''vendor_id'')
      then Inl (Error ''AI response missing required field: recommendation'')
      else if \<not> truthy (field comparisonData ''summary'')
      then Inl (Error ''AI response missing required field: summary'')
      else
        (case validateAnalyses (elements (field comparisonData ''proposal_analysis'')) 0 of
           Inl e \<Rightarrow> Inl e
         | Inr analyses \<Rightarrow>
             let d1 = set_prop comparisonData ''proposal_analysis'' (JArr analyses);
                 recommendation = field d1 ''recommendation''
             in if bad_confidence (field recommendation ''confidence'')
                then Inr (set_prop d1 ''recommendation''
                            (set_prop recommendation ''confidence'' (JNum defaultConfidence)))
                else Inr d1))"

text \<open>
  \<^verbatim>\<open>compareProposals(rfp, proposals)\<close>. The prompt is built from both arguments and
  only reaches the oracle.
\<close>

definition compareProposals ::
  "(nat \<Rightarrow> api_error + string) \<Rightarrow> (string \<Rightarrow> jsval option) \<Rightarrow> rfp \<Rightarrow> 'p list \<Rightarrow> exn + jsval" where
  "compareProposals oracle jsonParse r proposals =
     (if \<not> truthy (rfp_structured_data r)
      then Inl (Error ''RFP with structured_data is required for comparison'')
      else if length proposals = 0
      then Inl (Error ''At least one proposal is required for comparison'')
      else
        (case fst (makeCompletionRequest oracle) of
           Inl e \<Rightarrow> Inl e
         | Inr responseContent \<Rightarrow>
             (case parseJSONResponse jsonParse responseContent of
                Inl e \<Rightarrow> Inl e
              | Inr comparisonData \<Rightarrow> validateComparison comparisonData)))"

section \<open>EmailService: correlation\<close>

text \<open>
  ASCII case folding: \<^verbatim>\<open>toLowerCase\<close> on the addresses, and the \<^verbatim>\<open>i\<close> flag of the
  subject pattern (which folds no character outside ASCII onto an ASCII one).
\<close>

definition lower_ascii :: "char \<Rightarrow> char" where
  "lower_ascii c =
     (case map_of (zip ''ABCDEFGHIJKLMNOPQRSTUVWXYZ'' ''abcdefghijklmnopqrstuvwxyz'') c of
        Some l \<Rightarrow> l
      | None \<Rightarrow> c)"

definition toLowerCase :: "string \<Rightarrow> string" where
  "toLowerCase s = map lower_ascii s"

text \<open>The class \<^verbatim>\<open>[a-f0-9]\<close> under the \<^verbatim>\<open>i\<close> flag.\<close>

definition is_hex_digit :: "char \<Rightarrow> bool" where
  "is_hex_digit c = (c \<in> set ''0123456789abcdefABCDEF'')"

text \<open>
  \<^verbatim>\<open>/\[RFP-([a-f0-9]+)\]/i\<close> tried at the start of \<open>s\<close>: the bracket and the three
  letters in either case, the longest run of digits (the closing bracket is no digit,
  so no shorter run can match), which must not be empty, and the closing bracket. The
  result is the captured group.
\<close>

definition match_tag_here :: "string \<Rightarrow> string option" where
  "match_tag_here s =
     (if toLowerCase (take 5 s) = ''[rfp-''
         \<and> takeWhile is_hex_digit (drop 5 s) \<noteq> []
         \<and> take 1 (dropWhile is_hex_digit (drop 5 s)) = '']''
      then Some (takeWhile is_hex_digit (drop 5 s))
      else None)"

text \<open>\<^verbatim>\<open>subject.match(...)\<close>: the leftmost position at which the pattern matches.\<close>

fun match_rfp_tag :: "string \<Rightarrow> string option" where
  "match_rfp_tag [] = None"
| "match_rfp_tag (c # cs) =
     (case match_tag_here (c # cs) of
        Some digits \<Rightarrow> Some digits
      | None \<Rightarrow> match_rfp_tag cs)"

text \<open>\<^verbatim>\<open>email.subject?.match(...)\<close>, with the captured group where it matches.\<close>

definition rfpIdMatch :: "email_data \<Rightarrow> string option" where
  "rfpIdMatch email =
     (case em_subject email of
        None \<Rightarrow> None
      | Some subject \<Rightarrow> match_rfp_tag subject)"

text \<open>
  The \<^verbatim>\<open>rfpId\<close> of a correlation is either the text captured from the subject or the
  \<^verbatim>\<open>_id\<close> of a stored RFP.
\<close>

datatype rfp_ref = IdText string | IdDoc oid

record correlation =
  c_rfpId :: "rfp_ref option"
  c_vendorId :: "oid option"
  c_fromEmail :: "string option"
  c_success :: bool

text \<open>
  \<^verbatim>\<open>correlateEmailToRFP(email, findRFPCallback, findVendorCallback)\<close>. A callback may be
  absent, may throw (\<open>Inl\<close>), and answers with a document or \<^verbatim>\<open>null\<close>. Whatever the
  callbacks throw is caught; the vendor id assigned before the RFP callback throws
  stays. The result is paired with the vendor ids at which \<open>findRFPCallback\<close> was
  called, in order.
\<close>

definition correlateEmailToRFP ::
  "email_data \<Rightarrow> (oid \<Rightarrow> exn + rfp option) option \<Rightarrow> (string \<Rightarrow> exn + vendor option) option
     \<Rightarrow> correlation \<times> oid list" where
  "correlateEmailToRFP email findRFPCallback findVendorCallback =
     (let tagId = map_option IdText (rfpIdMatch email);
          fromEmail = em_from email;
          (rfpId, vendorId, asked) =
            (case (fromEmail, findVendorCallback) of
               (Some addr, Some findVendor) \<Rightarrow>
                 if addr = [] then (tagId, None, [])
                 else
                   (case findVendor addr of
                      Inl e \<Rightarrow> (tagId, None, [])
                    | Inr None \<Rightarrow> (tagId, None, [])
                    | Inr (Some v) \<Rightarrow>
                        (case (tagId, findRFPCallback) of
                           (None, Some findRFP) \<Rightarrow>
                             (case findRFP (vendor_oid v) of
                                Inl e \<Rightarrow> (None, Some (vendor_oid v), [vendor_oid v])
                              | Inr None \<Rightarrow> (None, Some (vendor_oid v), [vendor_oid v])
                              | Inr (Some r) \<Rightarrow>
                                  (Some (IdDoc (rfp_oid r)), Some (vendor_oid v), [vendor_oid v]))
                         | other \<Rightarrow> (tagId, Some (vendor_oid v), [])))
             | other \<Rightarrow> (tagId, None, []))
      in (\<lparr>c_rfpId = rfpId, c_vendorId = vendorId, c_fromEmail = fromEmail,
           c_success = (rfpId \<noteq> None \<and> vendorId \<noteq> None)\<rparr>, asked))"

section \<open>The store\<close>

text \<open>
  The three collections. The store is taken to be reliable: a query fails only by
  refusing a malformed id, a save only by refusing a document that holds a value its
  schema could not cast.
\<close>

record db =
  db_rfps :: "rfp list"
  db_vendors :: "vendor list"
  db_proposals :: "proposal list"

text \<open>
  A query casts the ids of its filter: the text of 24 hexadecimal digits is the id it
  denotes (case-insensitively), any other text is refused with a \<^verbatim>\<open>CastError\<close>.
\<close>

fun castObjectId :: "rfp_ref \<Rightarrow> exn + oid" where
  "castObjectId (IdDoc i) = Inr i"
| "castObjectId (IdText s) =
     (if length s = 24 \<and> list_all is_hex_digit s then Inr (toLowerCase s) else Inl (CastError s))"

text \<open>
  The Vendor schema declares \<^verbatim>\<open>email\<close> with \<^verbatim>\<open>trim: true\<close> and \<^verbatim>\<open>lowercase: true\<close>:
  the store passes the value to be stored, and the value of a query as well, through
  \<^verbatim>\<open>trim()\<close> and \<^verbatim>\<open>toLowerCase()\<close>. White space is the ASCII white space, as the
  case folding is ASCII.
\<close>

definition is_space :: "char \<Rightarrow> bool" where
  "is_space c = (c \<in> set [CHR 0x09, CHR 0x0A, CHR 0x0B, CHR 0x0C, CHR 0x0D, CHR 0x20])"

definition trim :: "string \<Rightarrow> string" where
  "trim s = rev (dropWhile is_space (rev (dropWhile is_space s)))"

definition emailSetters :: "string \<Rightarrow> string" where
  "emailSetters s = toLowerCase (trim s)"

text \<open>\<^verbatim>\<open>Vendor.findOne({ email: email.toLowerCase() })\<close>\<close>

definition findVendorByEmail :: "db \<Rightarrow> string \<Rightarrow> exn + vendor option" where
  "findVendorByEmail d email =
     Inr (find (\<lambda>v. vendor_email v = emailSetters (toLowerCase email)) (db_vendors d))"

text \<open>
  The key of a descending sort on \<^verbatim>\<open>vendors.sent_at\<close>: the store compares an array
  field by its largest element.
\<close>

definition sent_at_key :: "rfp \<Rightarrow> nat" where
  "sent_at_key r = fold max (map snd (rfp_vendors r)) 0"

definition rfp_matches :: "oid \<Rightarrow> rfp \<Rightarrow> bool" where
  "rfp_matches vendorId r =
     (vendorId \<in> set (map fst (rfp_vendors r))
      \<and> (rfp_status r = Sent \<or> rfp_status r = ReceivingProposals))"

text \<open>
  \<^verbatim>\<open>RFP.findOne({'vendors.vendor_id': vendorId, status: {$in: ['sent',
  'receiving_proposals']}}).sort({'vendors.sent_at': -1})\<close>: the first of the matching
  documents in descending order of the key (documents of equal key in stored order).
\<close>

definition findRecentRFP :: "db \<Rightarrow> oid \<Rightarrow> exn + rfp option" where
  "findRecentRFP d vendorId =
     (case sort_key (\<lambda>r. - int (sent_at_key r)) (filter (rfp_matches vendorId) (db_rfps d)) of
        [] \<Rightarrow> Inr None
      | r # rest \<Rightarrow> Inr (Some r))"

text \<open>
  \<^verbatim>\<open>Proposal.findOne({ rfp_id, vendor_id })\<close>, for ids already cast.
\<close>

definition findProposal :: "db \<Rightarrow> oid \<Rightarrow> oid \<Rightarrow> proposal option" where
  "findProposal d rfpId vendorId =
     find (\<lambda>p. p_rfp_id p = rfpId \<and> p_vendor_id p = vendorId) (db_proposals d)"

text \<open>The \<^verbatim>\<open>_id\<close> a new document gets: one no stored proposal has.\<close>

definition fresh_id :: "db \<Rightarrow> nat" where
  "fresh_id d = Suc (fold max (map p_id (db_proposals d)) 0)"

text \<open>
  \<^verbatim>\<open>proposal.save()\<close>: the first save of a new document inserts it, a later save
  replaces the stored document of the same \<^verbatim>\<open>_id\<close>.
\<close>

definition saveProposal :: "db \<Rightarrow> proposal \<Rightarrow> db" where
  "saveProposal d p =
     (if p_id p \<in> set (map p_id (db_proposals d))
      then d\<lparr>db_proposals := map (\<lambda>q. if p_id q = p_id p then p else q) (db_proposals d)\<rparr>
      else d\<lparr>db_proposals := db_proposals d @ [p]\<rparr>)"

subsection \<open>The cast of \<^verbatim>\<open>parsed_data\<close>\<close>

text \<open>
  The assignment \<^verbatim>\<open>proposal.parsed_data = parsedData\<close> sets each path the Proposal
  schema declares under \<^verbatim>\<open>parsed_data\<close> to the cast of the property of that name, and
  drops every other property (\<^verbatim>\<open>confidence\<close> and \<^verbatim>\<open>requires_review\<close> among them). A
  value the cast refuses (\<open>None\<close>) makes the document invalid.

  A path declared \<^verbatim>\<open>String\<close>: \<^verbatim>\<open>null\<close> and \<^verbatim>\<open>undefined\<close> stay, a string stays, a
  number or a boolean is replaced by its \<^verbatim>\<open>toString()\<close> (the engine's, \<open>numberToString\<close>
  for a number), an object that has a non-empty string as \<^verbatim>\<open>_id\<close> is replaced by it,
  any other object and every array is refused.
\<close>

fun castString :: "(real \<Rightarrow> string) \<Rightarrow> jsval \<Rightarrow> string stored option" where
  "castString numberToString JUndefined = Some Unset"
| "castString numberToString JNull = Some Null"
| "castString numberToString (JStr s) = Some (Stored s)"
| "castString numberToString (JNum x) = Some (Stored (numberToString x))"
| "castString numberToString (JBool b) = Some (Stored (if b then ''true'' else ''false''))"
| "castString numberToString (JArr xs) = None"
| "castString numberToString (JObj kvs) =
     (case map_of kvs ''_id'' of
        Some (JStr s) \<Rightarrow> if s \<noteq> [] then Some (Stored s) else None
      | other \<Rightarrow> None)"

text \<open>
  A path declared \<^verbatim>\<open>Number\<close> keeps a number as it is. \<^verbatim>\<open>parseProposal\<close> has checked
  \<^verbatim>\<open>typeof ... === 'number'\<close> on every value it lets reach such a path
  (\<open>validated_numbers\<close> below), so the conversions of other values are left out.
\<close>

fun castNumber :: "jsval \<Rightarrow> real option" where
  "castNumber (JNum x) = Some x"
| "castNumber v = None"

text \<open>
  An element of \<^verbatim>\<open>line_items\<close> becomes a subdocument of the four declared paths.
  \<^verbatim>\<open>parseProposal\<close> has found its \<^verbatim>\<open>item_name\<close> truthy, so the cast of the name is a
  string or a refusal. The \<^verbatim>\<open>_id\<close> of the subdocument at index \<open>i\<close> is the library's
  and the driver's, \<open>itemId i item\<close>: a new id where the item carries none, else the
  cast of the \<^verbatim>\<open>_id\<close> it carries, \<open>None\<close> where that is refused.
\<close>

definition castLineItem ::
  "(real \<Rightarrow> string) \<Rightarrow> (nat \<Rightarrow> jsval \<Rightarrow> oid option) \<Rightarrow> nat \<Rightarrow> jsval \<Rightarrow> line_item option" where
  "castLineItem numberToString itemId i item =
     (case itemId i item of
        None \<Rightarrow> None
      | Some oid \<Rightarrow>
          (case castString numberToString (field item ''item_name'') of
             Some (Stored name) \<Rightarrow>
               (case (castNumber (field item ''unit_price''), castNumber (field item ''quantity''),
                      castNumber (field item ''total_price'')) of
                  (Some unit_price, Some quantity, Some total_price) \<Rightarrow>
                    Some \<lparr>li_id = oid, li_item_name = name, li_unit_price = unit_price,
                          li_quantity = quantity, li_total_price = total_price\<rparr>
                | other \<Rightarrow> None)
           | other \<Rightarrow> None))"

fun castLineItems ::
  "(real \<Rightarrow> string) \<Rightarrow> (nat \<Rightarrow> jsval \<Rightarrow> oid option) \<Rightarrow> jsval list \<Rightarrow> nat \<Rightarrow> line_item list option" where
  "castLineItems numberToString itemId [] i = Some []"
| "castLineItems numberToString itemId (item # items) i =
     (case (castLineItem numberToString itemId i item,
            castLineItems numberToString itemId items (Suc i)) of
        (Some li, Some lis) \<Rightarrow> Some (li # lis)
      | other \<Rightarrow> None)"

text \<open>
  \<^verbatim>\<open>special_conditions: [String]\<close>: each element is cast as a string; the driver writes
  an element that is not set as \<^verbatim>\<open>null\<close>.
\<close>

fun castStrings :: "(real \<Rightarrow> string) \<Rightarrow> jsval list \<Rightarrow> string option list option" where
  "castStrings numberToString [] = Some []"
| "castStrings numberToString (v # vs) =
     (case (castString numberToString v, castStrings numberToString vs) of
        (Some (Stored s), Some rest) \<Rightarrow> Some (Some s # rest)
      | (Some other, Some rest) \<Rightarrow> Some (None # rest)
      | other \<Rightarrow> None)"

text \<open>
  The cast of the object \<^verbatim>\<open>parseProposal\<close> returned, path by path. \<^verbatim>\<open>total_price\<close> is
  a number there, \<^verbatim>\<open>line_items\<close> and \<^verbatim>\<open>special_conditions\<close> are arrays.
\<close>

definition castParsedData ::
  "(real \<Rightarrow> string) \<Rightarrow> (nat \<Rightarrow> jsval \<Rightarrow> oid option) \<Rightarrow> jsval \<Rightarrow> parsed_data option" where
  "castParsedData numberToString itemId parsedData =
     (case (castLineItems numberToString itemId (elements (field parsedData ''line_items'')) 0,
            castNumber (field parsedData ''total_price''),
            castStrings numberToString (elements (field parsedData ''special_conditions''))) of
        (Some line_items, Some total_price, Some special_conditions) \<Rightarrow>
          (case (castString numberToString (field parsedData ''delivery_timeline''),
                 castString numberToString (field parsedData ''payment_terms''),
                 castString numberToString (field parsedData ''warranty_terms''),
                 castString numberToString (field parsedData ''notes'')) of
             (Some delivery_timeline, Some payment_terms, Some warranty_terms, Some notes) \<Rightarrow>
               Some \<lparr>pd_line_items = line_items, pd_total_price = Stored total_price,
                     pd_delivery_timeline = delivery_timeline, pd_payment_terms = payment_terms,
                     pd_warranty_terms = warranty_terms,
                     pd_special_conditions = special_conditions, pd_notes = notes\<rparr>
           | other \<Rightarrow> None)
      | other \<Rightarrow> None)"

text \<open>Setting the status of the RFP of a given id (ids are unique: the first match).\<close>

fun set_status :: "rfp list \<Rightarrow> oid \<Rightarrow> rfp_status \<Rightarrow> rfp list" where
  "set_status [] i st = []"
| "set_status (r # rs) i st =
     (if rfp_oid r = i then r\<lparr>rfp_status := st\<rparr> # rs else r # set_status rs i st)"

section \<open>The two inbound paths\<close>

text \<open>
  What a run reads of its environment: the oracle's outcomes call by call, the
  engine's \<^verbatim>\<open>JSON.parse\<close> and its \<^verbatim>\<open>toString()\<close> of a number, the ids of new
  subdocuments, and the clock at the two \<^verbatim>\<open>new Date()\<close>.
\<close>

record env =
  env_oracle :: "nat \<Rightarrow> api_error + string"
  env_jsonParse :: "string \<Rightarrow> jsval option"
  env_numberToString :: "real \<Rightarrow> string"
  env_itemId :: "nat \<Rightarrow> jsval \<Rightarrow> oid option"
  env_now :: nat
  env_parsed_now :: nat

text \<open>\<^verbatim>\<open>att.filename || 'attachment'\<close>\<close>

definition attachmentNames :: "string option list \<Rightarrow> string list" where
  "attachmentNames atts =
     map (\<lambda>f. case f of None \<Rightarrow> ''attachment'' | Some n \<Rightarrow> if n \<noteq> [] then n else ''attachment'') atts"

text \<open>The document \<^verbatim>\<open>new Proposal({...})\<close> builds; the schema's defaults fill the rest.\<close>

definition newProposal :: "db \<Rightarrow> oid \<Rightarrow> oid \<Rightarrow> email_data \<Rightarrow> nat \<Rightarrow> proposal" where
  "newProposal d rfpId vendorId emailData receivedAt =
     \<lparr>p_id = fresh_id d, p_rfp_id = rfpId, p_vendor_id = vendorId,
      p_raw_email_content =
        \<lparr>raw_from = em_from emailData, raw_subject = em_subject emailData,
         raw_body = em_body emailData,
         raw_attachments = attachmentNames (em_attachments emailData)\<rparr>,
      p_parsed_data = noParsedData, p_parsing_confidence = None, p_requires_review = False,
      p_received_at = receivedAt, p_parsed_at = None, p_status = Received\<rparr>"

text \<open>
  The five assignments after a successful parse, the same in both paths:
  \<^verbatim>\<open>parsed_data = parsedData\<close>, of which the document holds the cast \<open>cast\<close>,
  \<^verbatim>\<open>parsing_confidence = parsedData.confidence || 0\<close>,
  \<^verbatim>\<open>requires_review = parsedData.confidence < 0.7\<close> (the literal is the one of
  \<open>confidenceThreshold\<close>), \<^verbatim>\<open>status = 'parsed'\<close> and \<^verbatim>\<open>parsed_at = new Date()\<close>.
\<close>

definition markParsed :: "parsed_proposal \<Rightarrow> parsed_data \<Rightarrow> nat \<Rightarrow> proposal \<Rightarrow> proposal" where
  "markParsed parsedData cast now p =
     p\<lparr>p_parsed_data := cast,
       p_parsing_confidence := Some (if pp_confidence parsedData \<noteq> 0 then pp_confidence parsedData else 0),
       p_requires_review := (pp_confidence parsedData < confidenceThreshold),
       p_status := Parsed,
       p_parsed_at := Some now\<rparr>"

text \<open>
  Both paths correlate with the same two callbacks: the most recent RFP sent to the
  vendor, and the vendor of the address.
\<close>

definition inbound_correlation :: "db \<Rightarrow> email_data \<Rightarrow> correlation" where
  "inbound_correlation d emailData =
     fst (correlateEmailToRFP emailData (Some (findRecentRFP d)) (Some (findVendorByEmail d)))"

text \<open>
  The \<^verbatim>\<open>try\<close> around the parse and its \<^verbatim>\<open>catch\<close>, the same in both paths, from the
  outcome of \<^verbatim>\<open>parseProposal\<close> on; the result is the store and the document, or what the
  \<^verbatim>\<open>catch\<close> block throws.

  When the parser threw, the \<^verbatim>\<open>catch\<close> assigns \<^verbatim>\<open>requires_review = true\<close> and saves.
  When it returned, the five assignments are made and the document is saved. If the
  schema refused a value of \<^verbatim>\<open>parsedData\<close>, this \<^verbatim>\<open>save()\<close> throws inside the \<^verbatim>\<open>try\<close>;
  the \<^verbatim>\<open>catch\<close> assigns \<^verbatim>\<open>requires_review = true\<close> and calls \<^verbatim>\<open>save()\<close> again, which
  throws again, as the refused value is still assigned: nothing is written, and the
  error leaves the \<^verbatim>\<open>catch\<close>.
\<close>

definition afterParse :: "env \<Rightarrow> exn + parsed_proposal \<Rightarrow> db \<Rightarrow> proposal \<Rightarrow> exn + db \<times> proposal" where
  "afterParse env outcome d proposal =
     (case outcome of
        Inl parseError \<Rightarrow>
          Inr (saveProposal d (proposal\<lparr>p_requires_review := True\<rparr>),
               proposal\<lparr>p_requires_review := True\<rparr>)
      | Inr parsedData \<Rightarrow>
          (case castParsedData (env_numberToString env) (env_itemId env) (pp_data parsedData) of
             Some cast \<Rightarrow>
               Inr (saveProposal d (markParsed parsedData cast (env_parsed_now env) proposal),
                    markParsed parsedData cast (env_parsed_now env) proposal)
           | None \<Rightarrow> Inl StoreValidationError))"

subsection \<open>EmailPollingService.processReceivedEmail\<close>

datatype poll_result =
    PollSuccess nat rfp_ref oid
  | CorrelationFailed correlation
  | DuplicateProposal nat
  | ProcessingError exn

text \<open>
  The run up to and including \<^verbatim>\<open>await Proposal.findOne(...)\<close>: it ends the run with
  a result, or goes on with the cast RFP id, the \<^verbatim>\<open>rfpId\<close> as correlated and the
  vendor id. The query casts the RFP id; what it throws reaches the outer
  \<^verbatim>\<open>catch\<close>.
\<close>

datatype check_outcome = Stop poll_result | Go oid rfp_ref oid

definition poll_check :: "db \<Rightarrow> email_data \<Rightarrow> check_outcome" where
  "poll_check d emailData =
     (let correlation = inbound_correlation d emailData
      in case (c_rfpId correlation, c_vendorId correlation) of
           (Some rfpId, Some vendorId) \<Rightarrow>
             if \<not> c_success correlation then Stop (CorrelationFailed correlation)
             else
               (case castObjectId rfpId of
                  Inl e \<Rightarrow> Stop (ProcessingError e)
                | Inr rid \<Rightarrow>
                    (case findProposal d rid vendorId of
                       Some existingProposal \<Rightarrow> Stop (DuplicateProposal (p_id existingProposal))
                     | None \<Rightarrow> Go rid rfpId vendorId))
         | other \<Rightarrow> Stop (CorrelationFailed correlation))"

text \<open>
  The rest of the run, from \<^verbatim>\<open>new Proposal\<close> on. The parser is called with
  \<^verbatim>\<open>emailData.body\<close>. What leaves the inner \<^verbatim>\<open>catch\<close> reaches the outer one.
\<close>

definition poll_insert :: "env \<Rightarrow> db \<Rightarrow> email_data \<Rightarrow> oid \<Rightarrow> rfp_ref \<Rightarrow> oid \<Rightarrow> db \<times> poll_result" where
  "poll_insert env d emailData rid rfpId vendorId =
     (let proposal = newProposal d rid vendorId emailData
                       (case em_date emailData of Some t \<Rightarrow> t | None \<Rightarrow> env_now env);
          d1 = saveProposal d proposal
      in case afterParse env
                (parseProposal (env_oracle env) (env_jsonParse env)
                   (case em_body emailData of None \<Rightarrow> ArgUndefined | Some b \<Rightarrow> ArgString b))
                d1 proposal of
           Inl e \<Rightarrow> (d1, ProcessingError e)
         | Inr (d2, proposal') \<Rightarrow>
             (let d3 = (case find (\<lambda>r. rfp_oid r = rid) (db_rfps d2) of
                          Some r \<Rightarrow>
                            if rfp_status r = Sent
                            then d2\<lparr>db_rfps := set_status (db_rfps d2) rid ReceivingProposals\<rparr>
                            else d2
                        | None \<Rightarrow> d2)
              in (d3, PollSuccess (p_id proposal) rfpId vendorId)))"

definition processReceivedEmail :: "env \<Rightarrow> db \<Rightarrow> email_data \<Rightarrow> db \<times> poll_result" where
  "processReceivedEmail env d emailData =
     (case poll_check d emailData of
        Stop res \<Rightarrow> (d, res)
      | Go rid rfpId vendorId \<Rightarrow> poll_insert env d emailData rid rfpId vendorId)"

subsection \<open>proposalController.receiveProposal\<close>

text \<open>\<^verbatim>\<open>!v\<close> for a field of the request body that is a string or absent.\<close>

definition absent :: "string option \<Rightarrow> bool" where
  "absent v = (case v of None \<Rightarrow> True | Some s \<Rightarrow> s = [])"

text \<open>
  The handler answers 201 with the fields of the proposal and of its populated vendor,
  or throws; \<^verbatim>\<open>asyncHandler\<close> passes what it throws to the error middleware.
\<close>

datatype hook_outcome = HookStop exn | HookGo oid oid

definition hook_check :: "db \<Rightarrow> email_data \<Rightarrow> hook_outcome" where
  "hook_check d emailData =
     (if absent (em_from emailData) \<or> absent (em_subject emailData) \<or> absent (em_body emailData)
      then HookStop (ValidationError ''Missing required fields: from, subject, body'')
      else
        (let correlation = inbound_correlation d emailData
         in case (c_rfpId correlation, c_vendorId correlation) of
              (Some rfpId, Some vendorId) \<Rightarrow>
                if \<not> c_success correlation
                then HookStop (ValidationError ''Unable to correlate email to RFP and vendor'')
                else
                  (case castObjectId rfpId of
                     Inl e \<Rightarrow> HookStop e
                   | Inr rid \<Rightarrow>
                       (case findProposal d rid vendorId of
                          Some existingProposal \<Rightarrow> HookStop (DuplicateError (p_id existingProposal))
                        | None \<Rightarrow> HookGo rid vendorId))
            | other \<Rightarrow> HookStop (ValidationError ''Unable to correlate email to RFP and vendor'')))"

text \<open>
  From \<^verbatim>\<open>new Proposal\<close> on. The parser is called with \<^verbatim>\<open>emailData\<close>; what leaves the
  \<^verbatim>\<open>catch\<close> leaves the handler, with the new document stored as it was first saved. The
  RFP's status is set by
  \<^verbatim>\<open>RFP.findByIdAndUpdate(rfpId, { status: 'receiving_proposals' })\<close>.
\<close>

definition hook_insert :: "env \<Rightarrow> db \<Rightarrow> email_data \<Rightarrow> oid \<Rightarrow> oid \<Rightarrow> db \<times> (exn + proposal \<times> vendor)" where
  "hook_insert env d emailData rid vendorId =
     (let proposal = newProposal d rid vendorId emailData (env_now env);
          d1 = saveProposal d proposal
      in case afterParse env
                (parseProposal (env_oracle env) (env_jsonParse env) (ArgEmail emailData))
                d1 proposal of
           Inl e \<Rightarrow> (d1, Inl e)
         | Inr (d2, proposal') \<Rightarrow>
             (let d3 = d2\<lparr>db_rfps := set_status (db_rfps d2) rid ReceivingProposals\<rparr>
              in case find (\<lambda>v. vendor_oid v = vendorId) (db_vendors d3) of
                   None \<Rightarrow> (d3, Inl (TypeError ''_id''))
                 | Some v \<Rightarrow> (d3, Inr (proposal', v))))"

definition receiveProposal :: "env \<Rightarrow> db \<Rightarrow> email_data \<Rightarrow> db \<times> (exn + proposal \<times> vendor)" where
  "receiveProposal env d emailData =
     (case hook_check d emailData of
        HookStop e \<Rightarrow> (d, Inl e)
      | HookGo rid vendorId \<Rightarrow> hook_insert env d emailData rid vendorId)"

subsection \<open>proposalController.getComparison\<close>

text \<open>
  One element of \<^verbatim>\<open>proposals\<close> in the answers of \<^verbatim>\<open>getComparison\<close>: fields of the
  proposal, of its populated vendor, and \<^verbatim>\<open>p.parsed_data?.total_price\<close>.
\<close>

record proposal_view =
  pv_id :: nat
  pv_vendor :: vendor
  pv_raw_email_content :: raw_email
  pv_parsed_data :: parsed_data
  pv_total_price :: "real stored"
  pv_parsing_confidence :: "real option"
  pv_requires_review :: bool
  pv_status :: proposal_status
  pv_received_at :: nat

text \<open>
  \<^verbatim>\<open>populate('vendor_id', ...)\<close> puts the stored vendor of that id in place of the
  id, or \<^verbatim>\<open>null\<close> when there is none; the view then reads \<^verbatim>\<open>p.vendor_id._id\<close>.
\<close>

definition proposalView :: "vendor list \<Rightarrow> proposal \<Rightarrow> exn + proposal_view" where
  "proposalView vendors p =
     (case find (\<lambda>v. vendor_oid v = p_vendor_id p) vendors of
        None \<Rightarrow> Inl (TypeError ''_id'')
      | Some v \<Rightarrow>
          Inr \<lparr>pv_id = p_id p, pv_vendor = v,
               pv_raw_email_content = p_raw_email_content p,
               pv_parsed_data = p_parsed_data p,
               pv_total_price = pd_total_price (p_parsed_data p),
               pv_parsing_confidence = p_parsing_confidence p,
               pv_requires_review = p_requires_review p,
               pv_status = p_status p,
               pv_received_at = p_received_at p\<rparr>)"

fun proposalViews :: "vendor list \<Rightarrow> proposal list \<Rightarrow> exn + proposal_view list" where
  "proposalViews vendors [] = Inr []"
| "proposalViews vendors (p # ps) =
     (case proposalView vendors p of
        Inl e \<Rightarrow> Inl e
      | Inr view \<Rightarrow>
          (case proposalViews vendors ps of
             Inl e \<Rightarrow> Inl e
           | Inr views \<Rightarrow> Inr (view # views)))"

text \<open>The body of a 200 answer of \<^verbatim>\<open>getComparison\<close>; \<open>JNull\<close> is \<^verbatim>\<open>null\<close>.\<close>

record comparison_body =
  cb_rfp_id :: string
  cb_rfp_title :: string
  cb_proposal_count :: nat
  cb_proposals :: "proposal_view list"
  cb_analysis :: jsval
  cb_recommendation :: jsval
  cb_summary :: jsval
  cb_error :: "string option"

text \<open>
  \<^verbatim>\<open>getComparison\<close>, for the \<^verbatim>\<open>id\<close> of the request's path. What it throws goes to the
  error middleware.
\<close>

definition getComparison :: "env \<Rightarrow> db \<Rightarrow> string \<Rightarrow> exn + comparison_body" where
  "getComparison env d rfpIdText =
     (case castObjectId (IdText rfpIdText) of
        Inl e \<Rightarrow> Inl e
      | Inr rid \<Rightarrow>
          (case find (\<lambda>r. rfp_oid r = rid) (db_rfps d) of
             None \<Rightarrow> Inl (NotFoundError ''RFP'')
           | Some r \<Rightarrow>
               let proposals = filter (\<lambda>p. p_rfp_id p = rid) (db_proposals d)
               in if length proposals = 0
                  then Inr \<lparr>cb_rfp_id = rfpIdText, cb_rfp_title = rfp_title r, cb_proposal_count = 0,
                            cb_proposals = [], cb_analysis = JNull, cb_recommendation = JNull,
                            cb_summary = JStr ''No proposals have been received yet for this RFP.'',
                            cb_error = None\<rparr>
                  else
                    (case compareProposals (env_oracle env) (env_jsonParse env) r proposals of
                       Inl aiError \<Rightarrow>
                         (case proposalViews (db_vendors d) proposals of
                            Inl e \<Rightarrow> Inl e
                          | Inr views \<Rightarrow>
                              Inr \<lparr>cb_rfp_id = rfpIdText, cb_rfp_title = rfp_title r,
                                   cb_proposal_count = length proposals,
                                   cb_proposals = views, cb_analysis = JNull,
                                   cb_recommendation = JNull,
                                   cb_summary = JStr ''AI comparison is temporarily unavailable. Please review proposals manually.'',
                                   cb_error = Some ''AI service error''\<rparr>)
                     | Inr comparison \<Rightarrow>
                         (case proposalViews (db_vendors d) proposals of
                            Inl e \<Rightarrow> Inl e
                          | Inr views \<Rightarrow>
                              Inr \<lparr>cb_rfp_id = rfpIdText, cb_rfp_title = rfp_title r,
                                   cb_proposal_count = length proposals,
                                   cb_proposals = views,
                                   cb_analysis = field comparison ''proposal_analysis'',
                                   cb_recommendation = field comparison ''recommendation'',
                                   cb_summary = field comparison ''summary'',
                                   cb_error = None\<rparr>))))"

section \<open>Runs that interleave\<close>

text \<open>
  A run of \<^verbatim>\<open>processReceivedEmail\<close> gives up control at each \<^verbatim>\<open>await\<close>. Between
  \<^verbatim>\<open>await Proposal.findOne(...)\<close> and the first \<^verbatim>\<open>await proposal.save()\<close> another
  run may move: a run is a task that has not started, has seen no proposal of its pair
  and is about to insert, or has finished. (The later awaits of a run are taken
  together: this only leaves interleavings out.)
\<close>

datatype task =
    Pending email_data
  | Cleared email_data oid rfp_ref oid
  | Finished poll_result

definition advance :: "env \<Rightarrow> db \<Rightarrow> task \<Rightarrow> db \<times> task" where
  "advance env d t =
     (case t of
        Pending emailData \<Rightarrow>
          (case poll_check d emailData of
             Stop res \<Rightarrow> (d, Finished res)
           | Go rid rfpId vendorId \<Rightarrow> (d, Cleared emailData rid rfpId vendorId))
      | Cleared emailData rid rfpId vendorId \<Rightarrow>
          (case poll_insert env d emailData rid rfpId vendorId of
             (d', res) \<Rightarrow> (d', Finished res))
      | Finished res \<Rightarrow> (d, Finished res))"

text \<open>A schedule names, step by step, the task that moves.\<close>

fun run_schedule :: "env \<Rightarrow> nat list \<Rightarrow> db \<times> task list \<Rightarrow> db \<times> task list" where
  "run_schedule env [] st = st"
| "run_schedule env (i # rest) (d, ts) =
     (if i < length ts
      then (case advance env d (ts ! i) of (d', t') \<Rightarrow> run_schedule env rest (d', ts[i := t']))
      else run_schedule env rest (d, ts))"

text \<open>The pair a proposal answers, and the stores with at most one proposal per pair.\<close>

definition pair_of :: "proposal \<Rightarrow> oid \<times> oid" where
  "pair_of p = (p_rfp_id p, p_vendor_id p)"

definition unique_pairs :: "db \<Rightarrow> bool" where
  "unique_pairs d \<longleftrightarrow> distinct (map pair_of (db_proposals d))"

text \<open>Emails processed one after the other, each run to its end.\<close>

definition processAll :: "env \<Rightarrow> db \<Rightarrow> email_data list \<Rightarrow> db" where
  "processAll env d emails = fold (\<lambda>emailData d'. fst (processReceivedEmail env d' emailData)) emails d"

section \<open>What the comparison validation accepts\<close>

text \<open>The guard of the \<^verbatim>\<open>forEach\<close> over the analysis entries lets the entry pass.\<close>

definition entry_ok :: "jsval \<Rightarrow> bool" where
  "entry_ok analysis \<longleftrightarrow>
     \<not> nullish analysis \<and> truthy (field analysis ''vendor_id'')
     \<and> truthy (field analysis ''vendor_name'') \<and> truthy (field analysis ''scores'')"

text \<open>The three checks before the \<^verbatim>\<open>forEach\<close> let the output pass.\<close>

definition header_ok :: "jsval \<Rightarrow> bool" where
  "header_ok c \<longleftrightarrow>
     \<not> nullish c
     \<and> truthy (field c ''proposal_analysis'') \<and> isArray (field c ''proposal_analysis'')
     \<and> truthy (field c ''recommendation'')
     \<and> truthy (field (field c ''recommendation'') ''vendor_id'')
     \<and> truthy (field c ''summary'')"

section \<open>What the parser accepts, and what the attempt to parse leaves\<close>

text \<open>The guard of the \<^verbatim>\<open>forEach\<close> over the line items lets the item pass.\<close>

definition item_ok :: "jsval \<Rightarrow> bool" where
  "item_ok item \<longleftrightarrow>
     \<not> nullish item \<and> truthy (field item ''item_name'')
     \<and> is_number (field item ''unit_price'') \<and> is_number (field item ''quantity'')
     \<and> is_number (field item ''total_price'')"

text \<open>The checks of \<^verbatim>\<open>parseProposal\<close> let the oracle's reply pass.\<close>

definition reply_ok :: "jsval \<Rightarrow> bool" where
  "reply_ok parsedData \<longleftrightarrow>
     \<not> nullish parsedData
     \<and> truthy (field parsedData ''line_items'') \<and> isArray (field parsedData ''line_items'')
     \<and> elements (field parsedData ''line_items'') \<noteq> []
     \<and> is_number (field parsedData ''total_price'')
     \<and> (case field parsedData ''confidence'' of JNum c \<Rightarrow> 0 \<le> c \<and> c \<le> 1 | other \<Rightarrow> False)
     \<and> list_all item_ok (elements (field parsedData ''line_items''))"

text \<open>
  The document as the \<^verbatim>\<open>try\<close> and its \<^verbatim>\<open>catch\<close> store it, \<open>None\<close> where the save is
  refused.
\<close>

definition attempted :: "env \<Rightarrow> exn + parsed_proposal \<Rightarrow> proposal \<Rightarrow> proposal option" where
  "attempted env outcome proposal =
     (case outcome of
        Inl parseError \<Rightarrow> Some (proposal\<lparr>p_requires_review := True\<rparr>)
      | Inr parsedData \<Rightarrow>
          map_option (\<lambda>cast. markParsed parsedData cast (env_parsed_now env) proposal)
            (castParsedData (env_numberToString env) (env_itemId env) (pp_data parsedData)))"


section \<open>Stores that correlate alike\<close>

text \<open>
  Two stored RFPs that no correlation tells apart: the same id, the same vendor
  entries, and both or neither in a status the fallback query accepts.
\<close>

definition alike :: "rfp \<Rightarrow> rfp \<Rightarrow> bool" where
  "alike r r' \<longleftrightarrow>
     rfp_oid r = rfp_oid r' \<and> rfp_vendors r = rfp_vendors r'
     \<and> ((rfp_status r = Sent \<or> rfp_status r = ReceivingProposals)
        = (rfp_status r' = Sent \<or> rfp_status r' = ReceivingProposals))"

text \<open>The fallback query answers with RFPs of the same id on alike stores.\<close>

definition same_answer :: "exn + rfp option \<Rightarrow> exn + rfp option \<Rightarrow> bool" where
  "same_answer a b \<longleftrightarrow>
     (case (a, b) of
        (Inr None, Inr None) \<Rightarrow> True
      | (Inr (Some r), Inr (Some r')) \<Rightarrow> rfp_oid r = rfp_oid r'
      | other \<Rightarrow> False)"

section \<open>A small store and some emails\<close>

text \<open>
  One vendor, an RFP sent to it and a closed RFP that was sent to it earlier; an email
  of the vendor (in another letter case) tagged with the sent RFP, and one tagged
  with the closed RFP.
\<close>

definition ex_vendor :: vendor where
  "ex_vendor = \<lparr>vendor_oid = ''aaaaaaaaaaaaaaaaaaaaaaa1'', vendor_name = ''V1'', vendor_email = ''v1@x.com''\<rparr>"

definition ex_rfp :: rfp where
  "ex_rfp = \<lparr>rfp_oid = ''0123456789abcdef01234567'', rfp_title = ''Chairs'',
             rfp_structured_data = JObj [], rfp_status = Sent,
             rfp_vendors = [(''aaaaaaaaaaaaaaaaaaaaaaa1'', 100)]\<rparr>"

definition ex_closed_rfp :: rfp where
  "ex_closed_rfp = \<lparr>rfp_oid = ''cccccccccccccccccccccccc'', rfp_title = ''Desks'',
             rfp_structured_data = JObj [], rfp_status = Closed,
             rfp_vendors = [(''aaaaaaaaaaaaaaaaaaaaaaa1'', 50)]\<rparr>"

definition ex_db :: db where
  "ex_db = \<lparr>db_rfps = [ex_rfp, ex_closed_rfp], db_vendors = [ex_vendor], db_proposals = []\<rparr>"

definition ex_email :: email_data where
  "ex_email = \<lparr>em_from = Some ''V1@X.com'', em_subject = Some ''Re: Chairs [RFP-0123456789ABCDEF01234567]'',
               em_body = Some ''10 chairs at 5 each'', em_attachments = [], em_date = Some 200\<rparr>"

definition ex_email_closed :: email_data where
  "ex_email_closed = \<lparr>em_from = Some ''V1@X.com'', em_subject = Some ''Re: Desks [rfp-cccccccccccccccccccccccc]'',
               em_body = Some ''late offer'', em_attachments = [], em_date = Some 200\<rparr>"

text \<open>
  A store after three calls of \<^verbatim>\<open>sendRFP\<close>: the second RFP went to the vendor at time
  100, the first RFP went to the vendor at time 300, and the second RFP went to another
  vendor at time 500. Both are in status sent.
\<close>

definition ex_rfp_first :: rfp where
  "ex_rfp_first = \<lparr>rfp_oid = ''111111111111111111111111'', rfp_title = ''Chairs'',
             rfp_structured_data = JObj [], rfp_status = Sent,
             rfp_vendors = [(''aaaaaaaaaaaaaaaaaaaaaaa1'', 300)]\<rparr>"

definition ex_rfp_second :: rfp where
  "ex_rfp_second = \<lparr>rfp_oid = ''222222222222222222222222'', rfp_title = ''Desks'',
             rfp_structured_data = JObj [], rfp_status = Sent,
             rfp_vendors = [(''aaaaaaaaaaaaaaaaaaaaaaa1'', 100), (''bbbbbbbbbbbbbbbbbbbbbbb2'', 500)]\<rparr>"

definition ex_db_sent_twice :: db where
  "ex_db_sent_twice = \<lparr>db_rfps = [ex_rfp_first, ex_rfp_second], db_vendors = [ex_vendor], db_proposals = []\<rparr>"

text \<open>An email of the vendor without a tag.\<close>

definition ex_email_untagged :: email_data where
  "ex_email_untagged = \<lparr>em_from = Some ''v1@x.com'', em_subject = Some ''Re: your request'',
               em_body = Some ''10 chairs at 5 each'', em_attachments = [], em_date = None\<rparr>"

text \<open>
  An oracle that answers with one priced line item, a delivery time and the confidence
  written \<^verbatim>\<open>0.7\<close>, and an oracle that refuses the credentials. The line item carries
  no \<^verbatim>\<open>_id\<close> and gets a new one; no number is cast to a string in these runs.
\<close>

definition ex_item :: jsval where
  "ex_item = JObj [(''item_name'', JStr ''chair''), (''unit_price'', JNum 5),
                   (''quantity'', JNum 10), (''total_price'', JNum 50)]"

definition ex_reply :: jsval where
  "ex_reply = JObj [(''line_items'', JArr [ex_item]),
                    (''total_price'', JNum 50), (''delivery_timeline'', JStr ''30 days''),
                    (''confidence'', JNum (3152519739159347 / 4503599627370496))]"

definition ex_env :: env where
  "ex_env = \<lparr>env_oracle = (\<lambda>n. Inr ''reply''),
             env_jsonParse = (\<lambda>s. if s = ''reply'' then Some ex_reply else None),
             env_numberToString = (\<lambda>x. ''0''),
             env_itemId = (\<lambda>i item. Some ''eeeeeeeeeeeeeeeeeeeeeee0''),
             env_now = 300, env_parsed_now = 301\<rparr>"

definition ex_env_down :: env where
  "ex_env_down = \<lparr>env_oracle = (\<lambda>n. Inl \<lparr>err_status = Some 401, err_code = None, err_message = Some ''Unauthorized''\<rparr>),
             env_jsonParse = (\<lambda>s. None),
             env_numberToString = (\<lambda>x. ''0''),
             env_itemId = (\<lambda>i item. Some ''eeeeeeeeeeeeeeeeeeeeeee0''),
             env_now = 300, env_parsed_now = 301\<rparr>"



definition ex_reply_refused :: jsval where
  "ex_reply_refused = JObj [(''line_items'', JArr [ex_item]),
                    (''total_price'', JNum 50),
                    (''delivery_timeline'', JObj [(''days'', JNum 30)]),
                    (''confidence'', JNum (1 / 2))]"

definition ex_env_refused :: env where
  "ex_env_refused = ex_env\<lparr>env_jsonParse := (\<lambda>s. if s = ''reply'' then Some ex_reply_refused else None)\<rparr>"

text \<open>What the store holds of the first two replies.\<close>

definition ex_stored :: parsed_data where
  "ex_stored = \<lparr>pd_line_items = [\<lparr>li_id = ''eeeeeeeeeeeeeeeeeeeeeee0'', li_item_name = ''chair'',
                                  li_unit_price = 5, li_quantity = 10, li_total_price = 50\<rparr>],
               pd_total_price = Stored 50, pd_delivery_timeline = Stored ''30 days'',
               pd_payment_terms = Unset, pd_warranty_terms = Unset, pd_special_conditions = [],
               pd_notes = Unset\<rparr>"

text \<open>The example store after the vendor has answered the sent RFP once.\<close>

definition ex_proposal :: proposal where
  "ex_proposal =
     \<lparr>p_id = 7, p_rfp_id = ''0123456789abcdef01234567'', p_vendor_id = ''aaaaaaaaaaaaaaaaaaaaaaa1'',
      p_raw_email_content = \<lparr>raw_from = Some ''v1@x.com'', raw_subject = Some ''offer'',
                             raw_body = Some ''first offer'', raw_attachments = []\<rparr>,
      p_parsed_data = noParsedData, p_parsing_confidence = None, p_requires_review = True,
      p_received_at = 150, p_parsed_at = None, p_status = Received\<rparr>"

definition ex_db_answered :: db where
  "ex_db_answered = ex_db\<lparr>db_proposals := [ex_proposal]\<rparr>"

text \<open>
  An oracle whose comparison has the analysis list, the recommendation and the
  summary, and one analysis entry without \<^verbatim>\<open>vendor_name\<close>.
\<close>

definition ex_comparison_bad :: jsval where
  "ex_comparison_bad =
     JObj [(''proposal_analysis'',
              JArr [JObj [(''vendor_id'', JStr ''aaaaaaaaaaaaaaaaaaaaaaa1''), (''scores'', JObj [])]]),
           (''recommendation'', JObj [(''vendor_id'', JStr ''aaaaaaaaaaaaaaaaaaaaaaa1'')]),
           (''summary'', JStr ''V1 is the only offer'')]"

definition ex_env_cmp :: env where
  "ex_env_cmp = \<lparr>env_oracle = (\<lambda>n. Inr ''comparison''),
                 env_jsonParse = (\<lambda>s. if s = ''comparison'' then Some ex_comparison_bad else None),
                 env_numberToString = (\<lambda>x. ''0''),
                 env_itemId = (\<lambda>i item. Some ''eeeeeeeeeeeeeeeeeeeeeee0''),
                 env_now = 300, env_parsed_now = 301\<rparr>"

text \<open>
  A comparison the validation accepts; its one entry has a string where the list of
  strengths belongs and no list of red flags.
\<close>

definition ex_entry :: jsval where
  "ex_entry = JObj [(''vendor_id'', JStr ''aaaaaaaaaaaaaaaaaaaaaaa1''), (''vendor_name'', JStr ''V1''),
                    (''strengths'', JStr ''cheap''), (''weaknesses'', JArr [JStr ''slow'']),
                    (''scores'', JObj [(''price'', JNum 8)])]"

definition ex_comparison_good :: jsval where
  "ex_comparison_good =
     JObj [(''proposal_analysis'', JArr [ex_entry]),
           (''recommendation'', JObj [(''vendor_id'', JStr ''aaaaaaaaaaaaaaaaaaaaaaa1'')]),
           (''summary'', JStr ''V1 is the only offer'')]"

section \<open>Properties of the oracle adapter\<close>

lemma retryWithBackoff_trace:
  "retryWithBackoff fn n r = (res, delays) \<Longrightarrow>
     length delays \<le> r \<and>
     delays = map (\<lambda>j. backoffDelay (r - j)) [0..<length delays] \<and>
     (\<forall>i<length delays. \<exists>e. fn (n + i) = Inl e \<and> isRetryableError e) \<and>
     res = (case fn (n + length delays) of Inr v \<Rightarrow> Inr v | Inl e \<Rightarrow> Inl (handleError e)) \<and>
     (length delays < r \<longrightarrow> \<not> (\<exists>e. fn (n + length delays) = Inl e \<and> isRetryableError e))"
proof (induction r arbitrary: n res delays)
  case 0
  then show ?case by (auto split: sum.splits)
next
  case (Suc r)
  show ?case
  proof (cases "fn n")
    case (Inr v)
    with Suc.prems show ?thesis by auto
  next
    case (Inl e)
    show ?thesis
    proof (cases "isRetryableError e")
      case False
      with Inl Suc.prems show ?thesis by auto
    next
      case True
      obtain res' ds' where rec: "retryWithBackoff fn (Suc n) r = (res', ds')"
        by (cases "retryWithBackoff fn (Suc n) r")
      from Suc.prems Inl True rec have res: "res = res'" and ds: "delays = backoffDelay (Suc r) # ds'"
        by auto
      note ih = Suc.IH [OF rec]
      have len: "length delays \<le> Suc r" using ih ds by simp
      have map_eq: "delays = map (\<lambda>j. backoffDelay (Suc r - j)) [0..<length delays]"
      proof -
        have "map (\<lambda>j. backoffDelay (Suc r - j)) [0..<Suc (length ds')] =
              backoffDelay (Suc r) # map (\<lambda>j. backoffDelay (Suc r - Suc j)) [0..<length ds']"
          by (simp only: upt_conv_Cons [of 0] map_Suc_upt [symmetric], simp add: comp_def)
        also have "\<dots> = backoffDelay (Suc r) # ds'"
          using ih by simp
        finally show ?thesis using ds by simp
      qed
      have retr: "\<forall>i<length delays. \<exists>e. fn (n + i) = Inl e \<and> isRetryableError e"
      proof (intro allI impI)
        fix i assume i: "i < length delays"
        show "\<exists>e. fn (n + i) = Inl e \<and> isRetryableError e"
        proof (cases i)
          case 0
          with Inl True show ?thesis by simp
        next
          case (Suc j)
          with i ds have "j < length ds'" by simp
          with ih obtain e' where "fn (Suc n + j) = Inl e'" "isRetryableError e'" by blast
          with Suc show ?thesis by simp
        qed
      qed
      have last: "res = (case fn (n + length delays) of Inr v \<Rightarrow> Inr v | Inl e \<Rightarrow> Inl (handleError e))"
        using ih res ds by simp
      have stop: "length delays < Suc r \<longrightarrow> \<not> (\<exists>e. fn (n + length delays) = Inl e \<and> isRetryableError e)"
        using ih ds by simp
      from len map_eq retr last stop show ?thesis by blast
    qed
  qed
qed

lemma isRetryableError_iff:
  "isRetryableError e \<longleftrightarrow>
     err_status e = Some 429
     \<or> (\<exists>s. err_status e = Some s \<and> 500 \<le> s \<and> s < 600)
     \<or> err_code e = Some ''ECONNRESET'' \<or> err_code e = Some ''ETIMEDOUT''
     \<or> (\<exists>m. err_message e = Some m \<and> str_includes m ''timeout'')"
  by (auto simp: isRetryableError_def message_has_timeout_def split: option.splits)

lemma delays_prefix:
  "k \<le> 3 \<Longrightarrow> map (\<lambda>j. backoffDelay (3 - j)) [0..<k] = take k [1000, 2000, 4000]"
proof -
  assume "k \<le> 3"
  then consider "k = 0" | "k = 1" | "k = 2" | "k = 3" by linarith
  then show ?thesis
    by cases (simp_all add: backoffDelay_def maxRetries_def baseDelay_def upt_rec)
qed

text \<open>
  C5. Started with the default retry budget, the adapter sleeps \<open>k \<le> 3\<close> times, for
  1000, 2000 and 4000 ms in this order; each of the \<open>k\<close> calls before a sleep failed
  with a retryable error; the result is the outcome of call \<open>k\<close> (its error mapped by
  \<open>handleError\<close>), and when fewer than three retries were made that outcome is not a
  retryable failure. A first failure that is not retryable is raised at once, with no
  sleep. Retryable means: status 429, a status in 500..599, code ECONNRESET or
  ETIMEDOUT, or a message containing "timeout".
\<close>

theorem retry_policy:
  assumes run: "retryWithBackoff fn 0 maxRetries = (res, delays)"
  shows "(\<exists>k\<le>3. delays = take k [1000, 2000, 4000]
            \<and> (\<forall>i<k. \<exists>e. fn i = Inl e \<and> isRetryableError e)
            \<and> res = (case fn k of Inr v \<Rightarrow> Inr v | Inl e \<Rightarrow> Inl (handleError e))
            \<and> (k < 3 \<longrightarrow> \<not> (\<exists>e. fn k = Inl e \<and> isRetryableError e)))
       \<and> (\<forall>e. fn 0 = Inl e \<and> \<not> isRetryableError e \<longrightarrow> delays = [] \<and> res = Inl (handleError e))
       \<and> (\<forall>e. isRetryableError e \<longleftrightarrow>
              err_status e = Some 429
              \<or> (\<exists>s. err_status e = Some s \<and> 500 \<le> s \<and> s < 600)
              \<or> err_code e = Some ''ECONNRESET'' \<or> err_code e = Some ''ETIMEDOUT''
              \<or> (\<exists>m. err_message e = Some m \<and> str_includes m ''timeout''))"
proof -
  note tr = retryWithBackoff_trace [OF run, simplified maxRetries_def]
  let ?k = "length delays"
  have k3: "?k \<le> 3" using tr by simp
  have d: "delays = take ?k [1000, 2000, 4000]"
    using tr delays_prefix [OF k3] by simp
  have first: "\<exists>k\<le>3. delays = take k [1000, 2000, 4000]
            \<and> (\<forall>i<k. \<exists>e. fn i = Inl e \<and> isRetryableError e)
            \<and> res = (case fn k of Inr v \<Rightarrow> Inr v | Inl e \<Rightarrow> Inl (handleError e))
            \<and> (k < 3 \<longrightarrow> \<not> (\<exists>e. fn k = Inl e \<and> isRetryableError e))"
    apply (rule exI [of _ ?k])
    using tr k3 d by simp
  have second: "\<forall>e. fn 0 = Inl e \<and> \<not> isRetryableError e \<longrightarrow> delays = [] \<and> res = Inl (handleError e)"
  proof (intro allI impI)
    fix e assume a: "fn 0 = Inl e \<and> \<not> isRetryableError e"
    have "?k = 0"
    proof (rule ccontr)
      assume "?k \<noteq> 0"
      then have "0 < ?k" by simp
      with tr obtain e' where "fn 0 = Inl e'" "isRetryableError e'" by fastforce
      with a show False by simp
    qed
    with tr a show "delays = [] \<and> res = Inl (handleError e)" by simp
  qed
  from first second isRetryableError_iff show ?thesis by blast
qed

text \<open>
  The policy at two oracles: one that answers 429 twice and then succeeds (two sleeps,
  1000 and 2000 ms), and one that answers 401 (no sleep, the mapped error at once).
\<close>

theorem retry_policy_witness:
  "retryWithBackoff
     (\<lambda>n. if n < 2 then Inl \<lparr>err_status = Some 429, err_code = None, err_message = Some ''Too Many Requests''\<rparr>
           else Inr ''{}'') 0 maxRetries = (Inr ''{}'', [1000, 2000])
   \<and> (\<exists>k\<le>3. [1000, 2000] = take k [1000, 2000, 4000 :: real])
   \<and> snd (retryWithBackoff
     (\<lambda>n. Inl \<lparr>err_status = Some 401, err_code = None, err_message = Some ''Unauthorized''\<rparr> :: api_error + string)
     0 maxRetries) = []
   \<and> fst (retryWithBackoff
     (\<lambda>n. Inl \<lparr>err_status = Some 401, err_code = None, err_message = Some ''Unauthorized''\<rparr> :: api_error + string)
     0 maxRetries) = Inl (Error ''Invalid OpenAI API key'')"
proof -
  let ?f = "\<lambda>n::nat. if n < 2 then Inl \<lparr>err_status = Some 429, err_code = None, err_message = Some ''Too Many Requests''\<rparr>
           else (Inr ''{}'' :: api_error + string)"
  let ?e = "\<lparr>err_status = Some 401, err_code = None, err_message = Some ''Unauthorized''\<rparr>"
  let ?g = "\<lambda>n::nat. Inl ?e :: api_error + string"
  have run: "retryWithBackoff ?f 0 maxRetries = (Inr ''{}'', [1000, 2000])"
    by (simp add: maxRetries_def numeral_3_eq_3 isRetryableError_def backoffDelay_def baseDelay_def)
  from retry_policy [OF run] have first: "\<exists>k\<le>3. [1000, 2000] = take k [1000, 2000, 4000 :: real]"
    by blast
  have run': "retryWithBackoff ?g 0 maxRetries
                = (fst (retryWithBackoff ?g 0 maxRetries), snd (retryWithBackoff ?g 0 maxRetries))"
    by simp
  have terminal: "?g 0 = Inl ?e \<and> \<not> isRetryableError ?e"
    by (simp add: isRetryableError_def message_has_timeout_def)
  note second = retry_policy [OF run', THEN conjunct2, THEN conjunct1, rule_format, OF terminal]
  have mapped: "handleError ?e = Error ''Invalid OpenAI API key''"
    by (simp add: handleError_def)
  show ?thesis
    using run first second [THEN conjunct1] second [THEN conjunct2] mapped
    by (intro conjI) (assumption, assumption, assumption, simp)
qed

lemma retryWithBackoff_raises_mapped:
  "retryWithBackoff fn n r = (Inl x, delays) \<Longrightarrow> \<exists>i e. fn i = Inl e \<and> x = handleError e"
proof -
  assume run: "retryWithBackoff fn n r = (Inl x, delays)"
  from retryWithBackoff_trace [OF run]
  have "Inl x = (case fn (n + length delays) of Inr v \<Rightarrow> Inr v | Inl e \<Rightarrow> Inl (handleError e))"
    by simp
  then show ?thesis by (cases "fn (n + length delays)") auto
qed

text \<open>
  C6, as the code has it. A failure that leaves the adapter is \<open>handleError e\<close> for an
  error \<open>e\<close> the upstream call threw. Its message is one of four fixed texts (status 401;
  status 429; status 500 or 503; otherwise a message containing "timeout"), and in
  every other case it is the text "AI service error: " followed by the upstream
  error's own message, or by "Unknown error occurred" when that message is absent or
  empty.
\<close>

theorem handleError_categories:
  "(retryWithBackoff fn n r = (Inl x, delays) \<longrightarrow> (\<exists>i e. fn i = Inl e \<and> x = handleError e))
   \<and> (err_status e = Some 401 \<longrightarrow> handleError e = Error ''Invalid OpenAI API key'')
   \<and> (err_status e = Some 429 \<longrightarrow>
        handleError e = Error ''OpenAI API rate limit exceeded. Please try again later.'')
   \<and> (err_status e = Some 500 \<or> err_status e = Some 503 \<longrightarrow>
        handleError e = Error ''OpenAI service is temporarily unavailable. Please try again later.'')
   \<and> (err_status e \<notin> {Some 401, Some 429, Some 500, Some 503} \<and> message_has_timeout e \<longrightarrow>
        handleError e = Error ''Request to OpenAI timed out. Please try again.'')
   \<and> (err_status e \<notin> {Some 401, Some 429, Some 500, Some 503} \<and> \<not> message_has_timeout e \<longrightarrow>
        handleError e = Error (''AI service error: '' @ message_or_unknown e)
        \<and> (\<forall>m. err_message e = Some m \<and> m \<noteq> [] \<longrightarrow> message_or_unknown e = m)
        \<and> (err_message e = None \<or> err_message e = Some [] \<longrightarrow>
             message_or_unknown e = ''Unknown error occurred''))"
  using retryWithBackoff_raises_mapped [of fn n r x delays]
  by (auto simp: handleError_def message_or_unknown_def)

text \<open>
  The categories, one error each: a status-400 error is not retried and what the
  adapter raises carries the upstream message after the fixed prefix (the fixed
  "Unknown error occurred" when there is none); status 401, 429 and 503 and a message
  containing "timeout" give the four fixed messages.
\<close>

theorem handleError_categories_witness:
  "retryWithBackoff
     (\<lambda>n. Inl \<lparr>err_status = Some 400, err_code = None, err_message = Some ''Bad Request''\<rparr> :: api_error + string)
     0 3 = (Inl (Error ''AI service error: Bad Request''), [])
   \<and> (\<exists>(i::nat) e. (Inl \<lparr>err_status = Some 400, err_code = None, err_message = Some ''Bad Request''\<rparr> :: api_error + string) = Inl e
          \<and> Error ''AI service error: Bad Request'' = handleError e)
   \<and> handleError \<lparr>err_status = Some 400, err_code = None, err_message = Some ''Bad Request''\<rparr>
       = Error (''AI service error: '' @ ''Bad Request'')
   \<and> handleError \<lparr>err_status = Some 400, err_code = None, err_message = None\<rparr>
       = Error (''AI service error: '' @ ''Unknown error occurred'')
   \<and> handleError \<lparr>err_status = Some 401, err_code = None, err_message = Some ''Bad Request''\<rparr>
       = Error ''Invalid OpenAI API key''
   \<and> handleError \<lparr>err_status = Some 429, err_code = None, err_message = Some ''Too Many Requests''\<rparr>
       = Error ''OpenAI API rate limit exceeded. Please try again later.''
   \<and> handleError \<lparr>err_status = Some 503, err_code = None, err_message = Some ''Service Unavailable''\<rparr>
       = Error ''OpenAI service is temporarily unavailable. Please try again later.''
   \<and> handleError \<lparr>err_status = None, err_code = Some ''ETIMEDOUT'', err_message = Some ''socket timeout''\<rparr>
       = Error ''Request to OpenAI timed out. Please try again.''"
proof -
  let ?e = "\<lparr>err_status = Some 400, err_code = None, err_message = Some ''Bad Request''\<rparr>"
  let ?en = "\<lparr>err_status = Some 400, err_code = None, err_message = None\<rparr>"
  let ?ea = "\<lparr>err_status = Some 401, err_code = None, err_message = Some ''Bad Request''\<rparr>"
  let ?eb = "\<lparr>err_status = Some 429, err_code = None, err_message = Some ''Too Many Requests''\<rparr>"
  let ?ec = "\<lparr>err_status = Some 503, err_code = None, err_message = Some ''Service Unavailable''\<rparr>"
  let ?ed = "\<lparr>err_status = None, err_code = Some ''ETIMEDOUT'', err_message = Some ''socket timeout''\<rparr>"
  have run: "retryWithBackoff (\<lambda>n. Inl ?e :: api_error + string) 0 3
               = (Inl (Error ''AI service error: Bad Request''), [])"
    by (simp add: numeral_3_eq_3 isRetryableError_def handleError_def message_has_timeout_def
        message_or_unknown_def)
  note cats = handleError_categories
    [of "\<lambda>n. Inl ?e :: api_error + string" 0 3 "Error ''AI service error: Bad Request''" "[]"]
  note raised = cats [of ?e, THEN conjunct1, THEN mp, OF run]
  have generic_case: "err_status ?e \<notin> {Some 401, Some 429, Some 500, Some 503} \<and> \<not> message_has_timeout ?e"
    by (simp add: message_has_timeout_def)
  note gen = cats [of ?e, THEN conjunct2, THEN conjunct2, THEN conjunct2, THEN conjunct2,
    THEN conjunct2, THEN mp, OF generic_case]
  have msg: "err_message ?e = Some ''Bad Request'' \<and> ''Bad Request'' \<noteq> []" by simp
  from gen [THEN conjunct2, THEN conjunct1, rule_format, OF msg] gen [THEN conjunct1]
  have generic: "handleError ?e = Error (''AI service error: '' @ ''Bad Request'')" by simp
  have generic_case0: "err_status ?en \<notin> {Some 401, Some 429, Some 500, Some 503} \<and> \<not> message_has_timeout ?en"
    by (simp add: message_has_timeout_def)
  note gen0 = cats [of ?en, THEN conjunct2, THEN conjunct2, THEN conjunct2, THEN conjunct2,
    THEN conjunct2, THEN mp, OF generic_case0]
  have nomsg: "err_message ?en = None \<or> err_message ?en = Some []" by simp
  from gen0 [THEN conjunct2, THEN conjunct2, THEN mp, OF nomsg] gen0 [THEN conjunct1]
  have unknown: "handleError ?en = Error (''AI service error: '' @ ''Unknown error occurred'')" by simp
  have s1: "err_status ?ea = Some 401" by simp
  note fixed1 = cats [of ?ea, THEN conjunct2, THEN conjunct1, THEN mp, OF s1]
  have s2: "err_status ?eb = Some 429" by simp
  note fixed2 = cats [of ?eb, THEN conjunct2, THEN conjunct2, THEN conjunct1, THEN mp, OF s2]
  have s3: "err_status ?ec = Some 500 \<or> err_status ?ec = Some 503" by simp
  note fixed3 = cats [of ?ec, THEN conjunct2, THEN conjunct2, THEN conjunct2, THEN conjunct1, THEN mp, OF s3]
  have s4: "err_status ?ed \<notin> {Some 401, Some 429, Some 500, Some 503} \<and> message_has_timeout ?ed"
    by (simp add: message_has_timeout_def)
  note fixed4 = cats [of ?ed, THEN conjunct2, THEN conjunct2, THEN conjunct2, THEN conjunct2,
    THEN conjunct1, THEN mp, OF s4]
  show ?thesis
    by (rule conjI [OF run conjI [OF raised conjI [OF generic conjI [OF unknown
          conjI [OF fixed1 conjI [OF fixed2 conjI [OF fixed3 fixed4]]]]]]])
qed

text \<open>
  C6 as stated fails: two upstream errors of the generic category that differ only in
  their message leave the adapter with different messages, each containing the
  upstream text.
\<close>

theorem raw_message_leak_counterexample:
  "fst (makeCompletionRequest
          (\<lambda>n. Inl \<lparr>err_status = Some 400, err_code = None,
                     err_message = Some ''Incorrect request: key sk-abc''\<rparr>))
     = Inl (Error ''AI service error: Incorrect request: key sk-abc'')
   \<and> fst (makeCompletionRequest
          (\<lambda>n. Inl \<lparr>err_status = Some 400, err_code = None,
                     err_message = Some ''model overloaded''\<rparr>))
     = Inl (Error ''AI service error: model overloaded'')
   \<and> str_includes ''AI service error: Incorrect request: key sk-abc'' ''Incorrect request: key sk-abc''"
  by (simp add: makeCompletionRequest_def maxRetries_def numeral_3_eq_3 isRetryableError_def
      handleError_def message_has_timeout_def message_or_unknown_def)

section \<open>Properties of the correlation\<close>

lemma correlate_with_tag:
  assumes "rfpIdMatch email = Some digits"
  shows "c_rfpId (fst (correlateEmailToRFP email findRFP findVendor)) = Some (IdText digits)"
    and "snd (correlateEmailToRFP email findRFP findVendor) = []"
  using assms
  by (auto simp: correlateEmailToRFP_def Let_def
      split: option.splits sum.splits prod.splits if_splits)

lemma correlate_asked:
  "snd (correlateEmailToRFP email findRFP findVendor) =
     (case c_vendorId (fst (correlateEmailToRFP email findRFP findVendor)) of
        None \<Rightarrow> []
      | Some v \<Rightarrow> if rfpIdMatch email = None \<and> findRFP \<noteq> None then [v] else [])"
  by (auto simp: correlateEmailToRFP_def Let_def
      split: option.splits sum.splits prod.splits if_splits)

lemma correlate_fallback:
  assumes "rfpIdMatch email = None" "findRFP = Some f"
    "c_vendorId (fst (correlateEmailToRFP email findRFP findVendor)) = Some v"
  shows "c_rfpId (fst (correlateEmailToRFP email findRFP findVendor)) =
           (case f v of Inr (Some r) \<Rightarrow> Some (IdDoc (rfp_oid r)) | _ \<Rightarrow> None)"
  using assms
  by (auto simp: correlateEmailToRFP_def Let_def
      split: option.splits sum.splits prod.splits if_splits)

lemma correlate_vendor:
  "c_vendorId (fst (correlateEmailToRFP email findRFP findVendor)) =
     (case (em_from email, findVendor) of
        (Some addr, Some f) \<Rightarrow>
          if addr = [] then None
          else (case f addr of Inr (Some v) \<Rightarrow> Some (vendor_oid v) | _ \<Rightarrow> None)
      | _ \<Rightarrow> None)"
  by (auto simp: correlateEmailToRFP_def Let_def
      split: option.splits sum.splits prod.splits if_splits)

lemma correlate_success:
  "c_success (fst (correlateEmailToRFP email findRFP findVendor)) =
     (c_rfpId (fst (correlateEmailToRFP email findRFP findVendor)) \<noteq> None
      \<and> c_vendorId (fst (correlateEmailToRFP email findRFP findVendor)) \<noteq> None)"
  by (auto simp: correlateEmailToRFP_def Let_def
      split: option.splits sum.splits prod.splits if_splits)

lemma sort_key_head_min:
  assumes "sort_key f xs = y # ys" "x \<in> set xs"
  shows "f y \<le> f x"
proof -
  have "sorted (map f (sort_key f xs))" by (rule sorted_sort_key)
  with assms(1) have "\<forall>z\<in>set ys. f y \<le> f z" by simp
  moreover have "x \<in> set (sort_key f xs)" using assms(2) by simp
  ultimately show ?thesis using assms(1) by auto
qed

lemma fold_max_ge: "x \<in> set xs \<Longrightarrow> x \<le> fold max xs (a::nat)"
proof (induction xs arbitrary: a)
  case Nil then show ?case by simp
next
  case (Cons y ys)
  have mono: "\<And>b. b \<le> fold max ys b"
  proof -
    fix b show "b \<le> fold max ys (b::nat)"
      by (induction ys arbitrary: b) (auto intro: order_trans [OF max.cobounded2])
  qed
  show ?case
  proof (cases "x = y")
    case True
    have "y \<le> max y a" by simp
    also have "\<dots> \<le> fold max ys (max y a)" by (rule mono)
    finally show ?thesis using True by simp
  next
    case False
    with Cons.prems have "x \<in> set ys" by simp
    from Cons.IH [OF this] show ?thesis by simp
  qed
qed

lemma fold_max_in: "fold max xs (a::nat) \<in> insert a (set xs)"
proof (induction xs arbitrary: a)
  case Nil
  then show ?case by simp
next
  case (Cons y ys)
  from Cons.IH [of "max y a"] show ?case by (auto simp: max_def split: if_splits)
qed

lemma findRecentRFP_Some:
  assumes "findRecentRFP d vendorId = Inr (Some r)"
  shows "r \<in> set (db_rfps d)" "rfp_matches vendorId r"
    "\<forall>r'\<in>set (db_rfps d). rfp_matches vendorId r' \<longrightarrow> sent_at_key r' \<le> sent_at_key r"
proof -
  let ?ms = "filter (rfp_matches vendorId) (db_rfps d)"
  let ?f = "\<lambda>r. - int (sent_at_key r)"
  from assms obtain rest where s: "sort_key ?f ?ms = r # rest"
    by (auto simp: findRecentRFP_def split: list.splits)
  have "r \<in> set (sort_key ?f ?ms)" using s by simp
  then have mem: "r \<in> set ?ms" by simp
  then show "r \<in> set (db_rfps d)" "rfp_matches vendorId r" by simp_all
  show "\<forall>r'\<in>set (db_rfps d). rfp_matches vendorId r' \<longrightarrow> sent_at_key r' \<le> sent_at_key r"
  proof (intro ballI impI)
    fix r' assume "r' \<in> set (db_rfps d)" "rfp_matches vendorId r'"
    then have "r' \<in> set ?ms" by simp
    from sort_key_head_min [OF s this] show "sent_at_key r' \<le> sent_at_key r" by simp
  qed
qed

lemma findRecentRFP_None:
  "findRecentRFP d vendorId = Inr None \<longleftrightarrow> (\<forall>r\<in>set (db_rfps d). \<not> rfp_matches vendorId r)"
proof -
  let ?ms = "filter (rfp_matches vendorId) (db_rfps d)"
  let ?f = "\<lambda>r. - int (sent_at_key r)"
  have "sort_key ?f ?ms = [] \<longleftrightarrow> ?ms = []"
    by (metis length_sort list.size(3) length_0_conv)
  then show ?thesis
    by (auto simp: findRecentRFP_def filter_empty_conv split: list.splits)
qed

lemma findRecentRFP_total: "\<exists>r. findRecentRFP d vendorId = Inr r"
  by (auto simp: findRecentRFP_def split: list.splits)

lemma findRecentRFP_latest:
  assumes "findRecentRFP d vendorId = Inr (Some r)"
    and "r' \<in> set (db_rfps d)" "rfp_matches vendorId r'" "(v', t') \<in> set (rfp_vendors r')"
  shows "\<exists>v t. (v, t) \<in> set (rfp_vendors r) \<and> t' \<le> t"
proof -
  note f = findRecentRFP_Some [OF assms(1)]
  from f(3) assms(2,3) have le: "sent_at_key r' \<le> sent_at_key r" by blast
  from assms(4) have "t' \<in> set (map snd (rfp_vendors r'))" by force
  from fold_max_ge [OF this, of 0] have t': "t' \<le> sent_at_key r'" by (simp add: sent_at_key_def)
  from f(2) obtain v0 t0 where one: "(v0, t0) \<in> set (rfp_vendors r)"
    by (auto simp: rfp_matches_def)
  from fold_max_in [of "map snd (rfp_vendors r)" 0]
  have "sent_at_key r = 0 \<or> sent_at_key r \<in> snd ` set (rfp_vendors r)"
    by (simp add: sent_at_key_def)
  then show ?thesis
  proof
    assume "sent_at_key r = 0"
    with le t' have "t' \<le> t0" by simp
    with one show ?thesis by blast
  next
    assume "sent_at_key r \<in> snd ` set (rfp_vendors r)"
    then obtain v t where vt: "(v, t) \<in> set (rfp_vendors r)" "t = sent_at_key r" by force
    from le t' vt(2) have "t' \<le> t" by simp
    with vt(1) show ?thesis by blast
  qed
qed

text \<open>
  When the subject carries the tag, the correlation's RFP id is the tag's capture and
  the RFP callback is not called, whatever the callbacks would answer. The RFP
  callback is called (once, at the vendor resolved from the sender) exactly when a
  vendor was resolved, the subject carried no tag and the callback is present. The
  callback the inbound paths pass answers, without throwing, with an RFP of the store
  that lists the vendor and has status sent or receiving_proposals, and no such RFP
  has an entry sent later than every entry of the one it answers with, whichever
  vendor the entry is of; it answers \<^verbatim>\<open>null\<close> exactly when there is none.
\<close>

lemma correlation_precedence:
  "(rfpIdMatch email = Some digits \<longrightarrow>
       c_rfpId (fst (correlateEmailToRFP email findRFP findVendor)) = Some (IdText digits)
     \<and> snd (correlateEmailToRFP email findRFP findVendor) = [])
   \<and> snd (correlateEmailToRFP email findRFP findVendor) =
       (case c_vendorId (fst (correlateEmailToRFP email findRFP findVendor)) of
          None \<Rightarrow> []
        | Some v \<Rightarrow> if rfpIdMatch email = None \<and> findRFP \<noteq> None then [v] else [])
   \<and> (findRecentRFP d vendorId = Inr (Some r) \<longrightarrow>
         r \<in> set (db_rfps d)
       \<and> vendorId \<in> set (map fst (rfp_vendors r))
       \<and> (rfp_status r = Sent \<or> rfp_status r = ReceivingProposals)
       \<and> (\<forall>r'\<in>set (db_rfps d). rfp_matches vendorId r' \<longrightarrow>
             (\<forall>(v', t')\<in>set (rfp_vendors r'). \<exists>(v, t)\<in>set (rfp_vendors r). t' \<le> t)))
   \<and> (findRecentRFP d vendorId = Inr None \<longleftrightarrow> (\<forall>r\<in>set (db_rfps d). \<not> rfp_matches vendorId r))
   \<and> (\<exists>x. findRecentRFP d vendorId = Inr x)"
proof -
  have a: "rfpIdMatch email = Some digits \<longrightarrow>
       c_rfpId (fst (correlateEmailToRFP email findRFP findVendor)) = Some (IdText digits)
     \<and> snd (correlateEmailToRFP email findRFP findVendor) = []"
    using correlate_with_tag by blast
  have c: "findRecentRFP d vendorId = Inr (Some r) \<longrightarrow>
         r \<in> set (db_rfps d)
       \<and> vendorId \<in> set (map fst (rfp_vendors r))
       \<and> (rfp_status r = Sent \<or> rfp_status r = ReceivingProposals)
       \<and> (\<forall>r'\<in>set (db_rfps d). rfp_matches vendorId r' \<longrightarrow>
             (\<forall>(v', t')\<in>set (rfp_vendors r'). \<exists>(v, t)\<in>set (rfp_vendors r). t' \<le> t))"
  proof
    assume h: "findRecentRFP d vendorId = Inr (Some r)"
    note f = findRecentRFP_Some [OF h]
    from f(2) have m: "vendorId \<in> set (map fst (rfp_vendors r))"
      "rfp_status r = Sent \<or> rfp_status r = ReceivingProposals"
      by (simp_all add: rfp_matches_def)
    have l: "\<forall>r'\<in>set (db_rfps d). rfp_matches vendorId r' \<longrightarrow>
             (\<forall>(v', t')\<in>set (rfp_vendors r'). \<exists>(v, t)\<in>set (rfp_vendors r). t' \<le> t)"
      using findRecentRFP_latest [OF h] by fast
    from f(1) m l show "r \<in> set (db_rfps d)
       \<and> vendorId \<in> set (map fst (rfp_vendors r))
       \<and> (rfp_status r = Sent \<or> rfp_status r = ReceivingProposals)
       \<and> (\<forall>r'\<in>set (db_rfps d). rfp_matches vendorId r' \<longrightarrow>
             (\<forall>(v', t')\<in>set (rfp_vendors r'). \<exists>(v, t)\<in>set (rfp_vendors r). t' \<le> t))"
      by blast
  qed
  from a correlate_asked [of email findRFP findVendor] c findRecentRFP_None [of d vendorId]
    findRecentRFP_total [of d vendorId]
  show ?thesis by blast
qed

text \<open>The example store, evaluated.\<close>

lemma ex_tag: "rfpIdMatch ex_email = Some ''0123456789ABCDEF01234567''"
  by (simp add: rfpIdMatch_def ex_email_def match_tag_here_def toLowerCase_def lower_ascii_def is_hex_digit_def)

lemma ex_tag_closed: "rfpIdMatch ex_email_closed = Some ''cccccccccccccccccccccccc''"
  by (simp add: rfpIdMatch_def ex_email_closed_def match_tag_here_def toLowerCase_def lower_ascii_def is_hex_digit_def)

lemma ex_vendor_found: "findVendorByEmail ex_db ''V1@X.com'' = Inr (Some ex_vendor)"
  by (simp add: findVendorByEmail_def emailSetters_def trim_def is_space_def ex_db_def ex_vendor_def toLowerCase_def lower_ascii_def)

lemma ex_recent: "findRecentRFP ex_db ''aaaaaaaaaaaaaaaaaaaaaaa1'' = Inr (Some ex_rfp)"
  by (simp add: findRecentRFP_def ex_db_def rfp_matches_def ex_rfp_def ex_closed_rfp_def)

lemma ex_cast: "castObjectId (IdText ''0123456789ABCDEF01234567'') = Inr ''0123456789abcdef01234567''"
  by (simp add: toLowerCase_def lower_ascii_def is_hex_digit_def)

lemma ex_cast_closed: "castObjectId (IdText ''cccccccccccccccccccccccc'') = Inr ''cccccccccccccccccccccccc''"
  by (simp add: toLowerCase_def lower_ascii_def is_hex_digit_def)

lemma ex_untagged: "rfpIdMatch ex_email_untagged = None"
  by (simp add: rfpIdMatch_def ex_email_untagged_def match_tag_here_def toLowerCase_def lower_ascii_def)

text \<open>The query finds the vendor also for an address with white space around it.\<close>

lemma ex_vendor_found_spaced: "findVendorByEmail ex_db '' V1@X.com  '' = Inr (Some ex_vendor)"
  by (simp add: findVendorByEmail_def emailSetters_def trim_def is_space_def ex_db_def ex_vendor_def toLowerCase_def lower_ascii_def)

lemma ex_vendor_found_lower: "findVendorByEmail ex_db ''v1@x.com'' = Inr (Some ex_vendor)"
  by (simp add: findVendorByEmail_def emailSetters_def trim_def is_space_def ex_db_def ex_vendor_def toLowerCase_def lower_ascii_def)

lemma ex_untagged_vendor:
  "c_vendorId (fst (correlateEmailToRFP ex_email_untagged (Some (findRecentRFP ex_db)) (Some (findVendorByEmail ex_db))))
       = Some ''aaaaaaaaaaaaaaaaaaaaaaa1''"
  unfolding correlate_vendor
  by (simp add: ex_email_untagged_def ex_vendor_found_lower) (simp add: ex_vendor_def)

lemma ex_untagged_rfp:
  "c_rfpId (fst (correlateEmailToRFP ex_email_untagged (Some (findRecentRFP ex_db)) (Some (findVendorByEmail ex_db))))
       = Some (IdDoc ''0123456789abcdef01234567'')"
  unfolding correlate_fallback [OF ex_untagged refl ex_untagged_vendor]
  by (simp add: ex_recent) (simp add: ex_rfp_def)

lemma ex_closed_vendor:
  "c_vendorId (fst (correlateEmailToRFP ex_email_closed (Some (findRecentRFP ex_db)) (Some (findVendorByEmail ex_db))))
       = Some ''aaaaaaaaaaaaaaaaaaaaaaa1''"
  unfolding correlate_vendor by (simp add: ex_email_closed_def ex_vendor_found) (simp add: ex_vendor_def)

lemma ex_tag_wins:
  "c_rfpId (fst (correlateEmailToRFP ex_email_closed (Some (findRecentRFP ex_db)) (Some (findVendorByEmail ex_db))))
       = Some (IdText ''cccccccccccccccccccccccc'')"
  "snd (correlateEmailToRFP ex_email_closed (Some (findRecentRFP ex_db)) (Some (findVendorByEmail ex_db))) = []"
  by (rule correlate_with_tag [OF ex_tag_closed])+

section \<open>Properties of the inbound paths\<close>

lemma fresh_id_fresh: "fresh_id d \<notin> set (map p_id (db_proposals d))"
proof
  assume "fresh_id d \<in> set (map p_id (db_proposals d))"
  from fold_max_ge [OF this, of 0] show False by (simp add: fresh_id_def)
qed

lemma save_twice:
  assumes "p_id p \<notin> set (map p_id (db_proposals d))" and "p_id p' = p_id p"
  shows "saveProposal (saveProposal d p) p' = d\<lparr>db_proposals := db_proposals d @ [p']\<rparr>"
proof -
  have "map (\<lambda>q. if p_id q = p_id p then p' else q) (db_proposals d) = db_proposals d"
  proof (rule map_idI)
    fix x assume "x \<in> set (db_proposals d)"
    then have "p_id x \<in> set (map p_id (db_proposals d))" by simp
    with assms(1) have "p_id x \<noteq> p_id p" by metis
    then show "(if p_id x = p_id p then p' else x) = x" by simp
  qed
  then show ?thesis using assms by (simp add: saveProposal_def)
qed

lemma polling_parse_fails:
  "parseProposal oracle jsonParse (case em_body emailData of None \<Rightarrow> ArgUndefined | Some b \<Rightarrow> ArgString b)
     = Inl (Error ''Email body is required for proposal parsing'')"
  by (simp add: parseProposal_def split: option.splits)

text \<open>The record both paths store: the new document after the attempt to parse.\<close>

lemma save_new:
  assumes "p_id p \<notin> set (map p_id (db_proposals d))"
  shows "saveProposal d p = d\<lparr>db_proposals := db_proposals d @ [p]\<rparr>"
  using assms by (simp add: saveProposal_def)

lemma afterParse_attempted:
  "afterParse env outcome d p =
     (case attempted env outcome p of
        Some p' \<Rightarrow> Inr (saveProposal d p', p')
      | None \<Rightarrow> Inl StoreValidationError)"
  by (simp add: afterParse_def attempted_def split: sum.splits option.splits)

lemma attempted_same:
  assumes "attempted env outcome p = Some p'"
  shows "p_id p' = p_id p" "p_rfp_id p' = p_rfp_id p" "p_vendor_id p' = p_vendor_id p"
    "p_raw_email_content p' = p_raw_email_content p"
  using assms by (auto simp: attempted_def markParsed_def split: sum.splits)

lemma poll_insert_result:
  "poll_insert env d emailData rid rfpId vendorId =
     (d\<lparr>db_proposals := db_proposals d @
          [(newProposal d rid vendorId emailData
              (case em_date emailData of Some t \<Rightarrow> t | None \<Rightarrow> env_now env))\<lparr>p_requires_review := True\<rparr>],
        db_rfps := (case find (\<lambda>r. rfp_oid r = rid) (db_rfps d) of
                      Some r \<Rightarrow> if rfp_status r = Sent then set_status (db_rfps d) rid ReceivingProposals
                                else db_rfps d
                    | None \<Rightarrow> db_rfps d)\<rparr>,
      PollSuccess (fresh_id d) rfpId vendorId)"
proof -
  let ?p = "newProposal d rid vendorId emailData (case em_date emailData of Some t \<Rightarrow> t | None \<Rightarrow> env_now env)"
  have id: "p_id ?p = fresh_id d" by (simp add: newProposal_def)
  have fresh: "p_id ?p \<notin> set (map p_id (db_proposals d))"
    using fresh_id_fresh [of d] id by simp
  have tw: "saveProposal (saveProposal d ?p) (?p\<lparr>p_requires_review := True\<rparr>)
          = d\<lparr>db_proposals := db_proposals d @ [?p\<lparr>p_requires_review := True\<rparr>]\<rparr>"
    by (rule save_twice [OF fresh]) simp
  have ap: "afterParse env (Inl (Error ''Email body is required for proposal parsing'')) (saveProposal d ?p) ?p
              = Inr (d\<lparr>db_proposals := db_proposals d @ [?p\<lparr>p_requires_review := True\<rparr>]\<rparr>,
                     ?p\<lparr>p_requires_review := True\<rparr>)"
    by (simp add: afterParse_def tw)
  show ?thesis
    unfolding poll_insert_def Let_def polling_parse_fails ap
    by (simp add: id split: option.splits)
qed

lemma hook_insert_result:
  "hook_insert env d emailData rid vendorId =
     (case attempted env (parseProposal (env_oracle env) (env_jsonParse env) (ArgEmail emailData))
             (newProposal d rid vendorId emailData (env_now env)) of
        None \<Rightarrow>
          (d\<lparr>db_proposals := db_proposals d @ [newProposal d rid vendorId emailData (env_now env)]\<rparr>,
           Inl StoreValidationError)
      | Some p' \<Rightarrow>
          (case find (\<lambda>v. vendor_oid v = vendorId) (db_vendors d) of
             None \<Rightarrow>
               (d\<lparr>db_proposals := db_proposals d @ [p'],
                   db_rfps := set_status (db_rfps d) rid ReceivingProposals\<rparr>,
                Inl (TypeError ''_id''))
           | Some v \<Rightarrow>
               (d\<lparr>db_proposals := db_proposals d @ [p'],
                   db_rfps := set_status (db_rfps d) rid ReceivingProposals\<rparr>,
                Inr (p', v))))"
proof -
  let ?p = "newProposal d rid vendorId emailData (env_now env)"
  let ?a = "attempted env (parseProposal (env_oracle env) (env_jsonParse env) (ArgEmail emailData)) ?p"
  have id: "p_id ?p = fresh_id d" by (simp add: newProposal_def)
  have fresh: "p_id ?p \<notin> set (map p_id (db_proposals d))"
    using fresh_id_fresh [of d] id by simp
  show ?thesis
  proof (cases ?a)
    case None
    then show ?thesis
      unfolding hook_insert_def Let_def afterParse_attempted
      by (simp add: save_new [OF fresh])
  next
    case (Some p')
    have tw: "saveProposal (saveProposal d ?p) p' = d\<lparr>db_proposals := db_proposals d @ [p']\<rparr>"
      by (rule save_twice [OF fresh attempted_same(1) [OF Some]])
    from Some show ?thesis
      unfolding hook_insert_def Let_def afterParse_attempted
      by (simp add: tw split: option.splits)
  qed
qed

lemma poll_check_Go:
  assumes "poll_check d e = Go rid rfpId vid"
  shows "c_rfpId (inbound_correlation d e) = Some rfpId"
    "c_vendorId (inbound_correlation d e) = Some vid"
    "castObjectId rfpId = Inr rid" "findProposal d rid vid = None"
  using assms
  by (auto simp: poll_check_def Let_def split: option.splits sum.splits if_splits)

lemma poll_check_duplicate:
  assumes "c_rfpId (inbound_correlation d e) = Some rfpId"
    "c_vendorId (inbound_correlation d e) = Some vid"
    "castObjectId rfpId = Inr rid" "findProposal d rid vid = Some existing"
  shows "poll_check d e = Stop (DuplicateProposal (p_id existing))"
  using assms correlate_success [of e "Some (findRecentRFP d)" "Some (findVendorByEmail d)"]
  by (simp add: poll_check_def Let_def inbound_correlation_def)

lemma hook_check_Go:
  assumes "hook_check d e = HookGo rid vid"
  shows "c_rfpId (inbound_correlation d e) \<noteq> None"
    "c_vendorId (inbound_correlation d e) = Some vid"
    "\<exists>rfpId. c_rfpId (inbound_correlation d e) = Some rfpId \<and> castObjectId rfpId = Inr rid"
    "findProposal d rid vid = None"
    "\<not> absent (em_from e)" "\<not> absent (em_subject e)" "\<not> absent (em_body e)"
  using assms
  by (auto simp: hook_check_def Let_def split: option.splits sum.splits if_splits)

lemma hook_check_duplicate:
  assumes "c_rfpId (inbound_correlation d e) = Some rfpId"
    "c_vendorId (inbound_correlation d e) = Some vid"
    "castObjectId rfpId = Inr rid" "findProposal d rid vid = Some existing"
    "\<not> absent (em_from e)" "\<not> absent (em_subject e)" "\<not> absent (em_body e)"
  shows "hook_check d e = HookStop (DuplicateError (p_id existing))"
  using assms correlate_success [of e "Some (findRecentRFP d)" "Some (findVendorByEmail d)"]
  by (simp add: hook_check_def Let_def inbound_correlation_def)

lemma correlated_vendor_stored:
  assumes "c_vendorId (inbound_correlation d e) = Some vid"
  shows "\<exists>v. find (\<lambda>v. vendor_oid v = vid) (db_vendors d) = Some v"
proof -
  from assms obtain addr v where "findVendorByEmail d addr = Inr (Some v)" "vendor_oid v = vid"
    unfolding inbound_correlation_def correlate_vendor
    by (auto split: option.splits sum.splits if_splits)
  then have "v \<in> set (db_vendors d)"
    by (auto simp: findVendorByEmail_def find_Some_iff)
  with \<open>vendor_oid v = vid\<close> have "\<exists>x\<in>set (db_vendors d). vendor_oid x = vid" by blast
  then show ?thesis by (cases "find (\<lambda>v. vendor_oid v = vid) (db_vendors d)") (auto simp: find_None_iff)
qed

lemma poll_check_Go_intro:
  assumes "c_rfpId (inbound_correlation d e) = Some rfpId"
    "c_vendorId (inbound_correlation d e) = Some vid"
    "castObjectId rfpId = Inr rid" "findProposal d rid vid = None"
  shows "poll_check d e = Go rid rfpId vid"
  using assms correlate_success [of e "Some (findRecentRFP d)" "Some (findVendorByEmail d)"]
  by (simp add: poll_check_def Let_def inbound_correlation_def)

lemma hook_check_Go_intro:
  assumes "c_rfpId (inbound_correlation d e) = Some rfpId"
    "c_vendorId (inbound_correlation d e) = Some vid"
    "castObjectId rfpId = Inr rid" "findProposal d rid vid = None"
    "\<not> absent (em_from e)" "\<not> absent (em_subject e)" "\<not> absent (em_body e)"
  shows "hook_check d e = HookGo rid vid"
  using assms correlate_success [of e "Some (findRecentRFP d)" "Some (findVendorByEmail d)"]
  by (simp add: hook_check_def Let_def inbound_correlation_def)

lemma processReceivedEmail_Go:
  assumes "poll_check d e = Go rid rfpId vid"
  shows "processReceivedEmail env d e =
     (d\<lparr>db_proposals := db_proposals d @
          [(newProposal d rid vid e
              (case em_date e of Some t \<Rightarrow> t | None \<Rightarrow> env_now env))\<lparr>p_requires_review := True\<rparr>],
        db_rfps := (case find (\<lambda>r. rfp_oid r = rid) (db_rfps d) of
                      Some r \<Rightarrow> if rfp_status r = Sent then set_status (db_rfps d) rid ReceivingProposals
                                else db_rfps d
                    | None \<Rightarrow> db_rfps d)\<rparr>,
      PollSuccess (fresh_id d) rfpId vid)"
  using assms by (simp add: processReceivedEmail_def poll_insert_result)

lemma processReceivedEmail_Stop:
  assumes "poll_check d e = Stop res"
  shows "processReceivedEmail env d e = (d, res)"
  using assms by (simp add: processReceivedEmail_def)

text \<open>
  C10. The polling path calls the parser with the body string, the parser's guard
  refuses every string, so the call fails with the guard's error whatever the oracle
  would answer. A run that succeeds has added exactly one proposal, in status
  received, flagged for review, with no parsed data (the empty one of the schema's
  defaults); a run that does not succeed has changed nothing.
\<close>

theorem polling_never_parses:
  "parseProposal oracle jsonParse
      (case em_body emailData of None \<Rightarrow> ArgUndefined | Some b \<Rightarrow> ArgString b)
     = Inl (Error ''Email body is required for proposal parsing'')
   \<and> (\<forall>d' pid rfpId vendorId.
         processReceivedEmail env d emailData = (d', PollSuccess pid rfpId vendorId) \<longrightarrow>
         (\<exists>p. db_proposals d' = db_proposals d @ [p] \<and> p_id p = pid
              \<and> p_status p = Received \<and> p_requires_review p
              \<and> p_parsed_data p = noParsedData \<and> p_parsing_confidence p = None \<and> p_parsed_at p = None))
   \<and> (\<forall>d' res.
         processReceivedEmail env d emailData = (d', res)
         \<and> (\<forall>pid rfpId vendorId. res \<noteq> PollSuccess pid rfpId vendorId) \<longrightarrow> d' = d)"
proof (intro conjI allI impI)
  show "parseProposal oracle jsonParse
      (case em_body emailData of None \<Rightarrow> ArgUndefined | Some b \<Rightarrow> ArgString b)
     = Inl (Error ''Email body is required for proposal parsing'')"
    by (rule polling_parse_fails)
next
  fix d' pid rfpId vendorId
  assume run: "processReceivedEmail env d emailData = (d', PollSuccess pid rfpId vendorId)"
  show "\<exists>p. db_proposals d' = db_proposals d @ [p] \<and> p_id p = pid
              \<and> p_status p = Received \<and> p_requires_review p
              \<and> p_parsed_data p = noParsedData \<and> p_parsing_confidence p = None \<and> p_parsed_at p = None"
  proof (cases "poll_check d emailData")
    case (Stop res)
    from processReceivedEmail_Stop [OF Stop, of env] run have "res = PollSuccess pid rfpId vendorId"
      by simp
    with Stop show ?thesis
      by (auto simp: poll_check_def Let_def split: option.splits sum.splits if_splits)
  next
    case (Go rid r v)
    from processReceivedEmail_Go [OF Go, of env] run show ?thesis
      by (auto simp: newProposal_def)
  qed
next
  fix d' res
  assume run: "processReceivedEmail env d emailData = (d', res)
         \<and> (\<forall>pid rfpId vendorId. res \<noteq> PollSuccess pid rfpId vendorId)"
  show "d' = d"
  proof (cases "poll_check d emailData")
    case (Stop res')
    from processReceivedEmail_Stop [OF Stop, of env] run show ?thesis by simp
  next
    case (Go rid r v)
    from processReceivedEmail_Go [OF Go, of env] run show ?thesis by auto
  qed
qed

lemma receiveProposal_Go:
  assumes "hook_check d e = HookGo rid vid"
  shows "\<exists>v. find (\<lambda>v. vendor_oid v = vid) (db_vendors d) = Some v \<and>
     receiveProposal env d e =
       (case attempted env (parseProposal (env_oracle env) (env_jsonParse env) (ArgEmail e))
               (newProposal d rid vid e (env_now env)) of
          None \<Rightarrow>
            (d\<lparr>db_proposals := db_proposals d @ [newProposal d rid vid e (env_now env)]\<rparr>,
             Inl StoreValidationError)
        | Some p' \<Rightarrow>
            (d\<lparr>db_proposals := db_proposals d @ [p'],
                db_rfps := set_status (db_rfps d) rid ReceivingProposals\<rparr>,
             Inr (p', v)))"
proof -
  from correlated_vendor_stored [OF hook_check_Go(2) [OF assms]]
  obtain v where v: "find (\<lambda>v. vendor_oid v = vid) (db_vendors d) = Some v" by blast
  show ?thesis
    using assms v by (simp add: receiveProposal_def hook_insert_result split: option.splits)
qed

lemma receiveProposal_attempted:
  assumes "hook_check d e = HookGo rid vid"
    and "attempted env (parseProposal (env_oracle env) (env_jsonParse env) (ArgEmail e))
               (newProposal d rid vid e (env_now env)) = Some p'"
  shows "\<exists>v. receiveProposal env d e =
            (d\<lparr>db_proposals := db_proposals d @ [p'],
                db_rfps := set_status (db_rfps d) rid ReceivingProposals\<rparr>,
             Inr (p', v))"
  using receiveProposal_Go [OF assms(1), of env] assms(2) by auto

lemma receiveProposal_refused:
  assumes "hook_check d e = HookGo rid vid"
    and "attempted env (parseProposal (env_oracle env) (env_jsonParse env) (ArgEmail e))
               (newProposal d rid vid e (env_now env)) = None"
  shows "receiveProposal env d e =
            (d\<lparr>db_proposals := db_proposals d @ [newProposal d rid vid e (env_now env)]\<rparr>,
             Inl StoreValidationError)"
  using receiveProposal_Go [OF assms(1), of env] assms(2) by auto

lemma ex_corr_rfp: "c_rfpId (inbound_correlation ex_db ex_email) = Some (IdText ''0123456789ABCDEF01234567'')"
  unfolding inbound_correlation_def by (rule correlate_with_tag(1) [OF ex_tag])

lemma ex_corr_vendor: "c_vendorId (inbound_correlation ex_db ex_email) = Some ''aaaaaaaaaaaaaaaaaaaaaaa1''"
  unfolding inbound_correlation_def correlate_vendor
  by (simp add: ex_email_def ex_vendor_found) (simp add: ex_vendor_def)

lemma ex_no_proposal: "findProposal ex_db rid vid = None"
  by (simp add: findProposal_def ex_db_def)

lemma ex_poll_check:
  "poll_check ex_db ex_email
     = Go ''0123456789abcdef01234567'' (IdText ''0123456789ABCDEF01234567'') ''aaaaaaaaaaaaaaaaaaaaaaa1''"
  by (rule poll_check_Go_intro [OF ex_corr_rfp ex_corr_vendor ex_cast ex_no_proposal])

lemma ex_present: "\<not> absent (em_from ex_email)" "\<not> absent (em_subject ex_email)" "\<not> absent (em_body ex_email)"
  by (simp_all add: absent_def ex_email_def)

lemma ex_hook_check:
  "hook_check ex_db ex_email = HookGo ''0123456789abcdef01234567'' ''aaaaaaaaaaaaaaaaaaaaaaa1''"
  by (rule hook_check_Go_intro [OF ex_corr_rfp ex_corr_vendor ex_cast ex_no_proposal ex_present])

lemma ex_parse_down:
  "parseProposal (env_oracle ex_env_down) (env_jsonParse ex_env_down) (ArgEmail ex_email)
     = Inl (Error ''Invalid OpenAI API key'')"
  by (simp add: parseProposal_def ex_env_down_def ex_email_def makeCompletionRequest_def
      maxRetries_def numeral_3_eq_3 isRetryableError_def handleError_def message_has_timeout_def)

lemma ex_answered_rfp:
  "c_rfpId (inbound_correlation ex_db_answered ex_email) = Some (IdText ''0123456789ABCDEF01234567'')"
  unfolding inbound_correlation_def by (rule correlate_with_tag(1) [OF ex_tag])

lemma ex_answered_vendor:
  "c_vendorId (inbound_correlation ex_db_answered ex_email) = Some ''aaaaaaaaaaaaaaaaaaaaaaa1''"
  unfolding inbound_correlation_def correlate_vendor
  by (simp add: ex_email_def findVendorByEmail_def emailSetters_def trim_def is_space_def ex_db_answered_def ex_db_def ex_vendor_def
      toLowerCase_def lower_ascii_def)

lemma ex_answered_found:
  "findProposal ex_db_answered ''0123456789abcdef01234567'' ''aaaaaaaaaaaaaaaaaaaaaaa1'' = Some ex_proposal"
  by (simp add: findProposal_def ex_db_answered_def ex_proposal_def)

lemma ex_answered_poll:
  "processReceivedEmail ex_env ex_db_answered ex_email = (ex_db_answered, DuplicateProposal 7)"
proof -
  have "poll_check ex_db_answered ex_email = Stop (DuplicateProposal (p_id ex_proposal))"
    by (rule poll_check_duplicate [OF ex_answered_rfp ex_answered_vendor ex_cast ex_answered_found])
  then show ?thesis by (simp add: processReceivedEmail_Stop ex_proposal_def)
qed

text \<open>
  At the example store the polling run succeeds although its oracle would answer well:
  the proposal stays received and flagged. On the store that holds the vendor's answer
  the run ends as a duplicate and the store is as it was.
\<close>

theorem polling_never_parses_witness:
  "snd (processReceivedEmail ex_env ex_db ex_email)
     = PollSuccess 1 (IdText ''0123456789ABCDEF01234567'') ''aaaaaaaaaaaaaaaaaaaaaaa1''
   \<and> (\<exists>p. db_proposals (fst (processReceivedEmail ex_env ex_db ex_email)) = db_proposals ex_db @ [p]
          \<and> p_id p = 1 \<and> p_status p = Received \<and> p_requires_review p
          \<and> p_parsed_data p = noParsedData \<and> p_parsing_confidence p = None \<and> p_parsed_at p = None)
   \<and> snd (processReceivedEmail ex_env ex_db_answered ex_email) = DuplicateProposal 7
   \<and> fst (processReceivedEmail ex_env ex_db_answered ex_email) = ex_db_answered"
proof -
  have res: "snd (processReceivedEmail ex_env ex_db ex_email)
     = PollSuccess 1 (IdText ''0123456789ABCDEF01234567'') ''aaaaaaaaaaaaaaaaaaaaaaa1''"
    unfolding processReceivedEmail_Go [OF ex_poll_check]
    by (simp add: fresh_id_def ex_db_def)
  then have run: "processReceivedEmail ex_env ex_db ex_email
     = (fst (processReceivedEmail ex_env ex_db ex_email),
        PollSuccess 1 (IdText ''0123456789ABCDEF01234567'') ''aaaaaaaaaaaaaaaaaaaaaaa1'')"
    by (metis prod.collapse)
  note t = polling_never_parses [of "env_oracle ex_env" "env_jsonParse ex_env" ex_email ex_env ex_db]
  note ex = t [THEN conjunct2, THEN conjunct1, rule_format, OF run]
  have dup: "snd (processReceivedEmail ex_env ex_db_answered ex_email) = DuplicateProposal 7"
    by (simp add: ex_answered_poll)
  then have run': "processReceivedEmail ex_env ex_db_answered ex_email
       = (fst (processReceivedEmail ex_env ex_db_answered ex_email), DuplicateProposal 7)
     \<and> (\<forall>pid rfpId vendorId. DuplicateProposal 7 \<noteq> PollSuccess pid rfpId vendorId)"
    by (metis prod.collapse poll_result.distinct(3))
  note u = polling_never_parses [of "env_oracle ex_env" "env_jsonParse ex_env" ex_email ex_env ex_db_answered]
  note same = u [THEN conjunct2, THEN conjunct2, rule_format, OF run']
  show ?thesis by (rule conjI [OF res conjI [OF ex conjI [OF dup same]]])
qed

lemma map_of_alist_set:
  "map_of (alist_set kvs k x) k' = (if k' = k then Some x else map_of kvs k')"
  by (induction kvs) auto

lemma field_set_prop:
  "field (set_prop (JObj kvs) k x) k' = (if k' = k then x else field (JObj kvs) k')"
  by (simp add: map_of_alist_set)

lemma truthy_field_obj: "truthy (field v k) \<Longrightarrow> \<exists>kvs. v = JObj kvs"
  by (cases v) simp_all

text \<open>
  When the parser throws (in the polling path it always does), the run still ends with
  its success result (polling) or its 201 answer (webhook); the one proposal it has
  added is in status received, flagged for review, and holds the email's sender,
  subject, body and attachment names as they were stored.
\<close>

lemma attempted_parser_failure:
  "attempted env (Inl err) p = Some (p\<lparr>p_requires_review := True\<rparr>)"
  by (simp add: attempted_def)

lemma parser_failure_keeps_received:
  "(poll_check d e = Go rid rfpId vid \<longrightarrow>
      (\<exists>d' p. processReceivedEmail env d e = (d', PollSuccess (p_id p) rfpId vid)
             \<and> db_proposals d' = db_proposals d @ [p]
             \<and> p_status p = Received \<and> p_requires_review p
             \<and> p_raw_email_content p =
                 \<lparr>raw_from = em_from e, raw_subject = em_subject e, raw_body = em_body e,
                  raw_attachments = attachmentNames (em_attachments e)\<rparr>))
   \<and> (hook_check d e = HookGo rid' vid'
        \<and> parseProposal (env_oracle env) (env_jsonParse env) (ArgEmail e) = Inl err \<longrightarrow>
      (\<exists>d' p v. receiveProposal env d e = (d', Inr (p, v))
             \<and> db_proposals d' = db_proposals d @ [p]
             \<and> p_status p = Received \<and> p_requires_review p
             \<and> p_raw_email_content p =
                 \<lparr>raw_from = em_from e, raw_subject = em_subject e, raw_body = em_body e,
                  raw_attachments = attachmentNames (em_attachments e)\<rparr>))"
proof (intro conjI impI)
  assume go: "poll_check d e = Go rid rfpId vid"
  show "\<exists>d' p. processReceivedEmail env d e = (d', PollSuccess (p_id p) rfpId vid)
             \<and> db_proposals d' = db_proposals d @ [p]
             \<and> p_status p = Received \<and> p_requires_review p
             \<and> p_raw_email_content p =
                 \<lparr>raw_from = em_from e, raw_subject = em_subject e, raw_body = em_body e,
                  raw_attachments = attachmentNames (em_attachments e)\<rparr>"
    unfolding processReceivedEmail_Go [OF go]
    by (rule exI [of _ "d\<lparr>db_proposals := db_proposals d @
          [(newProposal d rid vid e
              (case em_date e of Some t \<Rightarrow> t | None \<Rightarrow> env_now env))\<lparr>p_requires_review := True\<rparr>],
        db_rfps := (case find (\<lambda>r. rfp_oid r = rid) (db_rfps d) of
                      Some r \<Rightarrow> if rfp_status r = Sent then set_status (db_rfps d) rid ReceivingProposals
                                else db_rfps d
                    | None \<Rightarrow> db_rfps d)\<rparr>"],
        rule exI [of _ "(newProposal d rid vid e
              (case em_date e of Some t \<Rightarrow> t | None \<Rightarrow> env_now env))\<lparr>p_requires_review := True\<rparr>"])
       (simp add: newProposal_def)
next
  assume h: "hook_check d e = HookGo rid' vid'
        \<and> parseProposal (env_oracle env) (env_jsonParse env) (ArgEmail e) = Inl err"
  let ?p = "(newProposal d rid' vid' e (env_now env))\<lparr>p_requires_review := True\<rparr>"
  have "attempted env (parseProposal (env_oracle env) (env_jsonParse env) (ArgEmail e))
          (newProposal d rid' vid' e (env_now env)) = Some ?p"
    using h by (simp add: attempted_parser_failure)
  from receiveProposal_attempted [OF h [THEN conjunct1] this]
  obtain v where run: "receiveProposal env d e =
       (d\<lparr>db_proposals := db_proposals d @ [?p],
           db_rfps := set_status (db_rfps d) rid' ReceivingProposals\<rparr>, Inr (?p, v))"
    by blast
  show "\<exists>d' p v. receiveProposal env d e = (d', Inr (p, v))
             \<and> db_proposals d' = db_proposals d @ [p]
             \<and> p_status p = Received \<and> p_requires_review p
             \<and> p_raw_email_content p =
                 \<lparr>raw_from = em_from e, raw_subject = em_subject e, raw_body = em_body e,
                  raw_attachments = attachmentNames (em_attachments e)\<rparr>"
    unfolding run
    by (rule exI [of _ "d\<lparr>db_proposals := db_proposals d @ [?p],
           db_rfps := set_status (db_rfps d) rid' ReceivingProposals\<rparr>"],
        rule exI [of _ ?p], rule exI [of _ v])
       (simp add: newProposal_def)
qed

lemma ex_parse_refused:
  "parseProposal (env_oracle ex_env_refused) (env_jsonParse ex_env_refused) (ArgEmail ex_email)
     = Inr \<lparr>pp_data = set_prop (set_prop ex_reply_refused ''special_conditions'' (JArr []))
                          ''requires_review'' (JBool True),
            pp_confidence = 1 / 2\<rparr>"
  by (simp add: parseProposal_def ex_env_refused_def ex_env_def ex_email_def makeCompletionRequest_def maxRetries_def
      numeral_3_eq_3 parseJSONResponse_def validateParsedData_def ex_reply_refused_def ex_item_def confidenceThreshold_def)

lemma ex_cast_refused:
  "castParsedData (env_numberToString ex_env_refused) (env_itemId ex_env_refused)
     (set_prop (set_prop ex_reply_refused ''special_conditions'' (JArr [])) ''requires_review'' (JBool True))
     = None"
  by (simp add: castParsedData_def castLineItem_def ex_env_refused_def ex_env_def ex_reply_refused_def ex_item_def)

lemma ex_attempted_refused:
  "attempted ex_env_refused
     (parseProposal (env_oracle ex_env_refused) (env_jsonParse ex_env_refused) (ArgEmail ex_email)) p = None"
  unfolding ex_parse_refused by (simp add: attempted_def ex_cast_refused)


lemma ex_cast_ok:
  "castParsedData (env_numberToString ex_env) (env_itemId ex_env)
     (set_prop (set_prop ex_reply ''special_conditions'' (JArr [])) ''requires_review'' (JBool False))
     = Some ex_stored"
  by (simp add: castParsedData_def castLineItem_def ex_env_def ex_reply_def ex_item_def ex_stored_def)


lemma checkLineItems_ok: "(checkLineItems items i = Inr ()) = list_all item_ok items"
  by (induction items arbitrary: i) (auto simp: item_ok_def)

lemma validateParsedData_accepts: "(\<exists>r. validateParsedData v = Inr r) \<longleftrightarrow> reply_ok v"
proof (cases "field v ''confidence''")
  case (JNum c)
  show ?thesis
    using JNum checkLineItems_ok [of "elements (field v ''line_items'')" 0]
    by (auto simp: validateParsedData_def reply_ok_def Let_def split: sum.splits)
qed (auto simp: validateParsedData_def reply_ok_def)

lemma validateParsedData_Inr:
  assumes "validateParsedData parsedData = Inr r"
  shows "0 \<le> pp_confidence r" "pp_confidence r \<le> 1"
    "field parsedData ''confidence'' = JNum (pp_confidence r)"
    "field (pp_data r) ''confidence'' = JNum (pp_confidence r)"
    "field (pp_data r) ''requires_review'' = JBool (pp_confidence r < confidenceThreshold)"
    "is_number (field (pp_data r) ''total_price'')"
    "isArray (field (pp_data r) ''special_conditions'')"
    "list_all item_ok (elements (field (pp_data r) ''line_items''))"
proof -
  from assms have t: "truthy (field parsedData ''line_items'')"
    by (auto simp: validateParsedData_def split: if_splits)
  then obtain kvs where obj: "parsedData = JObj kvs" using truthy_field_obj by blast
  from assms obtain c where c: "field parsedData ''confidence'' = JNum c"
    by (auto simp: validateParsedData_def split: if_splits jsval.splits)
  from assms c have bounds: "0 \<le> c" "c \<le> 1"
    by (auto simp: validateParsedData_def split: if_splits)
  from assms c bounds have r: "r = \<lparr>pp_data =
      set_prop (if \<not> isArray (field parsedData ''special_conditions'')
                then set_prop parsedData ''special_conditions'' (JArr []) else parsedData)
         ''requires_review'' (JBool (c < confidenceThreshold)), pp_confidence = c\<rparr>"
    by (auto simp: validateParsedData_def Let_def split: if_splits sum.splits)
  from assms have ok: "reply_ok parsedData" using validateParsedData_accepts by blast
  show "0 \<le> pp_confidence r" "pp_confidence r \<le> 1" using r bounds by simp_all
  show "field parsedData ''confidence'' = JNum (pp_confidence r)" using r c by simp
  show "field (pp_data r) ''confidence'' = JNum (pp_confidence r)"
    using r c obj by (simp add: map_of_alist_set)
  show "field (pp_data r) ''requires_review'' = JBool (pp_confidence r < confidenceThreshold)"
    using r obj by (simp add: map_of_alist_set)
  show "is_number (field (pp_data r) ''total_price'')"
    using r obj ok by (simp add: map_of_alist_set reply_ok_def)
  show "isArray (field (pp_data r) ''special_conditions'')"
    using r obj by (simp add: map_of_alist_set)
  show "list_all item_ok (elements (field (pp_data r) ''line_items''))"
    using r obj ok by (simp add: map_of_alist_set reply_ok_def)
qed

lemma validated_numbers:
  assumes "validateParsedData parsedData = Inr r"
  shows "castNumber (field (pp_data r) ''total_price'') \<noteq> None"
    and "\<forall>item\<in>set (elements (field (pp_data r) ''line_items'')).
           castNumber (field item ''unit_price'') \<noteq> None
         \<and> castNumber (field item ''quantity'') \<noteq> None
         \<and> castNumber (field item ''total_price'') \<noteq> None"
proof -
  have n: "is_number v \<Longrightarrow> \<exists>y. castNumber v = Some y" for v by (cases v) simp_all
  from n [OF validateParsedData_Inr(6) [OF assms]]
  show "castNumber (field (pp_data r) ''total_price'') \<noteq> None" by auto
  from validateParsedData_Inr(8) [OF assms]
  show "\<forall>item\<in>set (elements (field (pp_data r) ''line_items'')).
           castNumber (field item ''unit_price'') \<noteq> None
         \<and> castNumber (field item ''quantity'') \<noteq> None
         \<and> castNumber (field item ''total_price'') \<noteq> None"
    by (auto simp: list_all_iff item_ok_def dest: n)
qed







text \<open>
  C7. A failed attempt to parse should leave the proposal in status received and
  flagged for review, and the run should end with its result. It does when the parser
  throws (\<open>parser_failure_keeps_received\<close>). It does not in the webhook path when
  the parser returns and the schema refuses a value of what it returned: the
  \<^verbatim>\<open>save()\<close> of the \<^verbatim>\<open>try\<close> throws and the \<^verbatim>\<open>save()\<close> of the \<^verbatim>\<open>catch\<close> as well. At the
  example store, with an oracle whose reply has an object as delivery time, the
  parser accepts the reply, the cast refuses it, and the run ends with the store's
  validation error; the proposal it created is stored in status received and not
  flagged for review.
\<close>

theorem receiveProposal_raises_on_refused_value:
  "hook_check ex_db ex_email = HookGo ''0123456789abcdef01234567'' ''aaaaaaaaaaaaaaaaaaaaaaa1''
   \<and> parseProposal (env_oracle ex_env_refused) (env_jsonParse ex_env_refused) (ArgEmail ex_email)
       = Inr \<lparr>pp_data = set_prop (set_prop ex_reply_refused ''special_conditions'' (JArr []))
                            ''requires_review'' (JBool True),
              pp_confidence = 1 / 2\<rparr>
   \<and> castParsedData (env_numberToString ex_env_refused) (env_itemId ex_env_refused)
         (set_prop (set_prop ex_reply_refused ''special_conditions'' (JArr [])) ''requires_review'' (JBool True))
       = None
   \<and> receiveProposal ex_env_refused ex_db ex_email
       = (ex_db\<lparr>db_proposals :=
                   [newProposal ex_db ''0123456789abcdef01234567'' ''aaaaaaaaaaaaaaaaaaaaaaa1'' ex_email 300]\<rparr>,
          Inl StoreValidationError)
   \<and> p_status (newProposal ex_db ''0123456789abcdef01234567'' ''aaaaaaaaaaaaaaaaaaaaaaa1'' ex_email 300)
       = Received
   \<and> \<not> p_requires_review
          (newProposal ex_db ''0123456789abcdef01234567'' ''aaaaaaaaaaaaaaaaaaaaaaa1'' ex_email 300)"
proof -
  have now: "env_now ex_env_refused = 300" by (simp add: ex_env_refused_def ex_env_def)
  have none: "db_proposals ex_db = []" by (simp add: ex_db_def)
  have run: "receiveProposal ex_env_refused ex_db ex_email
       = (ex_db\<lparr>db_proposals :=
                   [newProposal ex_db ''0123456789abcdef01234567'' ''aaaaaaaaaaaaaaaaaaaaaaa1'' ex_email 300]\<rparr>,
          Inl StoreValidationError)"
    unfolding receiveProposal_refused [OF ex_hook_check ex_attempted_refused] now none by simp
  have st: "p_status (newProposal ex_db ''0123456789abcdef01234567'' ''aaaaaaaaaaaaaaaaaaaaaaa1'' ex_email 300)
       = Received"
    and fl: "\<not> p_requires_review
          (newProposal ex_db ''0123456789abcdef01234567'' ''aaaaaaaaaaaaaaaaaaaaaaa1'' ex_email 300)"
    by (simp_all add: newProposal_def)
  show ?thesis
    by (rule conjI [OF ex_hook_check conjI [OF ex_parse_refused conjI [OF ex_cast_refused
          conjI [OF run conjI [OF st fl]]]]])
qed









section \<open>The order of the fallback\<close>

lemma ex_twice_vendor_found: "findVendorByEmail ex_db_sent_twice ''v1@x.com'' = Inr (Some ex_vendor)"
  by (simp add: findVendorByEmail_def emailSetters_def trim_def is_space_def ex_db_sent_twice_def
      ex_vendor_def toLowerCase_def lower_ascii_def)

lemma ex_twice_vendor:
  "c_vendorId (inbound_correlation ex_db_sent_twice ex_email_untagged) = Some ''aaaaaaaaaaaaaaaaaaaaaaa1''"
  unfolding inbound_correlation_def correlate_vendor
  by (simp add: ex_email_untagged_def ex_twice_vendor_found) (simp add: ex_vendor_def)

lemma ex_twice_recent:
  "findRecentRFP ex_db_sent_twice ''aaaaaaaaaaaaaaaaaaaaaaa1'' = Inr (Some ex_rfp_second)"
  by (simp add: findRecentRFP_def ex_db_sent_twice_def rfp_matches_def sent_at_key_def
      ex_rfp_first_def ex_rfp_second_def)

lemma ex_twice_rfp:
  "c_rfpId (inbound_correlation ex_db_sent_twice ex_email_untagged) = Some (IdDoc ''222222222222222222222222'')"
  unfolding inbound_correlation_def
    correlate_fallback [OF ex_untagged refl ex_twice_vendor [unfolded inbound_correlation_def]]
  by (simp add: ex_twice_recent) (simp add: ex_rfp_second_def)

text \<open>
  C4. The subject's tag takes precedence, and the history of dispatches is consulted
  only for an email without a tag whose sender is a vendor, among the RFPs in status
  sent or receiving_proposals (\<open>correlation_precedence\<close>). The fallback should then
  take the RFP most recently sent to this vendor. The query sorts by
  \<^verbatim>\<open>vendors.sent_at\<close>, and the store compares an array field by its largest element,
  which is the latest dispatch of the RFP to any vendor. At the example store the
  first RFP went to the vendor at time 300, the second RFP went to the vendor at
  time 100 and to another vendor at time 500: the vendor's email without a tag is
  correlated to the second RFP, and both inbound paths go on with the second RFP.
\<close>

theorem fallback_takes_earlier_dispatch:
  "rfpIdMatch ex_email_untagged = None
   \<and> c_vendorId (inbound_correlation ex_db_sent_twice ex_email_untagged) = Some ''aaaaaaaaaaaaaaaaaaaaaaa1''
   \<and> db_rfps ex_db_sent_twice = [ex_rfp_first, ex_rfp_second]
   \<and> rfp_matches ''aaaaaaaaaaaaaaaaaaaaaaa1'' ex_rfp_first
   \<and> map_of (rfp_vendors ex_rfp_first) ''aaaaaaaaaaaaaaaaaaaaaaa1'' = Some 300
   \<and> rfp_matches ''aaaaaaaaaaaaaaaaaaaaaaa1'' ex_rfp_second
   \<and> map_of (rfp_vendors ex_rfp_second) ''aaaaaaaaaaaaaaaaaaaaaaa1'' = Some 100
   \<and> findRecentRFP ex_db_sent_twice ''aaaaaaaaaaaaaaaaaaaaaaa1'' = Inr (Some ex_rfp_second)
   \<and> c_rfpId (inbound_correlation ex_db_sent_twice ex_email_untagged)
       = Some (IdDoc ''222222222222222222222222'')
   \<and> poll_check ex_db_sent_twice ex_email_untagged
       = Go ''222222222222222222222222'' (IdDoc ''222222222222222222222222'') ''aaaaaaaaaaaaaaaaaaaaaaa1''
   \<and> hook_check ex_db_sent_twice ex_email_untagged
       = HookGo ''222222222222222222222222'' ''aaaaaaaaaaaaaaaaaaaaaaa1''"
proof -
  have rfps: "db_rfps ex_db_sent_twice = [ex_rfp_first, ex_rfp_second]"
    by (simp add: ex_db_sent_twice_def)
  have m1: "rfp_matches ''aaaaaaaaaaaaaaaaaaaaaaa1'' ex_rfp_first"
    and t1: "map_of (rfp_vendors ex_rfp_first) ''aaaaaaaaaaaaaaaaaaaaaaa1'' = Some 300"
    by (simp_all add: rfp_matches_def ex_rfp_first_def)
  have m2: "rfp_matches ''aaaaaaaaaaaaaaaaaaaaaaa1'' ex_rfp_second"
    and t2: "map_of (rfp_vendors ex_rfp_second) ''aaaaaaaaaaaaaaaaaaaaaaa1'' = Some 100"
    by (simp_all add: rfp_matches_def ex_rfp_second_def)
  have none: "findProposal ex_db_sent_twice ''222222222222222222222222'' ''aaaaaaaaaaaaaaaaaaaaaaa1'' = None"
    by (simp add: findProposal_def ex_db_sent_twice_def)
  have cast: "castObjectId (IdDoc ''222222222222222222222222'') = Inr ''222222222222222222222222''"
    by simp
  have present: "\<not> absent (em_from ex_email_untagged)" "\<not> absent (em_subject ex_email_untagged)"
    "\<not> absent (em_body ex_email_untagged)"
    by (simp_all add: absent_def ex_email_untagged_def)
  have poll: "poll_check ex_db_sent_twice ex_email_untagged
       = Go ''222222222222222222222222'' (IdDoc ''222222222222222222222222'') ''aaaaaaaaaaaaaaaaaaaaaaa1''"
    by (rule poll_check_Go_intro [OF ex_twice_rfp ex_twice_vendor cast none])
  have hook: "hook_check ex_db_sent_twice ex_email_untagged
       = HookGo ''222222222222222222222222'' ''aaaaaaaaaaaaaaaaaaaaaaa1''"
    by (rule hook_check_Go_intro [OF ex_twice_rfp ex_twice_vendor cast none present])
  show ?thesis
    by (rule conjI [OF ex_untagged conjI [OF ex_twice_vendor conjI [OF rfps conjI [OF m1 conjI [OF t1
          conjI [OF m2 conjI [OF t2 conjI [OF ex_twice_recent conjI [OF ex_twice_rfp
            conjI [OF poll hook]]]]]]]]]])
qed

section \<open>Idempotency of the inbound paths\<close>

lemma alike_refl: "alike r r"
  by (simp add: alike_def)

lemma alike_matches: "alike r r' \<Longrightarrow> rfp_matches v r = rfp_matches v r'"
  by (auto simp: alike_def rfp_matches_def)

lemma alike_key: "alike r r' \<Longrightarrow> sent_at_key r = sent_at_key r'"
  by (simp add: alike_def sent_at_key_def)

lemma list_all2_alike_refl: "list_all2 alike rs rs"
  by (simp add: list_all2_refl alike_refl)

lemma set_status_alike:
  assumes "\<And>r. find (\<lambda>r. rfp_oid r = i) rs = Some r \<Longrightarrow>
             rfp_status r = Sent \<or> rfp_status r = ReceivingProposals"
  shows "list_all2 alike rs (set_status rs i ReceivingProposals)"
  using assms
proof (induction rs)
  case Nil
  then show ?case by simp
next
  case (Cons r rs)
  show ?case
  proof (cases "rfp_oid r = i")
    case True
    with Cons.prems [of r] have "rfp_status r = Sent \<or> rfp_status r = ReceivingProposals" by simp
    then have "alike r (r\<lparr>rfp_status := ReceivingProposals\<rparr>)" by (auto simp: alike_def)
    with True show ?thesis by (simp add: list_all2_alike_refl)
  next
    case False
    with Cons.prems have "\<And>r'. find (\<lambda>r. rfp_oid r = i) rs = Some r' \<Longrightarrow>
             rfp_status r' = Sent \<or> rfp_status r' = ReceivingProposals" by simp
    from Cons.IH [OF this] False show ?thesis by (simp add: alike_refl)
  qed
qed

lemma filter_alike:
  "list_all2 alike xs ys \<Longrightarrow>
   list_all2 alike (filter (rfp_matches v) xs) (filter (rfp_matches v) ys)"
  by (induction rule: list_all2_induct) (auto simp: alike_matches)

lemma insort_alike:
  assumes "list_all2 alike xs ys" "alike a b"
  shows "list_all2 alike (insort_key (\<lambda>r. - int (sent_at_key r)) a xs)
                         (insort_key (\<lambda>r. - int (sent_at_key r)) b ys)"
  using assms
  by (induction rule: list_all2_induct) (auto simp: alike_key)

lemma sort_alike:
  "list_all2 alike xs ys \<Longrightarrow>
   list_all2 alike (sort_key (\<lambda>r. - int (sent_at_key r)) xs) (sort_key (\<lambda>r. - int (sent_at_key r)) ys)"
  by (induction rule: list_all2_induct) (auto simp: sort_key_def insort_alike)

lemma findRecentRFP_alike:
  assumes "list_all2 alike (db_rfps d) (db_rfps d')"
  shows "same_answer (findRecentRFP d v) (findRecentRFP d' v)"
proof -
  let ?k = "\<lambda>r. - int (sent_at_key r)"
  have "list_all2 alike (sort_key ?k (filter (rfp_matches v) (db_rfps d)))
                        (sort_key ?k (filter (rfp_matches v) (db_rfps d')))"
    by (rule sort_alike [OF filter_alike [OF assms]])
  then show ?thesis
    by (cases "sort_key ?k (filter (rfp_matches v) (db_rfps d))";
        cases "sort_key ?k (filter (rfp_matches v) (db_rfps d'))")
       (auto simp: findRecentRFP_def same_answer_def alike_def)
qed

lemma correlate_same_answer:
  assumes "\<And>v. same_answer (f v) (g v)"
  shows "correlateEmailToRFP e (Some f) fv = correlateEmailToRFP e (Some g) fv"
proof (cases "em_from e")
  case None
  then show ?thesis by (simp add: correlateEmailToRFP_def Let_def)
next
  case (Some addr)
  show ?thesis
  proof (cases fv)
    case None
    with Some show ?thesis by (simp add: correlateEmailToRFP_def Let_def)
  next
    case (Some findVendor)
    note fv = this
    show ?thesis
    proof (cases "findVendor addr")
      case (Inl x)
      with \<open>em_from e = Some addr\<close> fv show ?thesis
        by (simp add: correlateEmailToRFP_def Let_def)
    next
      case (Inr vo)
      show ?thesis
      proof (cases vo)
        case None
        with Inr \<open>em_from e = Some addr\<close> fv show ?thesis
          by (simp add: correlateEmailToRFP_def Let_def)
      next
        case (Some v)
        from assms [of "vendor_oid v"] Some Inr \<open>em_from e = Some addr\<close> fv show ?thesis
          by (cases "f (vendor_oid v)"; cases "g (vendor_oid v)")
             (auto simp: correlateEmailToRFP_def Let_def same_answer_def split: option.splits)
      qed
    qed
  qed
qed

lemma inbound_correlation_alike:
  assumes "list_all2 alike (db_rfps d) (db_rfps d')" "db_vendors d' = db_vendors d"
  shows "inbound_correlation d' e = inbound_correlation d e"
proof -
  have fv: "findVendorByEmail d' = findVendorByEmail d"
    using assms(2) by (auto simp: findVendorByEmail_def)
  have "correlateEmailToRFP e (Some (findRecentRFP d)) (findVendorByEmail_opt)
      = correlateEmailToRFP e (Some (findRecentRFP d')) (findVendorByEmail_opt)" for findVendorByEmail_opt
    by (rule correlate_same_answer) (rule findRecentRFP_alike [OF assms(1)])
  then show ?thesis by (simp add: inbound_correlation_def fv)
qed

lemma correlate_tag_ignores_history:
  assumes "rfpIdMatch e = Some t"
  shows "correlateEmailToRFP e f fv = correlateEmailToRFP e g fv"
  using assms
  by (auto simp: correlateEmailToRFP_def Let_def
      split: option.splits sum.splits prod.splits if_splits)

lemma poll_run_alike:
  "list_all2 alike (db_rfps d)
     (case find (\<lambda>r. rfp_oid r = rid) (db_rfps d) of
        Some r \<Rightarrow> if rfp_status r = Sent then set_status (db_rfps d) rid ReceivingProposals
                  else db_rfps d
      | None \<Rightarrow> db_rfps d)"
proof (cases "find (\<lambda>r. rfp_oid r = rid) (db_rfps d)")
  case None
  then show ?thesis by (simp add: list_all2_alike_refl)
next
  case (Some r)
  show ?thesis
  proof (cases "rfp_status r = Sent")
    case True
    have "list_all2 alike (db_rfps d) (set_status (db_rfps d) rid ReceivingProposals)"
      by (rule set_status_alike) (use Some True in simp)
    with Some True show ?thesis by simp
  next
    case False
    with Some show ?thesis by (simp add: list_all2_alike_refl)
  qed
qed

lemma find_snoc:
  "find P (xs @ [x]) = (case find P xs of Some y \<Rightarrow> Some y | None \<Rightarrow> if P x then Some x else None)"
  by (induction xs) auto

lemma findProposal_added:
  assumes "findProposal d rid vid = None" "p_rfp_id p = rid" "p_vendor_id p = vid"
    "db_proposals d' = db_proposals d @ [p]"
  shows "findProposal d' rid vid = Some p"
    and "length (filter (\<lambda>q. p_rfp_id q = rid \<and> p_vendor_id q = vid) (db_proposals d')) = 1"
proof -
  show "findProposal d' rid vid = Some p"
    using assms by (simp add: findProposal_def find_snoc)
  from assms(1) have "\<not> (\<exists>q\<in>set (db_proposals d). p_rfp_id q = rid \<and> p_vendor_id q = vid)"
    by (simp add: findProposal_def find_None_iff)
  then have "filter (\<lambda>q. p_rfp_id q = rid \<and> p_vendor_id q = vid) (db_proposals d) = []"
    by (simp add: filter_empty_conv)
  with assms show "length (filter (\<lambda>q. p_rfp_id q = rid \<and> p_vendor_id q = vid) (db_proposals d')) = 1"
    by simp
qed

lemma poll_second_submission:
  assumes go: "poll_check d e = Go rid rfpId vid"
  shows "\<exists>d1 pid. processReceivedEmail env d e = (d1, PollSuccess pid rfpId vid)
           \<and> length (filter (\<lambda>p. p_rfp_id p = rid \<and> p_vendor_id p = vid) (db_proposals d1)) = 1
           \<and> processReceivedEmail env' d1 e = (d1, DuplicateProposal pid)"
proof -
  let ?p = "(newProposal d rid vid e
              (case em_date e of Some t \<Rightarrow> t | None \<Rightarrow> env_now env))\<lparr>p_requires_review := True\<rparr>"
  let ?d1 = "d\<lparr>db_proposals := db_proposals d @ [?p],
        db_rfps := (case find (\<lambda>r. rfp_oid r = rid) (db_rfps d) of
                      Some r \<Rightarrow> if rfp_status r = Sent then set_status (db_rfps d) rid ReceivingProposals
                                else db_rfps d
                    | None \<Rightarrow> db_rfps d)\<rparr>"
  have run: "processReceivedEmail env d e = (?d1, PollSuccess (fresh_id d) rfpId vid)"
    by (rule processReceivedEmail_Go [OF go])
  have pid: "p_id ?p = fresh_id d" by (simp add: newProposal_def)
  note facts = poll_check_Go [OF go]
  have corr: "inbound_correlation ?d1 e = inbound_correlation d e"
    by (rule inbound_correlation_alike) (simp_all add: poll_run_alike)
  have added: "findProposal ?d1 rid vid = Some ?p"
    "length (filter (\<lambda>q. p_rfp_id q = rid \<and> p_vendor_id q = vid) (db_proposals ?d1)) = 1"
    by (rule findProposal_added [OF facts(4)]; simp add: newProposal_def)+
  have "poll_check ?d1 e = Stop (DuplicateProposal (p_id ?p))"
    by (rule poll_check_duplicate [OF _ _ facts(3) added(1)]) (simp_all add: corr facts)
  then have second: "processReceivedEmail env' ?d1 e = (?d1, DuplicateProposal (fresh_id d))"
    using pid by (simp add: processReceivedEmail_Stop)
  from run added(2) second show ?thesis by blast
qed

lemma distinct_find_same:
  assumes "distinct (map f xs)" "x \<in> set xs" "find (\<lambda>y. f y = f x) xs = Some y"
  shows "y = x"
proof -
  from assms(3) have "y \<in> set xs" "f y = f x"
    by (auto simp: find_Some_iff)
  with assms(1,2) show ?thesis
    by (meson distinct_map inj_onD)
qed

lemma hook_run_alike:
  assumes go: "hook_check d e = HookGo rid vid" and ids: "distinct (map rfp_oid (db_rfps d))"
  shows "inbound_correlation (d\<lparr>db_proposals := ps, db_rfps := set_status (db_rfps d) rid ReceivingProposals\<rparr>) e
           = inbound_correlation d e"
proof (cases "rfpIdMatch e")
  case (Some t)
  have "findVendorByEmail (d\<lparr>db_proposals := ps, db_rfps := set_status (db_rfps d) rid ReceivingProposals\<rparr>)
          = findVendorByEmail d"
    by (auto simp: findVendorByEmail_def)
  then show ?thesis
    unfolding inbound_correlation_def
    using correlate_tag_ignores_history [OF Some] by metis
next
  case None
  note facts = hook_check_Go [OF go]
  from facts(3) obtain rfpId where r: "c_rfpId (inbound_correlation d e) = Some rfpId"
    "castObjectId rfpId = Inr rid" by blast
  from correlate_fallback [OF None refl, of "findRecentRFP d" "Some (findVendorByEmail d)" vid]
    facts(2) r(1)
  have "Some rfpId = (case findRecentRFP d vid of Inr (Some r) \<Rightarrow> Some (IdDoc (rfp_oid r)) | _ \<Rightarrow> None)"
    by (simp add: inbound_correlation_def)
  then obtain r0 where recent: "findRecentRFP d vid = Inr (Some r0)" "rfpId = IdDoc (rfp_oid r0)"
    by (auto split: sum.splits option.splits)
  with r(2) have rid: "rid = rfp_oid r0" by simp
  note found = findRecentRFP_Some [OF recent(1)]
  have ok: "rfp_status r0 = Sent \<or> rfp_status r0 = ReceivingProposals"
    using found(2) by (simp add: rfp_matches_def)
  have "list_all2 alike (db_rfps d) (set_status (db_rfps d) rid ReceivingProposals)"
  proof (rule set_status_alike)
    fix r' assume "find (\<lambda>r. rfp_oid r = rid) (db_rfps d) = Some r'"
    with rid have "find (\<lambda>y. rfp_oid y = rfp_oid r0) (db_rfps d) = Some r'" by simp
    from distinct_find_same [OF ids found(1) this] ok
    show "rfp_status r' = Sent \<or> rfp_status r' = ReceivingProposals" by simp
  qed
  then show ?thesis
    by (intro inbound_correlation_alike) simp_all
qed

lemma hook_second_submission:
  assumes go: "hook_check d e = HookGo rid vid" and ids: "distinct (map rfp_oid (db_rfps d))"
  shows "\<exists>d1 res p. receiveProposal env d e = (d1, res)
           \<and> (res = Inl StoreValidationError \<or> (\<exists>v. res = Inr (p, v)))
           \<and> findProposal d1 rid vid = Some p
           \<and> length (filter (\<lambda>p. p_rfp_id p = rid \<and> p_vendor_id p = vid) (db_proposals d1)) = 1
           \<and> receiveProposal env' d1 e = (d1, Inl (DuplicateError (p_id p)))"
proof -
  let ?new = "newProposal d rid vid e (env_now env)"
  note facts = hook_check_Go [OF go]
  from facts(3) obtain rfpId where r: "c_rfpId (inbound_correlation d e) = Some rfpId"
    "castObjectId rfpId = Inr rid" by blast
  show ?thesis
  proof (cases "attempted env (parseProposal (env_oracle env) (env_jsonParse env) (ArgEmail e)) ?new")
    case None
    let ?d1 = "d\<lparr>db_proposals := db_proposals d @ [?new]\<rparr>"
    have run: "receiveProposal env d e = (?d1, Inl StoreValidationError)"
      by (rule receiveProposal_refused [OF go None])
    have corr: "inbound_correlation ?d1 e = inbound_correlation d e"
      by (rule inbound_correlation_alike) (simp_all add: list_all2_alike_refl)
    have added: "findProposal ?d1 rid vid = Some ?new"
      "length (filter (\<lambda>q. p_rfp_id q = rid \<and> p_vendor_id q = vid) (db_proposals ?d1)) = 1"
      by (rule findProposal_added [OF facts(4)]; simp add: newProposal_def)+
    have "hook_check ?d1 e = HookStop (DuplicateError (p_id ?new))"
      by (rule hook_check_duplicate [OF _ _ r(2) added(1) facts(5,6,7)]) (simp_all add: corr facts r)
    then have second: "receiveProposal env' ?d1 e = (?d1, Inl (DuplicateError (p_id ?new)))"
      by (simp add: receiveProposal_def)
    from run added second show ?thesis by blast
  next
    case (Some p)
    let ?d1 = "d\<lparr>db_proposals := db_proposals d @ [p],
             db_rfps := set_status (db_rfps d) rid ReceivingProposals\<rparr>"
    from receiveProposal_attempted [OF go Some]
    obtain v where run: "receiveProposal env d e = (?d1, Inr (p, v))" by blast
    have corr: "inbound_correlation ?d1 e = inbound_correlation d e"
      by (rule hook_run_alike [OF go ids])
    have ids_p: "p_rfp_id p = rid" "p_vendor_id p = vid"
      using attempted_same(2,3) [OF Some] by (simp_all add: newProposal_def)
    have added: "findProposal ?d1 rid vid = Some p"
      "length (filter (\<lambda>q. p_rfp_id q = rid \<and> p_vendor_id q = vid) (db_proposals ?d1)) = 1"
      by (rule findProposal_added [OF facts(4) ids_p]; simp)+
    have "hook_check ?d1 e = HookStop (DuplicateError (p_id p))"
      by (rule hook_check_duplicate [OF _ _ r(2) added(1) facts(5,6,7)]) (simp_all add: corr facts r)
    then have second: "receiveProposal env' ?d1 e = (?d1, Inl (DuplicateError (p_id p)))"
      by (simp add: receiveProposal_def)
    from run added second show ?thesis by blast
  qed
qed

text \<open>
  C1. When the correlation of an email resolves to a pair for which the store holds a
  proposal, the polling run returns the duplicate result with that proposal's id and
  the webhook run throws the duplicate error with it; neither changes the store. After
  a first run that created the proposal (a webhook run also when it ended with the
  store's validation error), the store holds exactly one proposal of the pair, and a
  second run on the same email correlates to the same pair and is such a duplicate
  (for the webhook path, in a store whose RFP ids are distinct).
\<close>

theorem duplicate_submission:
  "(c_rfpId (inbound_correlation d e) = Some rfpId
      \<and> c_vendorId (inbound_correlation d e) = Some vid
      \<and> castObjectId rfpId = Inr rid
      \<and> findProposal d rid vid = Some existing \<longrightarrow>
       processReceivedEmail env d e = (d, DuplicateProposal (p_id existing))
     \<and> (\<not> absent (em_from e) \<and> \<not> absent (em_subject e) \<and> \<not> absent (em_body e) \<longrightarrow>
          receiveProposal env d e = (d, Inl (DuplicateError (p_id existing)))))
   \<and> (poll_check d e = Go rid' rfpId' vid' \<longrightarrow>
        (\<exists>d1 pid. processReceivedEmail env d e = (d1, PollSuccess pid rfpId' vid')
           \<and> length (filter (\<lambda>p. p_rfp_id p = rid' \<and> p_vendor_id p = vid') (db_proposals d1)) = 1
           \<and> processReceivedEmail env' d1 e = (d1, DuplicateProposal pid)))
   \<and> (hook_check d e = HookGo rid'' vid'' \<and> distinct (map rfp_oid (db_rfps d)) \<longrightarrow>
        (\<exists>d1 res p. receiveProposal env d e = (d1, res)
           \<and> (res = Inl StoreValidationError \<or> (\<exists>v. res = Inr (p, v)))
           \<and> findProposal d1 rid'' vid'' = Some p
           \<and> length (filter (\<lambda>p. p_rfp_id p = rid'' \<and> p_vendor_id p = vid'') (db_proposals d1)) = 1
           \<and> receiveProposal env' d1 e = (d1, Inl (DuplicateError (p_id p)))))"
proof (intro conjI impI)
  assume h: "c_rfpId (inbound_correlation d e) = Some rfpId
      \<and> c_vendorId (inbound_correlation d e) = Some vid
      \<and> castObjectId rfpId = Inr rid
      \<and> findProposal d rid vid = Some existing"
  then have "poll_check d e = Stop (DuplicateProposal (p_id existing))"
    using poll_check_duplicate by blast
  then show "processReceivedEmail env d e = (d, DuplicateProposal (p_id existing))"
    by (rule processReceivedEmail_Stop)
  assume "\<not> absent (em_from e) \<and> \<not> absent (em_subject e) \<and> \<not> absent (em_body e)"
  with h have "hook_check d e = HookStop (DuplicateError (p_id existing))"
    using hook_check_duplicate by blast
  then show "receiveProposal env d e = (d, Inl (DuplicateError (p_id existing)))"
    by (simp add: receiveProposal_def)
next
  assume "poll_check d e = Go rid' rfpId' vid'"
  then show "\<exists>d1 pid. processReceivedEmail env d e = (d1, PollSuccess pid rfpId' vid')
           \<and> length (filter (\<lambda>p. p_rfp_id p = rid' \<and> p_vendor_id p = vid') (db_proposals d1)) = 1
           \<and> processReceivedEmail env' d1 e = (d1, DuplicateProposal pid)"
    by (rule poll_second_submission)
next
  assume "hook_check d e = HookGo rid'' vid'' \<and> distinct (map rfp_oid (db_rfps d))"
  then show "\<exists>d1 res p. receiveProposal env d e = (d1, res)
           \<and> (res = Inl StoreValidationError \<or> (\<exists>v. res = Inr (p, v)))
           \<and> findProposal d1 rid'' vid'' = Some p
           \<and> length (filter (\<lambda>p. p_rfp_id p = rid'' \<and> p_vendor_id p = vid'') (db_proposals d1)) = 1
           \<and> receiveProposal env' d1 e = (d1, Inl (DuplicateError (p_id p)))"
    using hook_second_submission by blast
qed

lemma ex_answered_corr: "inbound_correlation ex_db_answered ex_email = inbound_correlation ex_db ex_email"
  by (rule inbound_correlation_alike) (simp_all add: ex_db_answered_def list_all2_alike_refl)

lemma ex_distinct: "distinct (map rfp_oid (db_rfps ex_db))"
  by (simp add: ex_db_def ex_rfp_def ex_closed_rfp_def)

text \<open>
  At the example stores: the answered store reports the duplicate in both paths, and
  the same email twice on the fresh store leaves one proposal.
\<close>

theorem duplicate_submission_witness:
  "findProposal ex_db_answered ''0123456789abcdef01234567'' ''aaaaaaaaaaaaaaaaaaaaaaa1'' = Some ex_proposal
   \<and> processReceivedEmail ex_env ex_db_answered ex_email = (ex_db_answered, DuplicateProposal 7)
   \<and> receiveProposal ex_env ex_db_answered ex_email = (ex_db_answered, Inl (DuplicateError 7))
   \<and> (\<exists>d1 pid. processReceivedEmail ex_env ex_db ex_email
                   = (d1, PollSuccess pid (IdText ''0123456789ABCDEF01234567'') ''aaaaaaaaaaaaaaaaaaaaaaa1'')
           \<and> length (filter (\<lambda>p. p_rfp_id p = ''0123456789abcdef01234567''
                                 \<and> p_vendor_id p = ''aaaaaaaaaaaaaaaaaaaaaaa1'') (db_proposals d1)) = 1
           \<and> processReceivedEmail ex_env d1 ex_email = (d1, DuplicateProposal pid))
   \<and> (\<exists>d1 res p. receiveProposal ex_env ex_db ex_email = (d1, res)
           \<and> (res = Inl StoreValidationError \<or> (\<exists>v. res = Inr (p, v)))
           \<and> findProposal d1 ''0123456789abcdef01234567'' ''aaaaaaaaaaaaaaaaaaaaaaa1'' = Some p
           \<and> length (filter (\<lambda>p. p_rfp_id p = ''0123456789abcdef01234567''
                                 \<and> p_vendor_id p = ''aaaaaaaaaaaaaaaaaaaaaaa1'') (db_proposals d1)) = 1
           \<and> receiveProposal ex_env d1 ex_email = (d1, Inl (DuplicateError (p_id p))))"
proof -
  note t = duplicate_submission [of ex_db_answered ex_email "IdText ''0123456789ABCDEF01234567''"
      "''aaaaaaaaaaaaaaaaaaaaaaa1''" "''0123456789abcdef01234567''" ex_proposal ex_env]
  have h: "c_rfpId (inbound_correlation ex_db_answered ex_email) = Some (IdText ''0123456789ABCDEF01234567'')
      \<and> c_vendorId (inbound_correlation ex_db_answered ex_email) = Some ''aaaaaaaaaaaaaaaaaaaaaaa1''
      \<and> castObjectId (IdText ''0123456789ABCDEF01234567'') = Inr ''0123456789abcdef01234567''
      \<and> findProposal ex_db_answered ''0123456789abcdef01234567'' ''aaaaaaaaaaaaaaaaaaaaaaa1'' = Some ex_proposal"
    by (simp only: ex_answered_corr ex_corr_rfp ex_corr_vendor ex_cast ex_answered_found simp_thms)
  have pres: "\<not> absent (em_from ex_email) \<and> \<not> absent (em_subject ex_email) \<and> \<not> absent (em_body ex_email)"
    using ex_present by blast
  have seven: "p_id ex_proposal = 7" by (simp add: ex_proposal_def)
  note a = t [THEN conjunct1, THEN mp, OF h]
  have a1: "processReceivedEmail ex_env ex_db_answered ex_email = (ex_db_answered, DuplicateProposal 7)"
    using a [THEN conjunct1] seven by simp
  have a2: "receiveProposal ex_env ex_db_answered ex_email = (ex_db_answered, Inl (DuplicateError 7))"
    using a [THEN conjunct2, THEN mp, OF pres] seven by simp
  note u = duplicate_submission [of ex_db ex_email _ _ _ _ ex_env
      "''0123456789abcdef01234567''" "IdText ''0123456789ABCDEF01234567''" "''aaaaaaaaaaaaaaaaaaaaaaa1''" ex_env
      "''0123456789abcdef01234567''" "''aaaaaaaaaaaaaaaaaaaaaaa1''"]
  note b = u [THEN conjunct2, THEN conjunct1, THEN mp, OF ex_poll_check]
  note c = u [THEN conjunct2, THEN conjunct2, THEN mp, OF conjI [OF ex_hook_check ex_distinct]]
  show ?thesis
    by (rule conjI [OF ex_answered_found conjI [OF a1 conjI [OF a2 conjI [OF b c]]]])
qed

section \<open>The status of the request\<close>

lemma set_status_forward:
  assumes "find (\<lambda>r. rfp_oid r = i) rs = Some r0" "rfp_status r0 = Sent"
  shows "list_all2 (\<lambda>r r'. r' = r \<or> (rfp_status r = Sent \<and> r' = r\<lparr>rfp_status := ReceivingProposals\<rparr>))
           rs (set_status rs i ReceivingProposals)"
  using assms
proof (induction rs)
  case Nil
  then show ?case by simp
next
  case (Cons r rs)
  show ?case
  proof (cases "rfp_oid r = i")
    case True
    with Cons.prems have "r0 = r" by simp
    with True Cons.prems show ?thesis by (simp add: list_all2_refl)
  next
    case False
    with Cons.prems have "find (\<lambda>r. rfp_oid r = i) rs = Some r0" by simp
    from Cons.IH [OF this Cons.prems(2)] False show ?thesis by simp
  qed
qed

text \<open>
  The polling path moves no status but from sent to receiving_proposals.
\<close>

lemma polling_status_forward:
  "list_all2 (\<lambda>r r'. r' = r \<or> (rfp_status r = Sent \<and> r' = r\<lparr>rfp_status := ReceivingProposals\<rparr>))
     (db_rfps d) (db_rfps (fst (processReceivedEmail env d e)))"
proof (cases "poll_check d e")
  case (Stop res)
  then show ?thesis by (simp add: processReceivedEmail_Stop list_all2_refl)
next
  case (Go rid rfpId vid)
  show ?thesis
  proof (cases "find (\<lambda>r. rfp_oid r = rid) (db_rfps d)")
    case None
    with Go show ?thesis by (simp add: processReceivedEmail_Go list_all2_refl)
  next
    case (Some r0)
    show ?thesis
    proof (cases "rfp_status r0 = Sent")
      case True
      from set_status_forward [OF Some True] Some True Go show ?thesis
        by (simp add: processReceivedEmail_Go)
    next
      case False
      with Some Go show ?thesis by (simp add: processReceivedEmail_Go list_all2_refl)
    qed
  qed
qed

lemma receiveProposal_status:
  assumes "hook_check d e = HookGo rid vid"
    and "attempted env (parseProposal (env_oracle env) (env_jsonParse env) (ArgEmail e))
               (newProposal d rid vid e (env_now env)) = Some p'"
  shows "db_rfps (fst (receiveProposal env d e)) = set_status (db_rfps d) rid ReceivingProposals"
    and "\<exists>v. snd (receiveProposal env d e) = Inr (p', v)"
  using receiveProposal_attempted [OF assms, of] by auto

lemma ex_closed_corr_rfp:
  "c_rfpId (inbound_correlation ex_db ex_email_closed) = Some (IdText ''cccccccccccccccccccccccc'')"
  unfolding inbound_correlation_def by (rule correlate_with_tag(1) [OF ex_tag_closed])

lemma ex_closed_corr_vendor:
  "c_vendorId (inbound_correlation ex_db ex_email_closed) = Some ''aaaaaaaaaaaaaaaaaaaaaaa1''"
  unfolding inbound_correlation_def correlate_vendor
  by (simp add: ex_email_closed_def ex_vendor_found) (simp add: ex_vendor_def)

lemma ex_closed_present:
  "\<not> absent (em_from ex_email_closed)" "\<not> absent (em_subject ex_email_closed)"
  "\<not> absent (em_body ex_email_closed)"
  by (simp_all add: absent_def ex_email_closed_def)

lemma ex_closed_hook_check:
  "hook_check ex_db ex_email_closed = HookGo ''cccccccccccccccccccccccc'' ''aaaaaaaaaaaaaaaaaaaaaaa1''"
  by (rule hook_check_Go_intro [OF ex_closed_corr_rfp ex_closed_corr_vendor ex_cast_closed
        ex_no_proposal ex_closed_present])

lemma ex_closed_poll_check:
  "poll_check ex_db ex_email_closed
     = Go ''cccccccccccccccccccccccc'' (IdText ''cccccccccccccccccccccccc'') ''aaaaaaaaaaaaaaaaaaaaaaa1''"
  by (rule poll_check_Go_intro [OF ex_closed_corr_rfp ex_closed_corr_vendor ex_cast_closed ex_no_proposal])

text \<open>
  C2. The request's status should move only from sent to receiving_proposals when an
  inbound email is processed. The polling path does so (\<open>polling_status_forward\<close>).
  The webhook path sets the status whatever it was: at the example store the email
  tagged with the closed RFP is answered with 201 and leaves that RFP in
  receiving_proposals, where the polling path leaves it closed.
\<close>

theorem receiveProposal_reopens_closed_rfp:
  "map rfp_status (db_rfps ex_db) = [Sent, Closed]
   \<and> (\<exists>p v. snd (receiveProposal ex_env ex_db ex_email_closed) = Inr (p, v))
   \<and> map rfp_status (db_rfps (fst (receiveProposal ex_env ex_db ex_email_closed)))
       = [Sent, ReceivingProposals]
   \<and> map rfp_status (db_rfps (fst (processReceivedEmail ex_env ex_db ex_email_closed)))
       = [Sent, Closed]"
proof -
  have before: "map rfp_status (db_rfps ex_db) = [Sent, Closed]"
    by (simp add: ex_db_def ex_rfp_def ex_closed_rfp_def)
  have parse: "parseProposal (env_oracle ex_env) (env_jsonParse ex_env) (ArgEmail ex_email_closed)
     = Inr \<lparr>pp_data = set_prop (set_prop ex_reply ''special_conditions'' (JArr []))
                          ''requires_review'' (JBool False),
            pp_confidence = 3152519739159347 / 4503599627370496\<rparr>"
    by (simp add: parseProposal_def ex_env_def ex_email_closed_def makeCompletionRequest_def maxRetries_def
        numeral_3_eq_3 parseJSONResponse_def validateParsedData_def ex_reply_def ex_item_def confidenceThreshold_def)
  have att: "attempted ex_env
          (parseProposal (env_oracle ex_env) (env_jsonParse ex_env) (ArgEmail ex_email_closed)) p
        = Some (markParsed \<lparr>pp_data = set_prop (set_prop ex_reply ''special_conditions'' (JArr []))
                                         ''requires_review'' (JBool False),
                           pp_confidence = 3152519739159347 / 4503599627370496\<rparr>
                  ex_stored (env_parsed_now ex_env) p)" for p
    unfolding parse by (simp add: attempted_def ex_cast_ok)
  from receiveProposal_status(2) [OF ex_closed_hook_check att]
  have answered: "\<exists>p v. snd (receiveProposal ex_env ex_db ex_email_closed) = Inr (p, v)"
    by blast
  have hook: "map rfp_status (db_rfps (fst (receiveProposal ex_env ex_db ex_email_closed)))
       = [Sent, ReceivingProposals]"
    unfolding receiveProposal_status(1) [OF ex_closed_hook_check att]
    by (simp add: ex_db_def ex_rfp_def ex_closed_rfp_def)
  have poll: "map rfp_status (db_rfps (fst (processReceivedEmail ex_env ex_db ex_email_closed)))
       = [Sent, Closed]"
    unfolding processReceivedEmail_Go [OF ex_closed_poll_check]
    by (simp add: ex_db_def ex_rfp_def ex_closed_rfp_def)
  from before answered hook poll show ?thesis by blast
qed

section \<open>Properties of the comparison\<close>

lemma validateAnalyses_ok:
  "list_all entry_ok entries \<Longrightarrow> validateAnalyses entries i = Inr (map repairAnalysis entries)"
  by (induction entries arbitrary: i) (auto simp: entry_ok_def)

lemma validateAnalyses_bad:
  "\<not> list_all entry_ok entries \<Longrightarrow> \<exists>e. validateAnalyses entries i = Inl e"
proof (induction entries arbitrary: i)
  case Nil
  then show ?case by simp
next
  case (Cons a entries)
  show ?case
  proof (cases "entry_ok a")
    case True
    with Cons.prems have "\<not> list_all entry_ok entries" by simp
    from Cons.IH [OF this, of "Suc i"] obtain e where "validateAnalyses entries (Suc i) = Inl e"
      by blast
    with True show ?thesis by (simp add: entry_ok_def)
  next
    case False
    then show ?thesis by (auto simp: entry_ok_def)
  qed
qed

lemma validateComparison_rejects:
  "(\<exists>e. validateComparison c = Inl e) \<longleftrightarrow>
     \<not> (header_ok c \<and> list_all entry_ok (elements (field c ''proposal_analysis'')))"
proof (cases "header_ok c")
  case False
  then show ?thesis
    by (auto simp: validateComparison_def header_ok_def)
next
  case True
  show ?thesis
  proof (cases "list_all entry_ok (elements (field c ''proposal_analysis''))")
    case ok: True
    from validateAnalyses_ok [OF ok, of 0] True show ?thesis
      using ok by (auto simp: validateComparison_def header_ok_def Let_def)
  next
    case bad: False
    from validateAnalyses_bad [OF bad, of 0] True show ?thesis
      using bad by (auto simp: validateComparison_def header_ok_def Let_def)
  qed
qed

lemma field_set_prop_any:
  "\<not> nullish v \<Longrightarrow> (\<exists>kvs. v = JObj kvs) \<Longrightarrow>
   field (set_prop v k x) k' = (if k' = k then x else field v k')"
  by (auto simp: map_of_alist_set)

lemma repairAnalysis_field:
  assumes "entry_ok a"
  shows "field (repairAnalysis a) k =
           (if (k = ''strengths'' \<or> k = ''weaknesses'' \<or> k = ''red_flags'') \<and> \<not> isArray (field a k)
            then JArr [] else field a k)"
proof -
  from assms have "truthy (field a ''vendor_id'')" by (simp add: entry_ok_def)
  then obtain kvs where a: "a = JObj kvs" using truthy_field_obj by blast
  show ?thesis
    unfolding a repairAnalysis_def Let_def
    by (simp add: map_of_alist_set)
qed

lemma validateComparison_accepts:
  assumes "validateComparison c = Inr c'"
  shows "elements (field c' ''proposal_analysis'')
           = map repairAnalysis (elements (field c ''proposal_analysis''))"
    and "list_all entry_ok (elements (field c ''proposal_analysis''))"
proof -
  have nr: "\<not> (\<exists>e. validateComparison c = Inl e)" using assms by simp
  then have ok: "header_ok c" "list_all entry_ok (elements (field c ''proposal_analysis''))"
    using validateComparison_rejects [of c] by auto
  show "list_all entry_ok (elements (field c ''proposal_analysis''))" by (rule ok(2))
  from ok(1) have "truthy (field c ''summary'')" by (simp add: header_ok_def)
  then obtain kvs where c: "c = JObj kvs" using truthy_field_obj by blast
  from ok(1) have "truthy (field (field c ''recommendation'') ''vendor_id'')" by (simp add: header_ok_def)
  then obtain rkvs where r: "field c ''recommendation'' = JObj rkvs" using truthy_field_obj by blast
  from assms ok validateAnalyses_ok [OF ok(2), of 0]
  show "elements (field c' ''proposal_analysis'')
           = map repairAnalysis (elements (field c ''proposal_analysis''))"
    unfolding c
    by (auto simp: validateComparison_def header_ok_def Let_def map_of_alist_set split: if_splits)
qed

lemma proposalViews_fields:
  "proposalViews vendors ps = Inr views \<Longrightarrow>
     map pv_id views = map p_id ps
   \<and> map pv_raw_email_content views = map p_raw_email_content ps
   \<and> map pv_status views = map p_status ps"
proof (induction ps arbitrary: views)
  case Nil
  then show ?case by simp
next
  case (Cons p ps)
  from Cons.prems obtain view rest where
    v: "proposalView vendors p = Inr view" and r: "proposalViews vendors ps = Inr rest"
    and views: "views = view # rest"
    by (auto split: sum.splits)
  from v have "pv_id view = p_id p" "pv_raw_email_content view = p_raw_email_content p"
    "pv_status view = p_status p"
    by (auto simp: proposalView_def split: option.splits)
  with Cons.IH [OF r] views show ?case by simp
qed

lemma getComparison_none:
  assumes "castObjectId (IdText i) = Inr rid" "find (\<lambda>r. rfp_oid r = rid) (db_rfps d) = Some r"
    "filter (\<lambda>p. p_rfp_id p = rid) (db_proposals d) = []"
  shows "getComparison env d i =
           Inr \<lparr>cb_rfp_id = i, cb_rfp_title = rfp_title r, cb_proposal_count = 0,
                cb_proposals = [], cb_analysis = JNull, cb_recommendation = JNull,
                cb_summary = JStr ''No proposals have been received yet for this RFP.'',
                cb_error = None\<rparr>"
  using assms by (simp add: getComparison_def)

lemma getComparison_fallback:
  assumes "castObjectId (IdText i) = Inr rid" "find (\<lambda>r. rfp_oid r = rid) (db_rfps d) = Some r"
    "filter (\<lambda>p. p_rfp_id p = rid) (db_proposals d) = ps" "ps \<noteq> []"
    "compareProposals (env_oracle env) (env_jsonParse env) r ps = Inl err"
    "proposalViews (db_vendors d) ps = Inr views"
  shows "getComparison env d i =
           Inr \<lparr>cb_rfp_id = i, cb_rfp_title = rfp_title r, cb_proposal_count = length ps,
                cb_proposals = views, cb_analysis = JNull, cb_recommendation = JNull,
                cb_summary = JStr ''AI comparison is temporarily unavailable. Please review proposals manually.'',
                cb_error = Some ''AI service error''\<rparr>"
  using assms by (simp add: getComparison_def Let_def)

lemma compareProposals_validates:
  assumes "truthy (rfp_structured_data r)" "ps \<noteq> []"
    "fst (makeCompletionRequest oracle) = Inr content" "jsonParse content = Some c"
  shows "compareProposals oracle jsonParse r ps = validateComparison c"
  using assms by (simp add: compareProposals_def parseJSONResponse_def)

text \<open>
  C8, as the code has it. The validation of \<^verbatim>\<open>compareProposals\<close> rejects the
  oracle's output exactly when the output is \<^verbatim>\<open>null\<close>, the analysis list is missing
  or no array, the recommendation or its \<^verbatim>\<open>vendor_id\<close> is missing, the summary is
  missing, or some analysis entry is \<^verbatim>\<open>null\<close> or lacks \<^verbatim>\<open>vendor_id\<close>,
  \<^verbatim>\<open>vendor_name\<close> or \<^verbatim>\<open>scores\<close> (missing: falsy). What it accepts it returns
  with every entry repaired: \<^verbatim>\<open>strengths\<close>, \<^verbatim>\<open>weaknesses\<close> and \<^verbatim>\<open>red_flags\<close>
  that are no arrays become empty arrays, and nothing else of the entry changes. For a
  stored request, \<^verbatim>\<open>getComparison\<close> answers with the no-proposals marker when the
  request has no proposal; when the comparison fails and the vendor of every proposal
  is still stored, it answers with the views of all proposals, \<open>analysis\<close> and
  \<open>recommendation\<close> \<^verbatim>\<open>null\<close>.
\<close>

theorem comparison_validation:
  "((\<exists>e. validateComparison c = Inl e) \<longleftrightarrow>
       \<not> (header_ok c \<and> list_all entry_ok (elements (field c ''proposal_analysis''))))
   \<and> (validateComparison c = Inr c' \<longrightarrow>
         elements (field c' ''proposal_analysis'')
           = map repairAnalysis (elements (field c ''proposal_analysis'')))
   \<and> (entry_ok a \<longrightarrow>
         (\<forall>k. field (repairAnalysis a) k =
            (if (k = ''strengths'' \<or> k = ''weaknesses'' \<or> k = ''red_flags'') \<and> \<not> isArray (field a k)
             then JArr [] else field a k)))
   \<and> (truthy (rfp_structured_data r') \<and> ps' \<noteq> []
        \<and> fst (makeCompletionRequest oracle) = Inr content \<and> jsonParse content = Some c \<longrightarrow>
         compareProposals oracle jsonParse r' (ps' :: proposal list) = validateComparison c)
   \<and> (castObjectId (IdText i) = Inr rid \<and> find (\<lambda>r. rfp_oid r = rid) (db_rfps d) = Some r
        \<and> filter (\<lambda>p. p_rfp_id p = rid) (db_proposals d) = ps \<longrightarrow>
         (ps = [] \<longrightarrow>
            getComparison env d i =
              Inr \<lparr>cb_rfp_id = i, cb_rfp_title = rfp_title r, cb_proposal_count = 0,
                   cb_proposals = [], cb_analysis = JNull, cb_recommendation = JNull,
                   cb_summary = JStr ''No proposals have been received yet for this RFP.'',
                   cb_error = None\<rparr>)
       \<and> (ps \<noteq> [] \<and> compareProposals (env_oracle env) (env_jsonParse env) r ps = Inl err
            \<and> proposalViews (db_vendors d) ps = Inr views \<longrightarrow>
            getComparison env d i =
              Inr \<lparr>cb_rfp_id = i, cb_rfp_title = rfp_title r, cb_proposal_count = length ps,
                   cb_proposals = views, cb_analysis = JNull, cb_recommendation = JNull,
                   cb_summary = JStr ''AI comparison is temporarily unavailable. Please review proposals manually.'',
                   cb_error = Some ''AI service error''\<rparr>
            \<and> map pv_id views = map p_id ps
            \<and> map pv_raw_email_content views = map p_raw_email_content ps))"
proof -
  have a: "(\<exists>e. validateComparison c = Inl e) \<longleftrightarrow>
       \<not> (header_ok c \<and> list_all entry_ok (elements (field c ''proposal_analysis'')))"
    by (rule validateComparison_rejects)
  have b: "validateComparison c = Inr c' \<longrightarrow>
         elements (field c' ''proposal_analysis'')
           = map repairAnalysis (elements (field c ''proposal_analysis''))"
    using validateComparison_accepts(1) by blast
  have c: "entry_ok a \<longrightarrow>
         (\<forall>k. field (repairAnalysis a) k =
            (if (k = ''strengths'' \<or> k = ''weaknesses'' \<or> k = ''red_flags'') \<and> \<not> isArray (field a k)
             then JArr [] else field a k))"
    using repairAnalysis_field by blast
  have d: "truthy (rfp_structured_data r') \<and> ps' \<noteq> []
        \<and> fst (makeCompletionRequest oracle) = Inr content \<and> jsonParse content = Some c \<longrightarrow>
         compareProposals oracle jsonParse r' ps' = validateComparison c"
    using compareProposals_validates by blast
  have e: "castObjectId (IdText i) = Inr rid \<and> find (\<lambda>r. rfp_oid r = rid) (db_rfps d) = Some r
        \<and> filter (\<lambda>p. p_rfp_id p = rid) (db_proposals d) = ps \<longrightarrow>
         (ps = [] \<longrightarrow>
            getComparison env d i =
              Inr \<lparr>cb_rfp_id = i, cb_rfp_title = rfp_title r, cb_proposal_count = 0,
                   cb_proposals = [], cb_analysis = JNull, cb_recommendation = JNull,
                   cb_summary = JStr ''No proposals have been received yet for this RFP.'',
                   cb_error = None\<rparr>)
       \<and> (ps \<noteq> [] \<and> compareProposals (env_oracle env) (env_jsonParse env) r ps = Inl err
            \<and> proposalViews (db_vendors d) ps = Inr views \<longrightarrow>
            getComparison env d i =
              Inr \<lparr>cb_rfp_id = i, cb_rfp_title = rfp_title r, cb_proposal_count = length ps,
                   cb_proposals = views, cb_analysis = JNull, cb_recommendation = JNull,
                   cb_summary = JStr ''AI comparison is temporarily unavailable. Please review proposals manually.'',
                   cb_error = Some ''AI service error''\<rparr>
            \<and> map pv_id views = map p_id ps
            \<and> map pv_raw_email_content views = map p_raw_email_content ps)"
  proof (intro impI conjI)
    assume h: "castObjectId (IdText i) = Inr rid \<and> find (\<lambda>r. rfp_oid r = rid) (db_rfps d) = Some r
        \<and> filter (\<lambda>p. p_rfp_id p = rid) (db_proposals d) = ps"
    {
      assume "ps = []"
      with h show "getComparison env d i =
              Inr \<lparr>cb_rfp_id = i, cb_rfp_title = rfp_title r, cb_proposal_count = 0,
                   cb_proposals = [], cb_analysis = JNull, cb_recommendation = JNull,
                   cb_summary = JStr ''No proposals have been received yet for this RFP.'',
                   cb_error = None\<rparr>"
        using getComparison_none [of i rid d r env] by simp
    }
    assume f: "ps \<noteq> [] \<and> compareProposals (env_oracle env) (env_jsonParse env) r ps = Inl err
            \<and> proposalViews (db_vendors d) ps = Inr views"
    with h show "getComparison env d i =
              Inr \<lparr>cb_rfp_id = i, cb_rfp_title = rfp_title r, cb_proposal_count = length ps,
                   cb_proposals = views, cb_analysis = JNull, cb_recommendation = JNull,
                   cb_summary = JStr ''AI comparison is temporarily unavailable. Please review proposals manually.'',
                   cb_error = Some ''AI service error''\<rparr>"
      using getComparison_fallback [of i rid d r ps env err views] by simp
    from f proposalViews_fields [of "db_vendors d" ps views]
    show "map pv_id views = map p_id ps"
      "map pv_raw_email_content views = map p_raw_email_content ps"
      by simp_all
  qed
  show ?thesis
    by (rule conjI [OF a conjI [OF b conjI [OF c conjI [OF d e]]]])
qed

text \<open>
  C8 as stated fails: an output with the analysis list, the recommendation's vendor id
  and the summary all present is rejected for an entry without \<^verbatim>\<open>vendor_name\<close>.
\<close>

theorem entry_rejected_counterexample:
  "truthy (field ex_comparison_bad ''proposal_analysis'')
   \<and> isArray (field ex_comparison_bad ''proposal_analysis'')
   \<and> truthy (field (field ex_comparison_bad ''recommendation'') ''vendor_id'')
   \<and> truthy (field ex_comparison_bad ''summary'')
   \<and> validateComparison ex_comparison_bad
       = Inl (ErrorAt ''Proposal analysis at index '' 0 '' is missing required fields'')"
  by (simp add: ex_comparison_bad_def validateComparison_def)

lemma ex_comparison_rejected:
  "validateComparison ex_comparison_bad
     = Inl (ErrorAt ''Proposal analysis at index '' 0 '' is missing required fields'')"
  by (simp add: ex_comparison_bad_def validateComparison_def)

lemma ex_cast_lower:
  "castObjectId (IdText ''0123456789abcdef01234567'') = Inr ''0123456789abcdef01234567''"
  by (simp add: toLowerCase_def lower_ascii_def is_hex_digit_def)

lemma ex_find_rfp:
  "find (\<lambda>r. rfp_oid r = ''0123456789abcdef01234567'') (db_rfps ex_db) = Some ex_rfp"
  "find (\<lambda>r. rfp_oid r = ''0123456789abcdef01234567'') (db_rfps ex_db_answered) = Some ex_rfp"
  by (simp_all add: ex_db_answered_def ex_db_def ex_rfp_def)

lemma ex_proposals_of_rfp:
  "filter (\<lambda>p. p_rfp_id p = ''0123456789abcdef01234567'') (db_proposals ex_db) = []"
  "filter (\<lambda>p. p_rfp_id p = ''0123456789abcdef01234567'') (db_proposals ex_db_answered) = [ex_proposal]"
  by (simp_all add: ex_db_answered_def ex_db_def ex_proposal_def)

lemma ex_views:
  "\<exists>views. proposalViews (db_vendors ex_db_answered) [ex_proposal] = Inr views"
  by (simp add: ex_db_answered_def ex_db_def proposalView_def ex_proposal_def ex_vendor_def)

lemma ex_comparison_accepted:
  "\<exists>c'. validateComparison ex_comparison_good = Inr c'"
  by (simp add: ex_comparison_good_def ex_entry_def validateComparison_def Let_def)

lemma ex_entry_ok: "entry_ok ex_entry"
  by (simp add: entry_ok_def ex_entry_def)

text \<open>
  At the example stores: the request without proposals gets the marker; with one
  proposal and the rejected comparison, the answer lists the proposal with
  \<open>analysis\<close> \<^verbatim>\<open>null\<close>. The accepted comparison comes back with its entry
  repaired: the string in place of the strengths and the absent red flags are empty
  lists, the list of weaknesses and the vendor's name are as they were.
\<close>

theorem comparison_validation_witness:
  "(\<exists>e. validateComparison ex_comparison_bad = Inl e)
   \<and> getComparison ex_env ex_db ''0123456789abcdef01234567'' =
        Inr \<lparr>cb_rfp_id = ''0123456789abcdef01234567'', cb_rfp_title = ''Chairs'',
             cb_proposal_count = 0, cb_proposals = [], cb_analysis = JNull,
             cb_recommendation = JNull,
             cb_summary = JStr ''No proposals have been received yet for this RFP.'',
             cb_error = None\<rparr>
   \<and> (\<exists>views. getComparison ex_env_cmp ex_db_answered ''0123456789abcdef01234567'' =
          Inr \<lparr>cb_rfp_id = ''0123456789abcdef01234567'', cb_rfp_title = ''Chairs'',
               cb_proposal_count = 1, cb_proposals = views, cb_analysis = JNull,
               cb_recommendation = JNull,
               cb_summary = JStr ''AI comparison is temporarily unavailable. Please review proposals manually.'',
               cb_error = Some ''AI service error''\<rparr>
        \<and> map pv_id views = [7])
   \<and> (\<exists>c'. validateComparison ex_comparison_good = Inr c'
          \<and> elements (field c' ''proposal_analysis'')
               = map repairAnalysis (elements (field ex_comparison_good ''proposal_analysis'')))
   \<and> field (repairAnalysis ex_entry) ''strengths'' = JArr []
   \<and> field (repairAnalysis ex_entry) ''weaknesses'' = JArr [JStr ''slow'']
   \<and> field (repairAnalysis ex_entry) ''red_flags'' = JArr []
   \<and> field (repairAnalysis ex_entry) ''vendor_name'' = JStr ''V1''"
proof -
  from ex_views obtain views where
    views: "proposalViews (db_vendors ex_db_answered) [ex_proposal] = Inr views" by blast
  let ?err = "ErrorAt ''Proposal analysis at index '' 0 '' is missing required fields''"
  note t = comparison_validation [of ex_comparison_bad _ _ ex_rfp "[ex_proposal]"
      "env_oracle ex_env_cmp" "''comparison''" "env_jsonParse ex_env_cmp"
      "''0123456789abcdef01234567''" "''0123456789abcdef01234567''"]
  have not_ok: "\<not> (header_ok ex_comparison_bad
                  \<and> list_all entry_ok (elements (field ex_comparison_bad ''proposal_analysis'')))"
    by (simp add: ex_comparison_bad_def entry_ok_def)
  note rejected = iffD2 [OF t [THEN conjunct1] not_ok]
  have pre: "truthy (rfp_structured_data ex_rfp) \<and> [ex_proposal] \<noteq> []
        \<and> fst (makeCompletionRequest (env_oracle ex_env_cmp)) = Inr ''comparison''
        \<and> env_jsonParse ex_env_cmp ''comparison'' = Some ex_comparison_bad"
    by (simp add: ex_rfp_def ex_env_cmp_def makeCompletionRequest_def maxRetries_def numeral_3_eq_3)
  from t [THEN conjunct2, THEN conjunct2, THEN conjunct2, THEN conjunct1, THEN mp, OF pre]
  have cmp: "compareProposals (env_oracle ex_env_cmp) (env_jsonParse ex_env_cmp) ex_rfp [ex_proposal] = Inl ?err"
    by (simp add: ex_comparison_rejected)
  note last = t [THEN conjunct2, THEN conjunct2, THEN conjunct2, THEN conjunct2]
  have h0: "castObjectId (IdText ''0123456789abcdef01234567'') = Inr ''0123456789abcdef01234567''
        \<and> find (\<lambda>r. rfp_oid r = ''0123456789abcdef01234567'') (db_rfps ex_db) = Some ex_rfp
        \<and> filter (\<lambda>p. p_rfp_id p = ''0123456789abcdef01234567'') (db_proposals ex_db) = []"
    by (rule conjI [OF ex_cast_lower conjI [OF ex_find_rfp(1) ex_proposals_of_rfp(1)]])
  from last [of ex_db ex_rfp "[]" ex_env, THEN mp, OF h0, THEN conjunct1]
  have none: "getComparison ex_env ex_db ''0123456789abcdef01234567'' =
        Inr \<lparr>cb_rfp_id = ''0123456789abcdef01234567'', cb_rfp_title = ''Chairs'',
             cb_proposal_count = 0, cb_proposals = [], cb_analysis = JNull,
             cb_recommendation = JNull,
             cb_summary = JStr ''No proposals have been received yet for this RFP.'',
             cb_error = None\<rparr>"
    by (simp add: ex_rfp_def)
  have h1: "castObjectId (IdText ''0123456789abcdef01234567'') = Inr ''0123456789abcdef01234567''
        \<and> find (\<lambda>r. rfp_oid r = ''0123456789abcdef01234567'') (db_rfps ex_db_answered) = Some ex_rfp
        \<and> filter (\<lambda>p. p_rfp_id p = ''0123456789abcdef01234567'') (db_proposals ex_db_answered) = [ex_proposal]"
    by (rule conjI [OF ex_cast_lower conjI [OF ex_find_rfp(2) ex_proposals_of_rfp(2)]])
  have h2: "[ex_proposal] \<noteq> []
            \<and> compareProposals (env_oracle ex_env_cmp) (env_jsonParse ex_env_cmp) ex_rfp [ex_proposal] = Inl ?err
            \<and> proposalViews (db_vendors ex_db_answered) [ex_proposal] = Inr views"
    by (intro conjI) (simp, rule cmp, rule views)
  from last [of ex_db_answered ex_rfp "[ex_proposal]" ex_env_cmp ?err views, THEN mp, OF h1,
      THEN conjunct2, THEN mp, OF h2]
  have fb: "getComparison ex_env_cmp ex_db_answered ''0123456789abcdef01234567'' =
          Inr \<lparr>cb_rfp_id = ''0123456789abcdef01234567'', cb_rfp_title = ''Chairs'',
               cb_proposal_count = 1, cb_proposals = views, cb_analysis = JNull,
               cb_recommendation = JNull,
               cb_summary = JStr ''AI comparison is temporarily unavailable. Please review proposals manually.'',
               cb_error = Some ''AI service error''\<rparr>
        \<and> map pv_id views = [7]"
    by (simp add: ex_rfp_def ex_proposal_def)
  from ex_comparison_accepted obtain c' where acc: "validateComparison ex_comparison_good = Inr c'"
    by blast
  note g = comparison_validation [of ex_comparison_good c' ex_entry]
  note repaired_list = g [THEN conjunct2, THEN conjunct1, THEN mp, OF acc]
  have accepted: "\<exists>c'. validateComparison ex_comparison_good = Inr c'
          \<and> elements (field c' ''proposal_analysis'')
               = map repairAnalysis (elements (field ex_comparison_good ''proposal_analysis''))"
    using acc repaired_list by blast
  note rep = g [THEN conjunct2, THEN conjunct2, THEN conjunct1, THEN mp, OF ex_entry_ok, rule_format]
  have r1: "field (repairAnalysis ex_entry) ''strengths'' = JArr []"
    by (subst rep) (simp add: ex_entry_def)
  have r2: "field (repairAnalysis ex_entry) ''weaknesses'' = JArr [JStr ''slow'']"
    by (subst rep) (simp add: ex_entry_def)
  have r3: "field (repairAnalysis ex_entry) ''red_flags'' = JArr []"
    by (subst rep) (simp add: ex_entry_def)
  have r4: "field (repairAnalysis ex_entry) ''vendor_name'' = JStr ''V1''"
    by (subst rep) (simp add: ex_entry_def)
  have fallback: "\<exists>views. getComparison ex_env_cmp ex_db_answered ''0123456789abcdef01234567'' =
          Inr \<lparr>cb_rfp_id = ''0123456789abcdef01234567'', cb_rfp_title = ''Chairs'',
               cb_proposal_count = 1, cb_proposals = views, cb_analysis = JNull,
               cb_recommendation = JNull,
               cb_summary = JStr ''AI comparison is temporarily unavailable. Please review proposals manually.'',
               cb_error = Some ''AI service error''\<rparr>
        \<and> map pv_id views = [7]"
    by (rule exI [of _ views]) (rule fb)
  show ?thesis
    by (rule conjI [OF rejected conjI [OF none conjI [OF fallback conjI [OF accepted
          conjI [OF r1 conjI [OF r2 conjI [OF r3 r4]]]]]]])
qed

section \<open>Create-if-absent under interleaving\<close>

lemma serial_run:
  "run_schedule env [0, 0] (d, [Pending e])
     = (fst (processReceivedEmail env d e), [Finished (snd (processReceivedEmail env d e))])"
  by (cases "poll_check d e")
     (auto simp: advance_def processReceivedEmail_def split: prod.splits)

lemma unique_pairs_snoc:
  assumes "unique_pairs d" "findProposal d rid vid = None" "pair_of p = (rid, vid)"
    "db_proposals d' = db_proposals d @ [p]"
  shows "unique_pairs d'"
proof -
  from assms(2) have "\<forall>q\<in>set (db_proposals d). pair_of q \<noteq> (rid, vid)"
    by (auto simp: findProposal_def find_None_iff pair_of_def)
  with assms show ?thesis
    by (auto simp: unique_pairs_def)
qed

lemma polling_keeps_unique:
  assumes "unique_pairs d"
  shows "unique_pairs (fst (processReceivedEmail env d e))"
proof (cases "poll_check d e")
  case (Stop res)
  with assms show ?thesis by (simp add: processReceivedEmail_Stop)
next
  case (Go rid rfpId vid)
  show ?thesis
    unfolding processReceivedEmail_Go [OF Go]
    by (rule unique_pairs_snoc [OF assms poll_check_Go(4) [OF Go]])
       (simp_all add: pair_of_def newProposal_def)
qed

lemma webhook_keeps_unique:
  assumes "unique_pairs d"
  shows "unique_pairs (fst (receiveProposal env d e))"
proof (cases "hook_check d e")
  case (HookStop x)
  with assms show ?thesis by (simp add: receiveProposal_def)
next
  case (HookGo rid vid)
  show ?thesis
  proof (cases "attempted env (parseProposal (env_oracle env) (env_jsonParse env) (ArgEmail e))
               (newProposal d rid vid e (env_now env))")
    case None
    show ?thesis
      unfolding receiveProposal_refused [OF HookGo None]
      by (rule unique_pairs_snoc [OF assms hook_check_Go(4) [OF HookGo]])
         (simp_all add: pair_of_def newProposal_def)
  next
    case (Some p')
    from receiveProposal_attempted [OF HookGo Some]
    obtain v where run: "receiveProposal env d e =
            (d\<lparr>db_proposals := db_proposals d @ [p'],
                db_rfps := set_status (db_rfps d) rid ReceivingProposals\<rparr>, Inr (p', v))"
      by blast
    show ?thesis
      unfolding run
      by (rule unique_pairs_snoc [OF assms hook_check_Go(4) [OF HookGo]])
         (simp_all add: pair_of_def attempted_same(2,3) [OF Some] newProposal_def)
  qed
qed

lemma processAll_keeps_unique:
  "unique_pairs d \<Longrightarrow> unique_pairs (processAll env d emails)"
  unfolding processAll_def
  by (induction emails arbitrary: d) (simp_all add: polling_keeps_unique)

text \<open>
  C9, as the code has it. Create-if-absent is a lookup (\<^verbatim>\<open>Proposal.findOne\<close>)
  followed by an insert (\<^verbatim>\<open>proposal.save()\<close>), and the index on
  \<open>(rfp_id, vendor_id)\<close> is not unique. A run whose two steps follow each other is
  \<^verbatim>\<open>processReceivedEmail\<close> itself; such runs, one after the other, in either path,
  keep a store with at most one proposal per pair that way.
\<close>

theorem check_then_insert:
  "run_schedule env [0, 0] (d, [Pending e])
     = (fst (processReceivedEmail env d e), [Finished (snd (processReceivedEmail env d e))])
   \<and> (unique_pairs d \<longrightarrow>
         unique_pairs (fst (processReceivedEmail env d e))
       \<and> unique_pairs (fst (receiveProposal env d e))
       \<and> unique_pairs (processAll env d emails))"
  using serial_run polling_keeps_unique webhook_keeps_unique processAll_keeps_unique by blast

lemma advance_pending_go:
  "poll_check d e = Go rid rfpId vid \<Longrightarrow> advance env d (Pending e) = (d, Cleared e rid rfpId vid)"
  by (simp add: advance_def)

lemma advance_cleared:
  "advance env d (Cleared e rid rfpId vid) =
     (d\<lparr>db_proposals := db_proposals d @
          [(newProposal d rid vid e
              (case em_date e of Some t \<Rightarrow> t | None \<Rightarrow> env_now env))\<lparr>p_requires_review := True\<rparr>],
        db_rfps := (case find (\<lambda>r. rfp_oid r = rid) (db_rfps d) of
                      Some r \<Rightarrow> if rfp_status r = Sent then set_status (db_rfps d) rid ReceivingProposals
                                else db_rfps d
                    | None \<Rightarrow> db_rfps d)\<rparr>,
      Finished (PollSuccess (fresh_id d) rfpId vid))"
  by (simp add: advance_def poll_insert_result)

lemma racing_runs:
  assumes go: "poll_check d e = Go rid rfpId vid"
  shows "\<exists>d'. run_schedule env [0, 1, 0, 1] (d, [Pending e, Pending e])
            = (d', [Finished (PollSuccess (fresh_id d) rfpId vid),
                    Finished (PollSuccess (Suc (fresh_id d)) rfpId vid)])
          \<and> map pair_of (db_proposals d') = map pair_of (db_proposals d) @ [(rid, vid), (rid, vid)]"
proof -
  let ?p = "(newProposal d rid vid e
              (case em_date e of Some t \<Rightarrow> t | None \<Rightarrow> env_now env))\<lparr>p_requires_review := True\<rparr>"
  let ?d1 = "d\<lparr>db_proposals := db_proposals d @ [?p],
        db_rfps := (case find (\<lambda>r. rfp_oid r = rid) (db_rfps d) of
                      Some r \<Rightarrow> if rfp_status r = Sent then set_status (db_rfps d) rid ReceivingProposals
                                else db_rfps d
                    | None \<Rightarrow> db_rfps d)\<rparr>"
  have s1: "run_schedule env [0, 1, 0, 1] (d, [Pending e, Pending e])
          = run_schedule env [0, 1] (d, [Cleared e rid rfpId vid, Cleared e rid rfpId vid])"
    by (simp add: advance_pending_go [OF go])
  have a1: "advance env d (Cleared e rid rfpId vid) = (?d1, Finished (PollSuccess (fresh_id d) rfpId vid))"
    by (rule advance_cleared)
  have s2: "run_schedule env [0, 1] (d, [Cleared e rid rfpId vid, Cleared e rid rfpId vid])
          = run_schedule env [1] (?d1, [Finished (PollSuccess (fresh_id d) rfpId vid), Cleared e rid rfpId vid])"
    by (simp add: a1 del: advance_cleared)
  obtain d2 where a2: "advance env ?d1 (Cleared e rid rfpId vid)
      = (d2, Finished (PollSuccess (fresh_id ?d1) rfpId vid))"
    and ps2: "db_proposals d2 = db_proposals ?d1 @
       [(newProposal ?d1 rid vid e
              (case em_date e of Some t \<Rightarrow> t | None \<Rightarrow> env_now env))\<lparr>p_requires_review := True\<rparr>]"
    by (simp add: advance_cleared)
  have s3: "run_schedule env [1] (?d1, [Finished (PollSuccess (fresh_id d) rfpId vid), Cleared e rid rfpId vid])
          = (d2, [Finished (PollSuccess (fresh_id d) rfpId vid), Finished (PollSuccess (fresh_id ?d1) rfpId vid)])"
    by (simp add: a2)
  have pid: "p_id ?p = fresh_id d" by (simp add: newProposal_def)
  have mono: "fold max (map p_id (db_proposals d)) 0 \<le> fresh_id d"
    by (simp add: fresh_id_def)
  have f1: "fresh_id ?d1 = Suc (fresh_id d)"
    using pid mono by (simp add: fresh_id_def max_def)
  have pairs: "map pair_of (db_proposals d2) = map pair_of (db_proposals d) @ [(rid, vid), (rid, vid)]"
    by (simp add: ps2 pair_of_def newProposal_def)
  from s1 s2 s3 f1 pairs show ?thesis by simp
qed

text \<open>
  C9 as stated fails: two runs on the same email that both look up before either
  inserts both succeed and leave two proposals of the one pair.
\<close>

theorem concurrent_runs_counterexample:
  "unique_pairs ex_db
   \<and> map pair_of (db_proposals (fst (run_schedule ex_env [0, 1, 0, 1]
                                        (ex_db, [Pending ex_email, Pending ex_email]))))
       = [(''0123456789abcdef01234567'', ''aaaaaaaaaaaaaaaaaaaaaaa1''),
          (''0123456789abcdef01234567'', ''aaaaaaaaaaaaaaaaaaaaaaa1'')]
   \<and> \<not> unique_pairs (fst (run_schedule ex_env [0, 1, 0, 1]
                                        (ex_db, [Pending ex_email, Pending ex_email])))
   \<and> snd (run_schedule ex_env [0, 1, 0, 1] (ex_db, [Pending ex_email, Pending ex_email]))
       = [Finished (PollSuccess 1 (IdText ''0123456789ABCDEF01234567'') ''aaaaaaaaaaaaaaaaaaaaaaa1''),
          Finished (PollSuccess 2 (IdText ''0123456789ABCDEF01234567'') ''aaaaaaaaaaaaaaaaaaaaaaa1'')]"
proof -
  have u: "unique_pairs ex_db" by (simp add: unique_pairs_def ex_db_def)
  have none: "db_proposals ex_db = []" by (simp add: ex_db_def)
  have one: "fresh_id ex_db = 1" by (simp add: fresh_id_def none)
  from racing_runs [OF ex_poll_check, of ex_env] obtain d' where
    run: "run_schedule ex_env [0, 1, 0, 1] (ex_db, [Pending ex_email, Pending ex_email])
            = (d', [Finished (PollSuccess (fresh_id ex_db) (IdText ''0123456789ABCDEF01234567'') ''aaaaaaaaaaaaaaaaaaaaaaa1''),
                    Finished (PollSuccess (Suc (fresh_id ex_db)) (IdText ''0123456789ABCDEF01234567'') ''aaaaaaaaaaaaaaaaaaaaaaa1'')])"
    and pairs: "map pair_of (db_proposals d') = map pair_of (db_proposals ex_db) @
          [(''0123456789abcdef01234567'', ''aaaaaaaaaaaaaaaaaaaaaaa1''),
           (''0123456789abcdef01234567'', ''aaaaaaaaaaaaaaaaaaaaaaa1'')]"
    by blast
  have pairs': "map pair_of (db_proposals d') =
          [(''0123456789abcdef01234567'', ''aaaaaaaaaaaaaaaaaaaaaaa1''),
           (''0123456789abcdef01234567'', ''aaaaaaaaaaaaaaaaaaaaaaa1'')]"
    using pairs none by simp
  then have nu: "\<not> unique_pairs d'" by (simp add: unique_pairs_def)
  show ?thesis
    unfolding run fst_conv snd_conv one
    using u pairs' nu by simp
qed

lemma ex_unique: "unique_pairs ex_db"
  by (simp add: unique_pairs_def ex_db_def)

lemma ex_twice:
  "map pair_of (db_proposals (processAll ex_env ex_db [ex_email, ex_email]))
     = [(''0123456789abcdef01234567'', ''aaaaaaaaaaaaaaaaaaaaaaa1'')]"
proof -
  from poll_second_submission [OF ex_poll_check, of ex_env ex_env] obtain d1 pid where
    first: "processReceivedEmail ex_env ex_db ex_email
              = (d1, PollSuccess pid (IdText ''0123456789ABCDEF01234567'') ''aaaaaaaaaaaaaaaaaaaaaaa1'')"
    and second: "processReceivedEmail ex_env d1 ex_email = (d1, DuplicateProposal pid)"
    by blast
  have all: "processAll ex_env ex_db [ex_email, ex_email] = d1"
    by (simp add: processAll_def first second)
  have "db_proposals ex_db = []" by (simp add: ex_db_def)
  with first have "map pair_of (db_proposals d1) = [(''0123456789abcdef01234567'', ''aaaaaaaaaaaaaaaaaaaaaaa1'')]"
    unfolding processReceivedEmail_Go [OF ex_poll_check]
    by (auto simp: pair_of_def newProposal_def)
  with all show ?thesis by simp
qed

text \<open>The same email twice, one run after the other, leaves one proposal.\<close>

theorem check_then_insert_witness:
  "unique_pairs ex_db
   \<and> unique_pairs (fst (processReceivedEmail ex_env ex_db ex_email))
   \<and> unique_pairs (fst (receiveProposal ex_env ex_db ex_email))
   \<and> unique_pairs (processAll ex_env ex_db [ex_email, ex_email])
   \<and> map pair_of (db_proposals (processAll ex_env ex_db [ex_email, ex_email]))
       = [(''0123456789abcdef01234567'', ''aaaaaaaaaaaaaaaaaaaaaaa1'')]"
proof -
  note t = check_then_insert [of ex_env ex_db ex_email "[ex_email, ex_email]",
      THEN conjunct2, THEN mp, OF ex_unique]
  show ?thesis
    by (rule conjI [OF ex_unique conjI [OF t [THEN conjunct1]
          conjI [OF t [THEN conjunct2, THEN conjunct1]
            conjI [OF t [THEN conjunct2, THEN conjunct2] ex_twice]]]])
qed

end
